(* ===== verification/Prelude.thy ===== *)
theory Prelude
  imports Main "HOL-Library.Word"
begin

text \<open>
  Shared vocabulary of the development: the machine types of the C code
  (\<open>unsigned char\<close>, \<open>unsigned short\<close>, \<open>unsigned\<close>) as words, colour tuples,
  the pixel count \<open>w * h\<close> computed in 32-bit unsigned arithmetic as the C code
  does, the collection \<open>png_simps\<close> of evaluation rules the component theories
  register, and generic lemmas on lists and words that several components use.
\<close>

unbundle bit_operations_syntax

type_synonym byte = "8 word"
type_synonym u16 = "16 word"
type_synonym u32 = "32 word"

text \<open>An RGBA colour at 8 and at 16 bits per channel, in the order (r, g, b, a).\<close>

type_synonym rgba8 = "byte \<times> byte \<times> byte \<times> byte"
type_synonym rgba16 = "u16 \<times> u16 \<times> u16 \<times> u16"

named_theorems png_simps "evaluation rules of the PNG reduction model"

text \<open>
  \<open>size_t numpixels = w * h;\<close> with \<open>w\<close> and \<open>h\<close> of type \<open>unsigned\<close>: the product
  is taken modulo \<open>2^32\<close> before it is widened.
\<close>

definition numpixels :: "u32 \<Rightarrow> u32 \<Rightarrow> nat" where
  "numpixels w h = unat (w * h)"

text \<open>\<open>*p\<close> for a pointer \<open>p\<close> into a byte buffer, undefined past its end.\<close>

definition read_at :: "byte list \<Rightarrow> nat \<Rightarrow> byte option" where
  "read_at xs pos = (if pos < length xs then Some (xs ! pos) else None)"

subsection \<open>Generic lemmas\<close>

lemma numpixels_small [simp]:
  "unat w * unat h < 2 ^ 32 \<Longrightarrow> numpixels w h = unat w * unat h"
  by (simp add: numpixels_def unat_mult_lem [THEN iffD1])

lemma numpixels_wraps: "numpixels w h = (unat w * unat h) mod 2 ^ 32"
  by (simp add: numpixels_def unat_word_ariths)

lemma nth_list_update_other [simp]:
  "j \<noteq> i \<Longrightarrow> xs[i := v] ! j = xs ! j"
  by simp

lemma length_fold_list_update [simp]:
  "length (fold (\<lambda>k ys. ys[f k := g k]) ks xs) = length xs"
  by (induction ks arbitrary: xs) simp_all

lemma unat_byte_less [simp]: "unat (x :: byte) < 256"
  using unsigned_less [of x] by simp

lemma unat_u16_less [simp]: "unat (x :: u16) < 65536"
  using unsigned_less [of x] by simp

lemma unat_ucast_byte_u16 [simp]: "unat (ucast (x :: byte) :: u16) = unat x"
proof -
  have "unat x < 2 ^ 16"
    by (rule less_le_trans [OF unat_byte_less]) simp
  then show ?thesis by (simp add: unsigned_ucast_eq take_bit_nat_eq_self)
qed

lemma ucast_byte_u16_eq [simp]:
  "((ucast (x :: byte) :: u16) = ucast y) = (x = y)"
  by (metis unat_ucast_byte_u16 word_unat_eq_iff)

lemma byte_not_less_255: "\<not> (a :: byte) < 255 \<longleftrightarrow> a = 255"
proof -
  have "unat a < 256" by simp
  then have "\<not> unat a < 255 \<longleftrightarrow> unat a = 255" by linarith
  then show ?thesis by (simp add: word_less_nat_alt word_unat_eq_iff)
qed

lemma all_less_list_all: "(\<forall>i < n. P i) = list_all P [0..<n]"
  by (auto simp: list_all_iff)

lemma ex_less_list_ex: "(\<exists>i < n. P i) = list_ex P [0..<n]"
  by (auto simp: list_ex_iff)

lemma fold_copy_prefix:
  "n \<le> length out \<Longrightarrow> n \<le> length inp \<Longrightarrow>
   fold (\<lambda>k ob. ob[k := inp ! k]) [0..<n] out = take n inp @ drop n out"
proof (induction n)
  case 0
  then show ?case by simp
next
  case (Suc n)
  then have "fold (\<lambda>k ob. ob[k := inp ! k]) [0..<n] out = take n inp @ drop n out" by simp
  moreover have "(take n inp @ drop n out)[n := inp ! n] = take (Suc n) inp @ drop (Suc n) out"
    using Suc.prems by (simp add: list_update_append take_Suc_conv_app_nth Cons_nth_drop_Suc [symmetric])
  ultimately show ?case by simp
qed

lemma byte_half: "drop_bit (Suc 0) (x :: byte) = word_of_nat (unat x div 2)"
proof -
  have "unat x div 2 < 256" using unat_byte_less [of x] by linarith
  then have "unat (word_of_nat (unat x div 2) :: byte) = unat x div 2"
    by (simp add: unat_of_nat take_bit_nat_eq_self)
  moreover have "unat (drop_bit (Suc 0) x) = unat x div 2"
    by (simp only: unat_drop_bit_eq) (simp add: drop_bit_eq_div)
  ultimately show ?thesis by (simp add: word_unat_eq_iff)
qed

lemma length_concat_map_upt:
  "\<forall>i < k. length (f i) = c \<Longrightarrow> length (concat (map f [0..<k])) = k * c"
  by (induction k) auto

lemma length_ge4_cons: "4 \<le> length xs \<Longrightarrow> \<exists>a b c d ys. xs = a # b # c # d # ys"
  by (auto simp: numeral_eq_Suc Suc_le_length_iff)

lemma length_eq4: "length xs = 4 \<Longrightarrow> \<exists>a b c d. xs = [a, b, c, d]"
  by (auto simp: numeral_eq_Suc length_Suc_conv)

lemma fold_copy_at:
  "length xs = k \<Longrightarrow> length zs = length data \<Longrightarrow> m \<le> length data \<Longrightarrow>
   fold (\<lambda>i b. b[k + i := data ! i]) [0..<m] (xs @ zs @ ys) = xs @ take m data @ drop m zs @ ys"
proof (induction m)
  case 0
  then show ?case by simp
next
  case (Suc m)
  then have "fold (\<lambda>i b. b[k + i := data ! i]) [0..<Suc m] (xs @ zs @ ys) =
      (xs @ take m data @ drop m zs @ ys)[k + m := data ! m]" by simp
  also have "\<dots> = xs @ take (Suc m) data @ drop (Suc m) zs @ ys"
    using Suc.prems by (simp add: list_update_append take_Suc_conv_app_nth Cons_nth_drop_Suc [symmetric])
  finally show ?case .
qed

end
