(* ===== verification/ColorMode.thy ===== *)
theory ColorMode
  imports Prelude
begin

text \<open>
  The colour-mode descriptor \<open>LodePNGColorMode\<close> of \<^verbatim>\<open>src/pngtest.c\<close> and its
  queries: colour type, bit depth, palette (RGBA entries, its length being the
  C field \<open>palettesize\<close>), transparent colour key. Bits per pixel, the legal
  (colour type, bit depth) pairs, the palette helpers, structural equality and
  the raw buffer size. Allocation failures of the palette helpers are not
  modelled: \<open>malloc\<close> is assumed to succeed.
\<close>

datatype colortype = LCT_GREY | LCT_RGB | LCT_PALETTE | LCT_GREY_ALPHA | LCT_RGBA

text \<open>The numeric values of the C enumeration.\<close>

primrec lct_code :: "colortype \<Rightarrow> nat" where
  "lct_code LCT_GREY = 0"
| "lct_code LCT_RGB = 2"
| "lct_code LCT_PALETTE = 3"
| "lct_code LCT_GREY_ALPHA = 4"
| "lct_code LCT_RGBA = 6"

record color_mode =
  colortype :: colortype
  bitdepth :: nat
  palette :: "rgba8 list"
  key_defined :: bool
  key_r :: nat
  key_g :: nat
  key_b :: nat

abbreviation palettesize :: "color_mode \<Rightarrow> nat" where
  "palettesize m \<equiv> length (palette m)"

definition lodepng_is_greyscale_type :: "color_mode \<Rightarrow> bool" where
  "lodepng_is_greyscale_type info =
     (colortype info = LCT_GREY \<or> colortype info = LCT_GREY_ALPHA)"

definition lodepng_is_alpha_type :: "color_mode \<Rightarrow> bool" where
  "lodepng_is_alpha_type info = (lct_code (colortype info) AND 4 \<noteq> 0)"

definition lodepng_is_palette_type :: "color_mode \<Rightarrow> bool" where
  "lodepng_is_palette_type info = (colortype info = LCT_PALETTE)"

fun palette_has_alpha :: "rgba8 list \<Rightarrow> bool" where
  "palette_has_alpha [] = False"
| "palette_has_alpha ((r, g, b, a) # ps) = (if a < 255 then True else palette_has_alpha ps)"

definition lodepng_has_palette_alpha :: "color_mode \<Rightarrow> bool" where
  "lodepng_has_palette_alpha info = palette_has_alpha (palette info)"

definition lodepng_can_have_alpha :: "color_mode \<Rightarrow> bool" where
  "lodepng_can_have_alpha info =
     (key_defined info \<or> lodepng_is_alpha_type info \<or> lodepng_has_palette_alpha info)"

primrec getNumColorChannels :: "colortype \<Rightarrow> nat" where
  "getNumColorChannels LCT_GREY = 1"
| "getNumColorChannels LCT_RGB = 3"
| "getNumColorChannels LCT_PALETTE = 1"
| "getNumColorChannels LCT_GREY_ALPHA = 2"
| "getNumColorChannels LCT_RGBA = 4"

definition lodepng_get_bpp_lct :: "colortype \<Rightarrow> nat \<Rightarrow> nat" where
  "lodepng_get_bpp_lct ct bd = getNumColorChannels ct * bd"

definition lodepng_get_bpp :: "color_mode \<Rightarrow> nat" where
  "lodepng_get_bpp info = lodepng_get_bpp_lct (colortype info) (bitdepth info)"

definition lodepng_color_mode_init :: color_mode where
  "lodepng_color_mode_init =
     \<lparr>colortype = LCT_RGBA, bitdepth = 8, palette = [], key_defined = False,
      key_r = 0, key_g = 0, key_b = 0\<rparr>"

definition lodepng_palette_clear :: "color_mode \<Rightarrow> color_mode" where
  "lodepng_palette_clear info = info\<lparr>palette := []\<rparr>"

text \<open>
  \<open>*dest = *source\<close> followed by a copy of the palette: the copy is the source
  mode. Allocation failure (error 83) is not modelled.
\<close>

text \<open>\<open>lodepng_color_mode_cleanup\<close>: frees the palette, i.e. clears it.\<close>

definition lodepng_color_mode_cleanup :: "color_mode \<Rightarrow> color_mode" where
  "lodepng_color_mode_cleanup info = lodepng_palette_clear info"

definition lodepng_color_mode_copy :: "color_mode \<Rightarrow> color_mode \<Rightarrow> color_mode" where
  "lodepng_color_mode_copy dest source = source"

definition lodepng_palette_add :: "color_mode \<Rightarrow> byte \<Rightarrow> byte \<Rightarrow> byte \<Rightarrow> byte \<Rightarrow> color_mode" where
  "lodepng_palette_add info r g b a = info\<lparr>palette := palette info @ [(r, g, b, a)]\<rparr>"

text \<open>
  \<open>checkColorValidity\<close>: 0 for a legal pair, 37 for an illegal bit depth. The
  \<open>default\<close> branch (error 31) is unreachable for the five enumeration values.
\<close>

fun checkColorValidity :: "colortype \<Rightarrow> nat \<Rightarrow> nat" where
  "checkColorValidity LCT_GREY bd =
     (if bd = 1 \<or> bd = 2 \<or> bd = 4 \<or> bd = 8 \<or> bd = 16 then 0 else 37)"
| "checkColorValidity LCT_RGB bd = (if bd = 8 \<or> bd = 16 then 0 else 37)"
| "checkColorValidity LCT_PALETTE bd =
     (if bd = 1 \<or> bd = 2 \<or> bd = 4 \<or> bd = 8 then 0 else 37)"
| "checkColorValidity LCT_GREY_ALPHA bd = (if bd = 8 \<or> bd = 16 then 0 else 37)"
| "checkColorValidity LCT_RGBA bd = (if bd = 8 \<or> bd = 16 then 0 else 37)"

text \<open>
  \<open>lodepng_color_mode_equal\<close>, with its early returns. The wildcard test for an
  empty palette is commented out in the source (\<open>if(1/*...*/)\<close>), so palette
  sizes and contents are always compared.
\<close>

definition lodepng_color_mode_equal :: "color_mode \<Rightarrow> color_mode \<Rightarrow> bool" where
  "lodepng_color_mode_equal a b =
     (if colortype a \<noteq> colortype b then False
      else if bitdepth a \<noteq> bitdepth b then False
      else if key_defined a \<noteq> key_defined b then False
      else if key_defined a \<and> (key_r a \<noteq> key_r b \<or> key_g a \<noteq> key_g b \<or> key_b a \<noteq> key_b b)
        then False
      else if palettesize a \<noteq> palettesize b then False
      else palette a = palette b)"

definition lodepng_get_raw_size :: "u32 \<Rightarrow> u32 \<Rightarrow> color_mode \<Rightarrow> nat" where
  "lodepng_get_raw_size w h color =
     (let bpp = lodepng_get_bpp color; n = numpixels w h
      in (n div 8) * bpp + ((n mod 8) * bpp + 7) div 8)"

subsection \<open>Properties\<close>

lemma lodepng_is_alpha_type_iff:
  "lodepng_is_alpha_type info = (colortype info = LCT_GREY_ALPHA \<or> colortype info = LCT_RGBA)"
  by (cases "colortype info") (simp_all add: lodepng_is_alpha_type_def)

lemma palette_has_alpha_iff: "palette_has_alpha ps = (\<exists>(r, g, b, a) \<in> set ps. a < 255)"
  by (induction ps rule: palette_has_alpha.induct) auto

lemma checkColorValidity_bpp:
  "checkColorValidity ct bd = 0 \<Longrightarrow>
   lodepng_get_bpp_lct ct bd \<in> {1, 2, 4, 8, 16, 24, 32, 48, 64}"
  by (cases ct) (auto simp: lodepng_get_bpp_lct_def split: if_splits)

lemma lodepng_color_mode_equal_iff:
  "lodepng_color_mode_equal a b =
     (colortype a = colortype b \<and> bitdepth a = bitdepth b \<and> key_defined a = key_defined b \<and>
      (key_defined a \<longrightarrow> key_r a = key_r b \<and> key_g a = key_g b \<and> key_b a = key_b b) \<and>
      palette a = palette b)"
  by (auto simp: lodepng_color_mode_equal_def)

lemma lodepng_color_mode_equal_refl: "lodepng_color_mode_equal a a"
  by (simp add: lodepng_color_mode_equal_iff)

text \<open>
  C1. The raw buffer size computed by \<open>lodepng_get_raw_size\<close> in two parts (whole
  groups of 8 pixels, then the rest) equals \<open>ceil(n * bpp / 8)\<close> bytes, with \<open>n\<close>
  the 32-bit pixel count.
\<close>

lemma lodepng_get_raw_size_ceil:
  "lodepng_get_raw_size w h color = (numpixels w h * lodepng_get_bpp color + 7) div 8"
proof -
  define n where "n = numpixels w h"
  define b where "b = lodepng_get_bpp color"
  have "b * n = b * (n mod 8) + b * (8 * (n div 8))"
    by (metis distrib_left mod_mult_div_eq)
  then have "n * b + 7 = (n mod 8 * b + 7) + (n div 8 * b) * 8"
    by (simp add: algebra_simps)
  then have "(n * b + 7) div 8 = n div 8 * b + (n mod 8 * b + 7) div 8"
    by simp
  then show ?thesis
    by (simp add: lodepng_get_raw_size_def n_def b_def Let_def)
qed

text \<open>
  The equality of colour modes has no wildcard for an empty palette,
  unlike the specification (4.2): the source comments the test out, so a mode
  with an empty palette differs from the same mode with a non-empty palette.
\<close>

theorem lodepng_color_mode_equal_empty_palette:
  "palette a = [] \<Longrightarrow> palette b \<noteq> [] \<Longrightarrow> \<not> lodepng_color_mode_equal a b"
  by (simp add: lodepng_color_mode_equal_def)

theorem lodepng_color_mode_equal_empty_palette_witness:
  "\<not> lodepng_color_mode_equal (lodepng_color_mode_init\<lparr>colortype := LCT_PALETTE\<rparr>)
     (lodepng_color_mode_init\<lparr>colortype := LCT_PALETTE, palette := [(0, 0, 0, 255)]\<rparr>)"
  using lodepng_color_mode_equal_empty_palette
    [of "lodepng_color_mode_init\<lparr>colortype := LCT_PALETTE\<rparr>"
        "lodepng_color_mode_init\<lparr>colortype := LCT_PALETTE, palette := [(0, 0, 0, 255)]\<rparr>"]
  by (simp add: lodepng_color_mode_init_def)

end
