(* ===== verification/BitStream.thy ===== *)
theory BitStream
  imports Prelude
begin

text \<open>
  Bit-level access to most-significant-bit-first packed byte buffers
  (\<^verbatim>\<open>src/pngtest.c\<close>): \<open>readBitFromReversedStream\<close>,
  \<open>readBitsFromReversedStream\<close>, \<open>setBitOfReversedStream\<close>, \<open>addColorBits\<close>
  and \<open>addPaddingBits\<close>. The C bit pointer (\<open>size_t*\<close>) is threaded
  explicitly: each operation returns its result with the advanced pointer. The
  buffer is a byte list; reading or writing past its end is undefined
  behaviour in C, and the lemmas assume the buffer is long enough.

  The semantic view \<open>bit_at bs k\<close> (bit \<open>7 - k mod 8\<close> of byte \<open>k div 8\<close>) is what
  the correctness lemmas are stated in.
\<close>

definition readBitFromReversedStream :: "nat \<Rightarrow> byte list \<Rightarrow> byte \<times> nat" where
  "readBitFromReversedStream bitpointer bitstream =
     (drop_bit (7 - bitpointer mod 8) (bitstream ! (bitpointer div 8)) AND 1, Suc bitpointer)"

text \<open>
  The loop \<open>for(i = nbits - 1; i < nbits; --i)\<close> runs \<open>i\<close> from \<open>nbits - 1\<close> down
  to \<open>0\<close> (the unsigned decrement past 0 ends it): the list \<open>rev [0..<nbits]\<close>.
  The accumulator is an \<open>unsigned\<close>; callers read at most 16 bits, so it does not
  wrap and is a \<open>nat\<close> here.
\<close>

fun readBits_loop :: "nat list \<Rightarrow> nat \<Rightarrow> byte list \<Rightarrow> nat \<Rightarrow> nat \<times> nat" where
  "readBits_loop [] bitpointer bitstream result = (result, bitpointer)"
| "readBits_loop (i # is) bitpointer bitstream result =
     (case readBitFromReversedStream bitpointer bitstream of
        (bt, bp') \<Rightarrow> readBits_loop is bp' bitstream (result + unat bt * 2 ^ i))"

definition readBitsFromReversedStream :: "nat \<Rightarrow> byte list \<Rightarrow> nat \<Rightarrow> nat \<times> nat" where
  "readBitsFromReversedStream bitpointer bitstream nbits =
     readBits_loop (rev [0..<nbits]) bitpointer bitstream 0"

definition setBitOfReversedStream :: "nat \<Rightarrow> byte list \<Rightarrow> byte \<Rightarrow> byte list \<times> nat" where
  "setBitOfReversedStream bitpointer bitstream b =
     (let k = bitpointer div 8; m = push_bit (7 - bitpointer mod 8) 1 :: byte
      in (if b = 0 then bitstream[k := bitstream ! k AND NOT m]
          else bitstream[k := bitstream ! k OR m], Suc bitpointer))"

text \<open>
  \<open>addColorBits(out, index, bits, in)\<close> for \<open>bits\<close> in \<open>{1, 2, 4}\<close>: the group
  \<open>index\<close> of \<open>bits\<close> bits, most significant group first in each byte; the first
  group of a byte overwrites it, later groups are OR-ed in. The shifted value is
  stored into an \<open>unsigned char\<close>, i.e. truncated to 8 bits.
\<close>

definition addColorBits :: "byte list \<Rightarrow> nat \<Rightarrow> nat \<Rightarrow> nat \<Rightarrow> byte list" where
  "addColorBits out index bits inp =
     (let m = (if bits = 1 then 7 else if bits = 2 then 3 else 1);
          p = index AND m;
          v = push_bit (bits * (m - p)) (inp AND (2 ^ bits - 1));
          k = index * bits div 8
      in if p = 0 then out[k := word_of_nat v] else out[k := out ! k OR word_of_nat v])"

text \<open>
  \<open>addPaddingBits(out, in, olinebits, ilinebits, h)\<close>: per scanline, copy
  \<open>ilinebits\<close> bits and then clear \<open>olinebits - ilinebits\<close> padding bits. The two
  inner loops and the row loop are recursions on their counters; the state is
  (input bit pointer, output buffer, output bit pointer).
\<close>

definition copy_bit :: "byte list \<Rightarrow> nat \<times> byte list \<times> nat \<Rightarrow> nat \<times> byte list \<times> nat" where
  "copy_bit inp st =
     (case st of (ibp, out, obp) \<Rightarrow>
      case readBitFromReversedStream ibp inp of
        (b, ibp') \<Rightarrow> (case setBitOfReversedStream obp out b of (out', obp') \<Rightarrow> (ibp', out', obp')))"

definition copy_bits :: "nat \<Rightarrow> byte list \<Rightarrow> nat \<times> byte list \<times> nat \<Rightarrow> nat \<times> byte list \<times> nat" where
  "copy_bits n inp st = fold (\<lambda>x. copy_bit inp) [0..<n] st"

definition zero_bits :: "nat \<Rightarrow> byte list \<times> nat \<Rightarrow> byte list \<times> nat" where
  "zero_bits n st = fold (\<lambda>x st'. case st' of (out, obp) \<Rightarrow> setBitOfReversedStream obp out 0) [0..<n] st"

definition padding_row :: "nat \<Rightarrow> nat \<Rightarrow> byte list \<Rightarrow> nat \<times> byte list \<times> nat \<Rightarrow> nat \<times> byte list \<times> nat" where
  "padding_row ilinebits diff inp st =
     (case copy_bits ilinebits inp st of
        (ibp, out, obp) \<Rightarrow> (case zero_bits diff (out, obp) of (out', obp') \<Rightarrow> (ibp, out', obp')))"

definition padding_rows :: "nat \<Rightarrow> nat \<Rightarrow> nat \<Rightarrow> byte list \<Rightarrow> nat \<times> byte list \<times> nat \<Rightarrow> nat \<times> byte list \<times> nat" where
  "padding_rows h ilinebits diff inp st = fold (\<lambda>y. padding_row ilinebits diff inp) [0..<h] st"

definition addPaddingBits :: "byte list \<Rightarrow> byte list \<Rightarrow> nat \<Rightarrow> nat \<Rightarrow> nat \<Rightarrow> byte list" where
  "addPaddingBits out inp olinebits ilinebits h =
     fst (snd (padding_rows h ilinebits (olinebits - ilinebits) inp (0, out, 0)))"

definition group_mask :: "nat \<Rightarrow> nat" where
  "group_mask bits = (if bits = 1 then 7 else if bits = 2 then 3 else 1)"

subsection \<open>The bit view of a buffer\<close>

definition bit_at :: "byte list \<Rightarrow> nat \<Rightarrow> bool" where
  "bit_at bs k = bit (bs ! (k div 8)) (7 - k mod 8)"

text \<open>
  \<open>pack_groups bits vs out\<close> is the effect of calling \<open>addColorBits\<close> for the
  indices \<open>0, 1, ...\<close> in order, as the conversion loop of \<open>lodepng_convert\<close>
  does for palette and low-depth grey targets; \<open>pack_inv\<close> is the invariant of
  that loop.
\<close>

definition pack_groups :: "nat \<Rightarrow> nat list \<Rightarrow> byte list \<Rightarrow> byte list" where
  "pack_groups bits vs out = fold (\<lambda>i ob. addColorBits ob i bits (vs ! i)) [0..<length vs] out"

definition pack_inv :: "nat \<Rightarrow> nat list \<Rightarrow> nat \<Rightarrow> byte list \<Rightarrow> bool" where
  "pack_inv bits vs t ob \<longleftrightarrow>
     (\<forall>pos < t * bits. bit_at ob pos = bit (vs ! (pos div bits)) (bits - 1 - pos mod bits)) \<and>
     (\<forall>pos. t * bits mod 8 \<noteq> 0 \<and> t * bits \<le> pos \<and> pos div 8 = t * bits div 8 \<longrightarrow> \<not> bit_at ob pos)"

subsection \<open>Reading bits\<close>

lemma readBitFromReversedStream_bit_at:
  "readBitFromReversedStream bp bs = (of_bool (bit_at bs bp), Suc bp)"
  by (simp add: readBitFromReversedStream_def bit_at_def bit_iff_odd_drop_bit and_one_eq
      odd_iff_mod_2_eq_one)


lemma readBits_loop_sum:
  "readBits_loop is bp bs acc =
     (acc + (\<Sum>j<length is. of_bool (bit_at bs (bp + j)) * 2 ^ (is ! j)), bp + length is)"
proof (induction "is" arbitrary: bp acc)
  case Nil
  then show ?case by simp
next
  case (Cons i "is")
  let ?F = "\<lambda>is bp j. of_bool (bit_at bs (bp + j)) * (2::nat) ^ (is ! j)"
  have "(\<Sum>j<length (i # is). ?F (i # is) bp j) = ?F (i # is) bp 0 + (\<Sum>j<length is. ?F is (Suc bp) j)"
    by (simp only: length_Cons sum.lessThan_Suc_shift) simp
  then show ?case
    by (simp add: readBitFromReversedStream_bit_at Cons.IH)
qed

lemma readBitsFromReversedStream_value:
  assumes "v < 2 ^ n" and "\<And>j. j < n \<Longrightarrow> bit_at bs (bp + j) = bit v (n - 1 - j)"
  shows "readBitsFromReversedStream bp bs n = (v, bp + n)"
proof -
  have "(\<Sum>j<n. of_bool (bit_at bs (bp + j)) * 2 ^ (rev [0..<n] ! j))
        = (\<Sum>j<n. of_bool (bit v (n - Suc j)) * 2 ^ (n - Suc j))"
    using assms(2) by (intro sum.cong) (simp_all add: rev_nth)
  also have "\<dots> = (\<Sum>k<n. of_bool (bit v k) * 2 ^ k)"
    by (rule sum.nat_diff_reindex)
  also have "\<dots> = take_bit n v"
    by (simp add: take_bit_sum push_bit_eq_mult atLeast0LessThan)
  also have "\<dots> = v"
    using assms(1) by (simp add: take_bit_nat_eq_self)
  finally show ?thesis
    by (simp add: readBitsFromReversedStream_def readBits_loop_sum)
qed

subsection \<open>Bit-level lemmas on masks and shifts\<close>

lemma and_low_mask_nat [png_simps]: "(n::nat) AND (2 ^ b - 1) = n mod 2 ^ b"
proof -
  have "n AND (2 ^ b - 1) = n AND mask b" by (simp add: mask_eq_exp_minus_1)
  also have "\<dots> = take_bit b n" by (simp add: take_bit_eq_mask)
  finally show ?thesis by (simp add: take_bit_eq_mod)
qed
lemma and_7: "(n::nat) AND 7 = n mod 8"
  using and_low_mask_nat [of n 3] by simp
lemma and_3: "(n::nat) AND 3 = n mod 4"
  using and_low_mask_nat [of n 2] by simp
lemma and_1: "(n::nat) AND 1 = n mod 2"
  using and_low_mask_nat [of n 1] by simp
lemma bit_byte_of_nat: "bit (word_of_nat V :: byte) n = (n < 8 \<and> bit V n)"
  by (simp add: bit_simps)
lemma and_low_mask_take_bit: "(n::nat) AND (2 ^ b - 1) = take_bit b n"
  using and_low_mask_nat [of n b] by (simp add: take_bit_eq_mod)

lemma mod8_times2: "(index * 2) mod 8 = 2 * (index mod 4)" for index :: nat
  using mod_mult_mult2 [of index 2 4] by simp
lemma mod8_times4: "(index * 4) mod 8 = 4 * (index mod 2)" for index :: nat
  using mod_mult_mult2 [of index 4 2] by simp
lemma group_mask_facts:
  assumes "bits = 1 \<or> bits = 2 \<or> bits = 4"
  shows "bits * (group_mask bits - (index AND group_mask bits)) = 8 - bits - index * bits mod 8"
    and "(index AND group_mask bits = 0) = (index * bits mod 8 = 0)"
    and "index * bits mod 8 + bits \<le> 8"
proof -
  have m4: "index mod 4 < 4" and m2: "index mod 2 < 2" and m8: "index mod 8 < 8" by simp_all
  from assms have "(bits * (group_mask bits - (index AND group_mask bits)) = 8 - bits - index * bits mod 8)
    \<and> ((index AND group_mask bits = 0) = (index * bits mod 8 = 0))
    \<and> index * bits mod 8 + bits \<le> 8"
  proof (elim disjE)
    assume "bits = 1" then show ?thesis using m8 by (simp add: group_mask_def and_7)
  next
    assume "bits = 2" then show ?thesis using m4 by (simp add: group_mask_def and_3 mod8_times2; linarith)
  next
    assume "bits = 4" then show ?thesis using m2 by (simp add: group_mask_def and_1 mod8_times4; linarith)
  qed
  then show "bits * (group_mask bits - (index AND group_mask bits)) = 8 - bits - index * bits mod 8"
    and "(index AND group_mask bits = 0) = (index * bits mod 8 = 0)"
    and "index * bits mod 8 + bits \<le> 8" by simp_all
qed

subsection \<open>The effect of \<open>addColorBits\<close> on the bit view\<close>

lemma bit_shifted_group:
  assumes S: "S = 8 - bits - P" and PB: "P + bits \<le> 8" and b0: "0 < bits" and r: "r < 8"
  shows "bit (word_of_nat (push_bit S (take_bit bits v)) :: byte) (7 - r) =
         (P \<le> r \<and> r < P + bits \<and> bit v (P + bits - 1 - r))"
proof -
  have "bit (word_of_nat (push_bit S (take_bit bits v)) :: byte) (7 - r) =
        (S \<le> 7 - r \<and> 7 - r - S < bits \<and> bit v (7 - r - S))"
    using r by (auto simp: bit_byte_of_nat bit_simps)
  moreover have "(S \<le> 7 - r \<and> 7 - r - S < bits) = (P \<le> r \<and> r < P + bits)"
    using S PB b0 r by linarith
  moreover have "P \<le> r \<Longrightarrow> r < P + bits \<Longrightarrow> 7 - r - S = P + bits - 1 - r"
    using S PB b0 r by linarith
  ultimately show ?thesis by auto
qed

lemma addColorBits_bit_at:
  assumes bits: "bits = 1 \<or> bits = 2 \<or> bits = 4" and len: "index * bits div 8 < length out"
  shows "bit_at (addColorBits out index bits v) pos =
     (if pos div 8 = index * bits div 8
      then (index * bits \<le> pos \<and> pos < index * bits + bits \<and> bit v (index * bits + bits - 1 - pos))
           \<or> (index * bits mod 8 \<noteq> 0 \<and> bit_at out pos)
      else bit_at out pos)"
proof (cases "pos div 8 = index * bits div 8")
  case False
  then show ?thesis
    by (simp add: addColorBits_def Let_def bit_at_def nth_list_update)
next
  case True
  define P where "P = index * bits mod 8"
  define r where "r = pos mod 8"
  have m: "(if bits = 1 then 7 else if bits = 2 then 3 else 1) = group_mask bits"
    by (simp add: group_mask_def)
  have pos: "pos = 8 * (index * bits div 8) + r" and ib: "index * bits = 8 * (index * bits div 8) + P"
    using True mult_div_mod_eq [of 8 pos] mult_div_mod_eq [of 8 "index * bits"]
    by (simp_all add: r_def P_def)
  have r8: "r < 8" by (simp add: r_def)
  have b0: "0 < bits" using bits by auto
  have sh: "bit (word_of_nat (push_bit (bits * (group_mask bits - (index AND group_mask bits)))
              (take_bit bits v)) :: byte) (7 - r) =
            (P \<le> r \<and> r < P + bits \<and> bit v (P + bits - 1 - r))"
    using group_mask_facts [OF bits, of index] b0 r8
    by (intro bit_shifted_group) (simp_all add: P_def)
  have eqv: "(P \<le> r \<and> r < P + bits \<and> bit v (P + bits - 1 - r)) =
    (index * bits \<le> pos \<and> pos < index * bits + bits \<and> bit v (index * bits + bits - 1 - pos))"
  proof -
    have "P + bits - 1 - r = index * bits + bits - 1 - pos" if "P \<le> r" using pos ib that by linarith
    moreover have "(P \<le> r \<and> r < P + bits) = (index * bits \<le> pos \<and> pos < index * bits + bits)"
      using pos ib by linarith
    ultimately show ?thesis by auto
  qed
  define W where "W = (word_of_nat (push_bit (bits * (group_mask bits - (index AND group_mask bits)))
              (take_bit bits v)) :: byte)"
  define K where "K = index * bits div 8"
  have unf: "addColorBits out index bits v =
    (if P = 0 then out[K := W] else out[K := out ! K OR W])"
    unfolding addColorBits_def Let_def m and_low_mask_take_bit group_mask_facts(2) [OF bits]
    by (simp only: W_def K_def P_def)
  have upd: "bit_at (out[K := X]) pos = bit X (7 - r)" for X
    using True len by (simp add: bit_at_def K_def r_def)
  have old: "bit_at out pos = bit (out ! K) (7 - r)"
    using True by (simp add: bit_at_def K_def r_def)
  show ?thesis
    using True sh eqv unfolding unf
    by (auto simp: upd old bit_or_iff W_def P_def)
qed

subsection \<open>Packing and unpacking sample groups\<close>

lemma group_same_byte:
  assumes "(bits::nat) = 1 \<or> bits = 2 \<or> bits = 4" "t * bits \<le> pos" "pos < t * bits + bits"
  shows "pos div 8 = t * bits div 8"
proof -
  define a where "a = t * bits"
  have "a mod 8 + bits \<le> 8" unfolding a_def by (rule group_mask_facts(3) [OF assms(1)])
  then have lt: "a mod 8 + (pos - a) < 8" using assms(2,3) unfolding a_def by linarith
  have "pos = 8 * (a div 8) + (a mod 8 + (pos - a))"
    using mult_div_mod_eq [of 8 a] assms(2) unfolding a_def by linarith
  then have "pos div 8 = a div 8 + (a mod 8 + (pos - a)) div 8"
    by (metis div_mult_self2 add.commute zero_neq_numeral)
  then show ?thesis using lt by (simp add: a_def)
qed

lemma byte_boundary_before:
  assumes "a mod 8 = 0" "(pos::nat) < a"
  shows "pos div 8 \<noteq> a div 8"
proof -
  have "a = a div 8 * 8" using assms(1) mult_div_mod_eq [of 8 a] by simp
  then have "pos div 8 < a div 8" using assms(2) by (metis less_mult_imp_div_less)
  then show ?thesis by simp
qed

lemma slot_div_mod:
  assumes "t * bits \<le> (pos::nat)" "pos < t * bits + bits"
  shows "pos div bits = t" and "pos mod bits = pos - t * bits"
proof -
  have p: "pos = t * bits + (pos - t * bits)" using assms(1) by simp
  have d: "pos - t * bits < bits" using assms by linarith
  then have "0 < bits" by linarith
  have "pos div bits = (pos - t * bits + t * bits) div bits" using p by simp
  also have "\<dots> = t" using d \<open>0 < bits\<close> by simp
  finally show "pos div bits = t" .
  have "pos mod bits = (pos - t * bits + t * bits) mod bits" using p by simp
  also have "\<dots> = pos - t * bits" using d by simp
  finally show "pos mod bits = pos - t * bits" .
qed

lemma next_group_same_byte:
  assumes "(bits::nat) = 1 \<or> bits = 2 \<or> bits = 4" "Suc t * bits mod 8 \<noteq> 0"
  shows "Suc t * bits div 8 = t * bits div 8" and "t * bits mod 8 + bits < 8"
proof -
  define a where "a = t * bits"
  have le: "a mod 8 + bits \<le> 8" unfolding a_def by (rule group_mask_facts(3) [OF assms(1)])
  have e: "Suc t * bits = 8 * (a div 8) + (a mod 8 + bits)"
    using mult_div_mod_eq [of 8 a] unfolding a_def by simp
  show lt: "t * bits mod 8 + bits < 8"
  proof (rule ccontr)
    assume "\<not> t * bits mod 8 + bits < 8"
    with le have "a mod 8 + bits = 8" unfolding a_def by simp
    with e have "Suc t * bits mod 8 = 0" by simp
    with assms(2) show False by simp
  qed
  have "Suc t * bits div 8 = (a mod 8 + bits + a div 8 * 8) div 8" using e by simp
  also have "\<dots> = a div 8"
  proof -
    have lt': "a mod 8 + bits < 8" using lt by (simp add: a_def)
    have "(a mod 8 + bits + a div 8 * 8) div 8 = a div 8 + (a mod 8 + bits) div 8"
      by (rule div_mult_self1) simp
    then show ?thesis using lt' by (simp only: div_less add_0_right)
  qed
  finally show "Suc t * bits div 8 = t * bits div 8" by (simp add: a_def)
qed

lemma pack_inv_step:
  assumes bits: "bits = 1 \<or> bits = 2 \<or> bits = 4" and len: "t * bits div 8 < length ob"
    and inv: "pack_inv bits vs t ob"
  shows "pack_inv bits vs (Suc t) (addColorBits ob t bits (vs ! t))"
proof -
  let ?ob' = "addColorBits ob t bits (vs ! t)"
  note acb = addColorBits_bit_at [OF bits len, of "vs ! t"]
  have inv1: "\<And>pos. pos < t * bits \<Longrightarrow> bit_at ob pos = bit (vs ! (pos div bits)) (bits - 1 - pos mod bits)"
    and inv2: "\<And>pos. t * bits mod 8 \<noteq> 0 \<Longrightarrow> t * bits \<le> pos \<Longrightarrow> pos div 8 = t * bits div 8 \<Longrightarrow> \<not> bit_at ob pos"
    using inv by (auto simp: pack_inv_def)
  have old: "bit_at ?ob' pos = bit_at ob pos" if "pos < t * bits" for pos
  proof (cases "pos div 8 = t * bits div 8")
    case True
    then have "t * bits mod 8 \<noteq> 0" using byte_boundary_before [OF _ that] by blast
    with True that show ?thesis by (simp add: acb)
  next
    case False
    then show ?thesis by (simp add: acb)
  qed
  have new: "bit_at ?ob' pos = bit (vs ! t) (t * bits + bits - 1 - pos)"
    if "t * bits \<le> pos" "pos < t * bits + bits" for pos
  proof -
    have same: "pos div 8 = t * bits div 8" by (rule group_same_byte [OF bits that])
    with inv2 that show ?thesis by (auto simp: acb)
  qed
  have part1: "bit_at ?ob' pos = bit (vs ! (pos div bits)) (bits - 1 - pos mod bits)"
    if "pos < Suc t * bits" for pos
  proof (cases "pos < t * bits")
    case True
    then show ?thesis by (simp add: old inv1)
  next
    case False
    then have s: "t * bits \<le> pos" "pos < t * bits + bits" using that by simp_all
    then show ?thesis using slot_div_mod [OF s] by (simp add: new add.commute)
  qed
  have part2: "\<not> bit_at ?ob' pos"
    if "Suc t * bits mod 8 \<noteq> 0" "Suc t * bits \<le> pos" "pos div 8 = Suc t * bits div 8" for pos
  proof -
    note ng = next_group_same_byte [OF bits that(1)]
    have same: "pos div 8 = t * bits div 8" using that(3) ng(1) by simp
    have ge: "t * bits + bits \<le> pos" using that(2) by simp
    show ?thesis using same ge inv2 [of pos] by (auto simp: acb)
  qed
  show ?thesis unfolding pack_inv_def using part1 part2 by blast
qed

lemma length_addColorBits [simp]: "length (addColorBits out index bits v) = length out"
  by (simp add: addColorBits_def Let_def)

lemma group_index_in_range:
  assumes "t < n" "0 < bits" "(n * bits + 7) div 8 \<le> len"
  shows "t * bits div 8 < (len::nat)"
proof -
  have "t * bits + bits \<le> n * bits" using assms(1) by (metis Suc_leI mult_Suc mult_le_mono1 add.commute)
  then have "t * bits + 8 \<le> n * bits + 7" using assms(2) by linarith
  then have "(t * bits + 8) div 8 \<le> (n * bits + 7) div 8" by (rule div_le_mono)
  moreover have "(t * bits + 8) div 8 = t * bits div 8 + 1" by simp
  ultimately show ?thesis using assms(3) by linarith
qed

lemma length_fold_addColorBits [simp]:
  "length (fold (\<lambda>i ob. addColorBits ob i bits (vs ! i)) is out) = length out"
  by (induction "is" arbitrary: out) simp_all

lemma pack_prefix_inv:
  assumes bits: "bits = 1 \<or> bits = 2 \<or> bits = 4"
    and len: "(length vs * bits + 7) div 8 \<le> length out" and t: "t \<le> length vs"
  shows "pack_inv bits vs t (fold (\<lambda>i ob. addColorBits ob i bits (vs ! i)) [0..<t] out)"
  using t
proof (induction t)
  case 0
  show ?case by (simp add: pack_inv_def)
next
  case (Suc t)
  have "t * bits div 8 < length out"
    using group_index_in_range [of t "length vs" bits "length out"] Suc.prems bits len by auto
  then show ?case
    using Suc pack_inv_step [OF bits, of t "fold (\<lambda>i ob. addColorBits ob i bits (vs ! i)) [0..<t] out" vs]
    by simp
qed

text \<open>
  C2. Packing samples of depth 1, 2 or 4 with \<open>addColorBits\<close> at indices
  0, 1, 2, ... and reading sample \<open>i\<close> back with \<open>readBitsFromReversedStream\<close>
  at bit offset \<open>i * bits\<close> returns the original sample, for any number of
  samples that fit in the output buffer.
\<close>

theorem addColorBits_roundtrip:
  assumes bits: "bits = 1 \<or> bits = 2 \<or> bits = 4"
    and vals: "\<forall>v \<in> set vs. v < 2 ^ bits"
    and len: "(length vs * bits + 7) div 8 \<le> length out"
    and i: "i < length vs"
  shows "readBitsFromReversedStream (i * bits) (pack_groups bits vs out) bits = (vs ! i, i * bits + bits)"
proof (rule readBitsFromReversedStream_value)
  show "vs ! i < 2 ^ bits" using vals i by simp
next
  fix j assume j: "j < bits"
  have inv: "pack_inv bits vs (length vs) (pack_groups bits vs out)"
    unfolding pack_groups_def using pack_prefix_inv [OF bits len] by simp
  have lt: "i * bits + j < length vs * bits"
    using i j by (metis add_less_cancel_left less_le_trans mult_Suc add.commute Suc_leI mult_le_mono1)
  have s: "i * bits \<le> i * bits + j" "i * bits + j < i * bits + bits" using j by simp_all
  show "bit_at (pack_groups bits vs out) (i * bits + j) = bit (vs ! i) (bits - 1 - j)"
    using inv lt slot_div_mod [OF s] unfolding pack_inv_def by simp
qed

text \<open>A concrete instance: five 2-bit samples packed into two bytes.\<close>

theorem addColorBits_roundtrip_witness:
  "((2::nat) = 1 \<or> (2::nat) = 2 \<or> (2::nat) = 4) \<and> list_all (\<lambda>v. v < 2 ^ 2) [1, 3, 0, 2, 1::nat] \<and>
   (length [1, 3, 0, 2, 1::nat] * 2 + 7) div 8 \<le> length [0, 0 :: byte] \<and>
   (3::nat) < length [1, 3, 0, 2, 1::nat] \<and>
   readBitsFromReversedStream (3 * 2) (pack_groups 2 [1, 3, 0, 2, 1] [0, 0]) 2 =
     ([1, 3, 0, 2, 1] ! 3, 3 * 2 + 2)"
  using addColorBits_roundtrip [of 2 "[1, 3, 0, 2, 1]" "[0, 0]" 3] by simp

end
