(* ===== verification/ColorTree.thy ===== *)
theory ColorTree
  imports Prelude
begin

text \<open>
  The 16-ary colour trie \<open>ColorTree\<close> of \<^verbatim>\<open>src/pngtest.c\<close>: each node has the
  array \<open>children[16]\<close> (a list of 16 optional subtrees, \<open>None\<close> for a null
  pointer) and the payload \<open>index\<close> (\<open>-1\<close> when absent). Level \<open>bt\<close> of the path of
  a colour (r, g, b, a) is the child number \<open>8*r_bit + 4*g_bit + 2*b_bit + a_bit\<close>
  of bit \<open>bt\<close> of each channel, for \<open>bt = 0, ..., 7\<close>. \<open>color_tree_get\<close>,
  \<open>color_tree_has\<close> and \<open>color_tree_add\<close> are modelled; \<open>color_tree_cleanup\<close>
  only frees memory and has no observable effect in this model. Allocation by
  \<open>malloc\<close> is assumed to succeed.

  The abstraction of a tree is the lookup function \<open>color_tree_get t\<close>; the main
  lemma is that adding a colour updates that function at exactly that colour
  (a map refinement), for trees whose nodes all have 16 child slots.
\<close>

datatype ColorTree = ColorTree "ColorTree option list" int

definition color_tree_init :: ColorTree where
  "color_tree_init = ColorTree (replicate 16 None) (-1)"

definition ct_child_index :: "rgba8 \<Rightarrow> nat \<Rightarrow> nat" where
  "ct_child_index c bt =
     (case c of (r, g, b, a) \<Rightarrow>
        8 * unat (drop_bit bt r AND 1) + 4 * unat (drop_bit bt g AND 1)
        + 2 * unat (drop_bit bt b AND 1) + 1 * unat (drop_bit bt a AND 1))"

fun ct_get_loop :: "nat list \<Rightarrow> ColorTree \<Rightarrow> rgba8 \<Rightarrow> int" where
  "ct_get_loop [] (ColorTree cs idx) c = idx"
| "ct_get_loop (bt # bts) (ColorTree cs idx) c =
     (case cs ! ct_child_index c bt of
        None \<Rightarrow> -1
      | Some t \<Rightarrow> ct_get_loop bts t c)"

definition color_tree_get :: "ColorTree \<Rightarrow> byte \<Rightarrow> byte \<Rightarrow> byte \<Rightarrow> byte \<Rightarrow> int" where
  "color_tree_get tree r g b a = ct_get_loop [0..<8] tree (r, g, b, a)"

definition color_tree_has :: "ColorTree \<Rightarrow> byte \<Rightarrow> byte \<Rightarrow> byte \<Rightarrow> byte \<Rightarrow> bool" where
  "color_tree_has tree r g b a = (color_tree_get tree r g b a \<ge> 0)"

fun ct_add_loop :: "nat list \<Rightarrow> ColorTree \<Rightarrow> rgba8 \<Rightarrow> int \<Rightarrow> ColorTree" where
  "ct_add_loop [] (ColorTree cs idx) c index = ColorTree cs index"
| "ct_add_loop (bt # bts) (ColorTree cs idx) c index =
     (let i = ct_child_index c bt;
          child = (case cs ! i of None \<Rightarrow> color_tree_init | Some t \<Rightarrow> t)
      in ColorTree (cs[i := Some (ct_add_loop bts child c index)]) idx)"

text \<open>\<open>tree->index = (int)index\<close>: the unsigned index is converted to \<open>int\<close>.\<close>

definition color_tree_add :: "ColorTree \<Rightarrow> byte \<Rightarrow> byte \<Rightarrow> byte \<Rightarrow> byte \<Rightarrow> nat \<Rightarrow> ColorTree" where
  "color_tree_add tree r g b a index = ct_add_loop [0..<8] tree (r, g, b, a) (int index)"

text \<open>Well-formedness: every node has exactly the 16 child slots of the C array.\<close>

fun ct_wf :: "ColorTree \<Rightarrow> bool" where
  "ct_wf (ColorTree cs idx) = (length cs = 16 \<and> list_all (pred_option ct_wf) cs)"

subsection \<open>Child indices\<close>

lemma drop_bit_and_one_byte: "unat (drop_bit k (x :: byte) AND 1) = of_bool (bit x k)"
proof -
  have "drop_bit k x AND 1 = of_bool (bit x k)"
    by (rule bit_word_eqI) (auto simp: bit_simps)
  then show ?thesis by simp
qed

lemma ct_child_index_bits:
  "ct_child_index (r, g, b, a) k =
     8 * of_bool (bit r k) + 4 * of_bool (bit g k) + 2 * of_bool (bit b k) + of_bool (bit a k)"
  by (simp add: ct_child_index_def drop_bit_and_one_byte)

lemma ct_child_index_less: "ct_child_index c k < 16"
  by (cases c) (simp add: ct_child_index_bits)

lemma weighted_bits_inj:
  "(8 * of_bool p + 4 * of_bool q + 2 * of_bool r + of_bool s :: nat) =
   8 * of_bool p' + 4 * of_bool q' + 2 * of_bool r' + of_bool s' \<Longrightarrow>
   p = p' \<and> q = q' \<and> r = r' \<and> s = s'"
  by (cases p; cases q; cases r; cases s; cases p'; cases q'; cases r'; cases s') simp_all

lemma byte_eq_by_low_bits:
  "(\<And>k. k < 8 \<Longrightarrow> bit (x :: byte) k = bit y k) \<Longrightarrow> x = y"
  by (rule bit_word_eqI) simp

lemma ct_path_inj:
  assumes "map (ct_child_index c) [0..<8] = map (ct_child_index c') [0..<8]"
  shows "c = c'"
proof -
  obtain r g b a where c: "c = (r, g, b, a)" by (cases c) auto
  obtain r' g' b' a' where c': "c' = (r', g', b', a')" by (cases c') auto
  have each: "bit r k = bit r' k \<and> bit g k = bit g' k \<and> bit b k = bit b' k \<and> bit a k = bit a' k"
    if "k < 8" for k
  proof -
    have "ct_child_index c k = ct_child_index c' k"
      using assms that by (metis (no_types, lifting) atLeastLessThan_iff map_eq_conv set_upt zero_le)
    then show ?thesis
      unfolding c c' ct_child_index_bits by (rule weighted_bits_inj)
  qed
  have "r = r'" "g = g'" "b = b'" "a = a'"
    using each by (blast intro: byte_eq_by_low_bits)+
  then show ?thesis using c c' by simp
qed

subsection \<open>Refinement: adding updates the lookup function at one colour\<close>

lemma ct_wf_init [simp]: "ct_wf color_tree_init"
  by (simp add: color_tree_init_def list_all_iff)

lemma list_all_update:
  "list_all P xs \<Longrightarrow> P x \<Longrightarrow> list_all P (xs[i := x])"
  by (auto simp: list_all_iff dest: set_update_subset_insert [THEN subsetD])

lemma ct_add_loop_wf: "ct_wf t \<Longrightarrow> ct_wf (ct_add_loop ks t c v)"
proof (induction ks t c v rule: ct_add_loop.induct)
  case (1 cs idx c index)
  then show ?case by simp
next
  case (2 bt bts cs idx c index)
  let ?i = "ct_child_index c bt"
  let ?child = "case cs ! ?i of None \<Rightarrow> color_tree_init | Some t \<Rightarrow> t"
  have len: "length cs = 16" and all: "list_all (pred_option ct_wf) cs" using "2.prems" by simp_all
  have "?i < length cs" using len ct_child_index_less by simp
  then have "pred_option ct_wf (cs ! ?i)" using all by (simp add: list_all_length)
  then have "ct_wf ?child" by (cases "cs ! ?i") simp_all
  then have "ct_wf (ct_add_loop bts ?child c index)" by (rule "2.IH" [OF refl refl])
  then show ?case using len all by (simp add: Let_def list_all_update)
qed

lemma ct_get_loop_init [simp]: "ct_get_loop ks color_tree_init c = -1"
  by (cases ks) (simp_all add: color_tree_init_def ct_child_index_less)

lemma ct_get_add_loop:
  "ct_wf t \<Longrightarrow> ct_get_loop ks (ct_add_loop ks t c' v) c =
     (if map (ct_child_index c) ks = map (ct_child_index c') ks then v else ct_get_loop ks t c)"
proof (induction ks t c' v arbitrary: c rule: ct_add_loop.induct)
  case (1 cs idx c' index)
  then show ?case by simp
next
  case (2 bt bts cs idx c' index)
  let ?i' = "ct_child_index c' bt"
  let ?i = "ct_child_index c bt"
  let ?child = "case cs ! ?i' of None \<Rightarrow> color_tree_init | Some t \<Rightarrow> t"
  have len: "length cs = 16" and all: "list_all (pred_option ct_wf) cs" using "2.prems" by simp_all
  have i'l: "?i' < length cs" using len ct_child_index_less by simp
  then have "pred_option ct_wf (cs ! ?i')" using all by (simp add: list_all_length)
  then have wfc: "ct_wf ?child" by (cases "cs ! ?i'") simp_all
  note IH = "2.IH" [OF refl refl wfc]
  show ?case
  proof (cases "?i = ?i'")
    case True
    show ?thesis using True i'l by (simp add: Let_def IH split: option.split)
  next
    case False
    then show ?thesis by (simp add: Let_def)
  qed
qed

lemma color_tree_get_add_eq:
  "ct_wf t \<Longrightarrow> color_tree_get (color_tree_add t r g b a i) r' g' b' a' =
    (if (r', g', b', a') = (r, g, b, a) then int i else color_tree_get t r' g' b' a')"
  using ct_path_inj [of "(r', g', b', a')" "(r, g, b, a)"]
  by (auto simp: color_tree_get_def color_tree_add_def ct_get_add_loop)

text \<open>
  C3. Adding a colour with an index to a well-formed colour tree changes the
  lookup \<open>color_tree_get\<close> at exactly that colour, where it becomes the index,
  and leaves every other colour's lookup unchanged.
\<close>

theorem color_tree_get_add:
  assumes "ct_wf t"
  shows "color_tree_get (color_tree_add t r g b a i) r' g' b' a' =
    (if (r', g', b', a') = (r, g, b, a) then int i else color_tree_get t r' g' b' a')"
  using assms by (rule color_tree_get_add_eq)

lemma color_tree_add_wf: "ct_wf t \<Longrightarrow> ct_wf (color_tree_add t r g b a i)"
  by (simp add: color_tree_add_def ct_add_loop_wf)

lemma color_tree_get_init [simp]: "color_tree_get color_tree_init r g b a = -1"
  by (simp add: color_tree_get_def)

theorem color_tree_get_add_witness:
  "ct_wf color_tree_init \<and>
   color_tree_get (color_tree_add color_tree_init 10 20 30 255 5) 10 20 30 255 = 5 \<and>
   color_tree_get (color_tree_add color_tree_init 10 20 30 255 5) 10 20 30 0 = -1"
  using color_tree_get_add [of color_tree_init 10 20 30 255 5 10 20 30 255]
    color_tree_get_add [of color_tree_init 10 20 30 255 5 10 20 30 0]
  by simp

end
