(* ===== verification/PixelRead.thy ===== *)
theory PixelRead
  imports ColorMode BitStream
begin

text \<open>
  Decoding one pixel of a raw buffer to RGBA (\<^verbatim>\<open>src/pngtest.c\<close>):
  \<open>getPixelColorRGBA8\<close>, \<open>getPixelColorRGBA16\<close> and the bulk decoder
  \<open>getPixelColorsRGBA8\<close> used by the fast conversion paths. The C functions
  return their result through four out-pointers; a branch that does not write
  one of them leaves the caller's variable as it was. The model therefore takes
  the caller's previous values and returns the new ones.

  At line 263 the grey branch for bit depths 1, 2 and 4 reads
  \<open>r = *g = *b = (value * 255) / highest;\<close>: it assigns to the pointer \<open>r\<close>
  instead of \<open>*r\<close>, so the caller's red channel keeps its previous value. The
  model keeps this behaviour; \<open>getPixelColorsRGBA8\<close> (line 852) writes all
  three channels.
\<close>

text \<open>\<open>256 * in[k] + in[k + 1]\<close>: a big-endian 16-bit sample, as an unsigned value.\<close>

definition be16 :: "byte list \<Rightarrow> nat \<Rightarrow> nat" where
  "be16 inp k = 256 * unat (inp ! k) + unat (inp ! Suc k)"

definition getPixelColorRGBA16 :: "rgba16 \<Rightarrow> byte list \<Rightarrow> nat \<Rightarrow> color_mode \<Rightarrow> rgba16" where
  "getPixelColorRGBA16 prev inp i mode =
     (case colortype mode of
        LCT_GREY \<Rightarrow>
          (let v = be16 inp (i * 2)
           in (of_nat v, of_nat v, of_nat v,
               if key_defined mode \<and> v = key_r mode then 0 else 65535))
      | LCT_RGB \<Rightarrow>
          (let r = be16 inp (i * 6); g = be16 inp (i * 6 + 2); b = be16 inp (i * 6 + 4)
           in (of_nat r, of_nat g, of_nat b,
               if key_defined mode \<and> r = key_r mode \<and> g = key_g mode \<and> b = key_b mode
               then 0 else 65535))
      | LCT_GREY_ALPHA \<Rightarrow>
          (let v = be16 inp (i * 4)
           in (of_nat v, of_nat v, of_nat v, of_nat (be16 inp (i * 4 + 2))))
      | LCT_RGBA \<Rightarrow>
          (of_nat (be16 inp (i * 8)), of_nat (be16 inp (i * 8 + 2)),
           of_nat (be16 inp (i * 8 + 4)), of_nat (be16 inp (i * 8 + 6)))
      | LCT_PALETTE \<Rightarrow> prev)"

text \<open>
  The grey branch below 8 bits: \<open>highest = (1 << bitdepth) - 1\<close>, the sample is
  read with \<open>readBitsFromReversedStream\<close> at bit \<open>i * bitdepth\<close> and scaled by
  \<open>(value * 255) / highest\<close> into \<open>*g\<close> and \<open>*b\<close> only.
\<close>

definition getPixelColorRGBA8 :: "rgba8 \<Rightarrow> byte list \<Rightarrow> nat \<Rightarrow> color_mode \<Rightarrow> rgba8" where
  "getPixelColorRGBA8 prev inp i mode =
     (case prev of (pr, pg, pb, pa) \<Rightarrow>
      case colortype mode of
        LCT_GREY \<Rightarrow>
          (if bitdepth mode = 8 then
             (let v = inp ! i
              in (v, v, v, if key_defined mode \<and> unat v = key_r mode then 0 else 255))
           else if bitdepth mode = 16 then
             (let v = inp ! (i * 2)
              in (v, v, v, if key_defined mode \<and> be16 inp (i * 2) = key_r mode then 0 else 255))
           else
             (let highest = 2 ^ bitdepth mode - 1;
                  value = fst (readBitsFromReversedStream (i * bitdepth mode) inp (bitdepth mode));
                  s = (of_nat ((value * 255) div highest) :: byte)
              in (pr, s, s, if key_defined mode \<and> value = key_r mode then 0 else 255)))
      | LCT_RGB \<Rightarrow>
          (if bitdepth mode = 8 then
             (let r = inp ! (i * 3); g = inp ! (i * 3 + 1); b = inp ! (i * 3 + 2)
              in (r, g, b,
                  if key_defined mode \<and> unat r = key_r mode \<and> unat g = key_g mode
                     \<and> unat b = key_b mode then 0 else 255))
           else
             (inp ! (i * 6), inp ! (i * 6 + 2), inp ! (i * 6 + 4),
              if key_defined mode \<and> be16 inp (i * 6) = key_r mode
                 \<and> be16 inp (i * 6 + 2) = key_g mode \<and> be16 inp (i * 6 + 4) = key_b mode
              then 0 else 255))
      | LCT_PALETTE \<Rightarrow>
          (let index = (if bitdepth mode = 8 then unat (inp ! i)
                        else fst (readBitsFromReversedStream (i * bitdepth mode) inp (bitdepth mode)))
           in if index \<ge> palettesize mode then (0, 0, 0, 255) else palette mode ! index)
      | LCT_GREY_ALPHA \<Rightarrow>
          (if bitdepth mode = 8 then (inp ! (i * 2), inp ! (i * 2), inp ! (i * 2), inp ! (i * 2 + 1))
           else (inp ! (i * 4), inp ! (i * 4), inp ! (i * 4), inp ! (i * 4 + 2)))
      | LCT_RGBA \<Rightarrow>
          (if bitdepth mode = 8
           then (inp ! (i * 4), inp ! (i * 4 + 1), inp ! (i * 4 + 2), inp ! (i * 4 + 3))
           else (inp ! (i * 8), inp ! (i * 8 + 2), inp ! (i * 8 + 4), inp ! (i * 8 + 6))))"

text \<open>
  \<open>getPixelColorsRGBA8(buffer, numpixels, has_alpha, in, mode)\<close>: the source
  has one loop per colour type; each writes \<open>num_channels\<close> (3 or 4) bytes per
  pixel at \<open>buffer + i * num_channels\<close>. For the sub-byte grey and palette
  branches the bit pointer \<open>j\<close> starts at 0 and is advanced by
  \<open>readBitsFromReversedStream\<close>. \<open>fast_pixel\<close> is the body of those loops for
  one pixel, returning the colour and the next bit pointer.
\<close>

definition fast_pixel :: "color_mode \<Rightarrow> byte list \<Rightarrow> nat \<Rightarrow> nat \<Rightarrow> rgba8 \<times> nat" where
  "fast_pixel mode inp i j =
     (case colortype mode of
        LCT_GREY \<Rightarrow>
          (if bitdepth mode = 8 then
             (let v = inp ! i in ((v, v, v, if key_defined mode \<and> unat v = key_r mode then 0 else 255), j))
           else if bitdepth mode = 16 then
             (let v = inp ! (i * 2)
              in ((v, v, v, if key_defined mode \<and> be16 inp (i * 2) = key_r mode then 0 else 255), j))
           else
             (case readBitsFromReversedStream j inp (bitdepth mode) of
                (value, j') \<Rightarrow>
                  (let s = (of_nat ((value * 255) div (2 ^ bitdepth mode - 1)) :: byte)
                   in ((s, s, s, if key_defined mode \<and> value = key_r mode then 0 else 255), j'))))
      | LCT_RGB \<Rightarrow>
          (if bitdepth mode = 8 then
             (let r = inp ! (i * 3); g = inp ! (i * 3 + 1); b = inp ! (i * 3 + 2)
              in ((r, g, b,
                   if key_defined mode \<and> unat r = key_r mode \<and> unat g = key_g mode
                      \<and> unat b = key_b mode then 0 else 255), j))
           else
             ((inp ! (i * 6), inp ! (i * 6 + 2), inp ! (i * 6 + 4),
               if key_defined mode \<and> be16 inp (i * 6) = key_r mode
                  \<and> be16 inp (i * 6 + 2) = key_g mode \<and> be16 inp (i * 6 + 4) = key_b mode
               then 0 else 255), j))
      | LCT_PALETTE \<Rightarrow>
          (case (if bitdepth mode = 8 then (unat (inp ! i), j)
                 else readBitsFromReversedStream j inp (bitdepth mode)) of
             (index, j') \<Rightarrow>
               (if index \<ge> palettesize mode then (0, 0, 0, 255) else palette mode ! index, j'))
      | LCT_GREY_ALPHA \<Rightarrow>
          (if bitdepth mode = 8
           then ((inp ! (i * 2), inp ! (i * 2), inp ! (i * 2), inp ! (i * 2 + 1)), j)
           else ((inp ! (i * 4), inp ! (i * 4), inp ! (i * 4), inp ! (i * 4 + 2)), j))
      | LCT_RGBA \<Rightarrow>
          (if bitdepth mode = 8
           then ((inp ! (i * 4), inp ! (i * 4 + 1), inp ! (i * 4 + 2), inp ! (i * 4 + 3)), j)
           else ((inp ! (i * 8), inp ! (i * 8 + 2), inp ! (i * 8 + 4), inp ! (i * 8 + 6)), j)))"

fun getPixelColorsRGBA8_loop ::
  "byte list \<Rightarrow> bool \<Rightarrow> byte list \<Rightarrow> color_mode \<Rightarrow> nat list \<Rightarrow> nat \<Rightarrow> byte list" where
  "getPixelColorsRGBA8_loop buffer has_alpha inp mode [] j = buffer"
| "getPixelColorsRGBA8_loop buffer has_alpha inp mode (i # is) j =
     (case fast_pixel mode inp i j of
        ((r, g, b, a), j') \<Rightarrow>
          (let nc = (if has_alpha then 4 else 3);
               buf = buffer[i * nc := r, i * nc + 1 := g, i * nc + 2 := b];
               buf' = (if has_alpha then buf[i * nc + 3 := a] else buf)
           in getPixelColorsRGBA8_loop buf' has_alpha inp mode is j'))"

definition getPixelColorsRGBA8 :: "byte list \<Rightarrow> nat \<Rightarrow> bool \<Rightarrow> byte list \<Rightarrow> color_mode \<Rightarrow> byte list" where
  "getPixelColorsRGBA8 buffer npix has_alpha inp mode =
     getPixelColorsRGBA8_loop buffer has_alpha inp mode [0..<npix] 0"

end
