(* ===== verification/Profile.thy ===== *)
theory Profile
  imports PixelRead ColorTree
begin

text \<open>
  The colour profiler \<open>lodepng_get_color_profile\<close> of \<^verbatim>\<open>src/pngtest.c\<close>
  (lines 406-589) and its helpers. The profile \<open>LodePNGColorProfile\<close> is a record
  (fields prefixed \<open>prof_\<close>; \<open>prof_palette\<close> holds the first 256 distinct
  colours, its C array having room for 256). The single-pass loops with their
  four \<open>*_done\<close> flags and early \<open>break\<close> are recursions over the list of pixel
  indices whose state is the record \<open>p8_state\<close> (profile, colour tree, flags,
  and the loop's locals \<open>r, g, b, a\<close>, which carry over between pixels). The
  loop body is split into the four updates of the source, in source order.
\<close>

record color_profile =
  prof_colored :: bool
  prof_key :: bool
  prof_key_r :: u16
  prof_key_g :: u16
  prof_key_b :: u16
  prof_alpha :: bool
  prof_numcolors :: nat
  prof_palette :: "rgba8 list"
  prof_bits :: nat

definition lodepng_color_profile_init :: color_profile where
  "lodepng_color_profile_init =
     \<lparr>prof_colored = False, prof_key = False, prof_key_r = 0, prof_key_g = 0, prof_key_b = 0,
      prof_alpha = False, prof_numcolors = 0, prof_palette = [], prof_bits = 1\<rparr>"

definition getValueRequiredBits :: "byte \<Rightarrow> nat" where
  "getValueRequiredBits value =
     (if value = 0 \<or> value = 255 then 1
      else if unat value mod 17 = 0 then (if unat value mod 85 = 0 then 2 else 4)
      else 8)"

record p8_state =
  st_prof :: color_profile
  st_tree :: ColorTree
  st_colored_done :: bool
  st_alpha_done :: bool
  st_numcolors_done :: bool
  st_bits_done :: bool
  st_px :: rgba8

text \<open>\<open>if(profile->bits < 8) profile->bits = 8;\<close>\<close>

definition bits_at_least_8 :: "color_profile \<Rightarrow> color_profile" where
  "bits_at_least_8 p = (if prof_bits p < 8 then p\<lparr>prof_bits := 8\<rparr> else p)"

text \<open>Lines 505-511: the bit depth needed by the red sample, then \<open>bits_done\<close>.\<close>

definition p8_bits_update :: "nat \<Rightarrow> p8_state \<Rightarrow> p8_state" where
  "p8_bits_update bpp st =
     (let p = st_prof st; (r, g, b, a) = st_px st;
          p' = (if \<not> st_bits_done st \<and> prof_bits p < 8
                then (let bits = getValueRequiredBits r
                      in if bits > prof_bits p then p\<lparr>prof_bits := bits\<rparr> else p)
                else p)
      in st\<lparr>st_prof := p', st_bits_done := (prof_bits p' \<ge> bpp)\<rparr>)"

text \<open>Lines 513-518 (8-bit pass) and 452-456 (16-bit pass, without the depth bump).\<close>

definition p8_colored_update :: "p8_state \<Rightarrow> p8_state" where
  "p8_colored_update st =
     (let (r, g, b, a) = st_px st
      in if \<not> st_colored_done st \<and> (r \<noteq> g \<or> r \<noteq> b)
         then st\<lparr>st_prof := bits_at_least_8 ((st_prof st)\<lparr>prof_colored := True\<rparr>),
                 st_colored_done := True\<rparr>
         else st)"

text \<open>
  Lines 520-543: the transparency-key state machine. \<open>r == profile->key_r\<close>
  compares the 8-bit sample with the 16-bit key field.
\<close>

definition alpha_step8 :: "rgba8 \<Rightarrow> color_profile \<Rightarrow> color_profile \<times> bool" where
  "alpha_step8 px p =
     (case px of (r, g, b, a) \<Rightarrow>
       let matchkey = (ucast r = prof_key_r p \<and> ucast g = prof_key_g p \<and> ucast b = prof_key_b p)
       in if a \<noteq> 255 \<and> (a \<noteq> 0 \<or> (prof_key p \<and> \<not> matchkey))
          then (bits_at_least_8 (p\<lparr>prof_alpha := True\<rparr>), True)
          else if a = 0 \<and> \<not> prof_alpha p \<and> \<not> prof_key p
          then (p\<lparr>prof_key := True, prof_key_r := ucast r, prof_key_g := ucast g,
                  prof_key_b := ucast b\<rparr>, False)
          else if a = 255 \<and> prof_key p \<and> matchkey
          then (bits_at_least_8 (p\<lparr>prof_alpha := True\<rparr>), True)
          else (p, False))"

definition p8_alpha_update :: "p8_state \<Rightarrow> p8_state" where
  "p8_alpha_update st =
     (if \<not> st_alpha_done st
      then (case alpha_step8 (st_px st) (st_prof st) of
              (p', done') \<Rightarrow> st\<lparr>st_prof := p', st_alpha_done := done'\<rparr>)
      else st)"

text \<open>Lines 545-562: count a colour not yet in the tree; remember the first 256.\<close>

definition p8_numcolors_update :: "nat \<Rightarrow> p8_state \<Rightarrow> p8_state" where
  "p8_numcolors_update maxnumcolors st =
     (case st_px st of (r, g, b, a) \<Rightarrow>
       if \<not> st_numcolors_done st \<and> \<not> color_tree_has (st_tree st) r g b a
       then (let p = st_prof st; n = prof_numcolors p;
                 p' = p\<lparr>prof_palette := (if n < 256 then prof_palette p @ [(r, g, b, a)]
                                          else prof_palette p),
                        prof_numcolors := Suc n\<rparr>
             in st\<lparr>st_prof := p', st_tree := color_tree_add (st_tree st) r g b a n,
                   st_numcolors_done := (Suc n \<ge> maxnumcolors)\<rparr>)
       else st)"

definition all_done :: "p8_state \<Rightarrow> bool" where
  "all_done st =
     (st_alpha_done st \<and> st_numcolors_done st \<and> st_colored_done st \<and> st_bits_done st)"

definition p8_step :: "color_mode \<Rightarrow> byte list \<Rightarrow> nat \<Rightarrow> nat \<Rightarrow> nat \<Rightarrow> p8_state \<Rightarrow> p8_state" where
  "p8_step mode inp bpp maxnumcolors i st =
     p8_numcolors_update maxnumcolors
       (p8_alpha_update
         (p8_colored_update
           (p8_bits_update bpp (st\<lparr>st_px := getPixelColorRGBA8 (st_px st) inp i mode\<rparr>))))"

text \<open>Lines 501-565: the main pass, leaving at the first pixel after which all four questions are answered.\<close>

text \<open>Line 564: \<open>break\<close> after the pixel that answered all four questions, else continue with \<open>k\<close>.\<close>

definition unless_all_done :: "(p8_state \<Rightarrow> p8_state) \<Rightarrow> p8_state \<Rightarrow> p8_state" where
  "unless_all_done k st = (if all_done st then st else k st)"

fun profile8_loop :: "color_mode \<Rightarrow> byte list \<Rightarrow> nat \<Rightarrow> nat \<Rightarrow> nat list \<Rightarrow> p8_state \<Rightarrow> p8_state" where
  "profile8_loop mode inp bpp maxnumcolors [] st = st"
| "profile8_loop mode inp bpp maxnumcolors (i # is) st =
     unless_all_done (profile8_loop mode inp bpp maxnumcolors is) (p8_step mode inp bpp maxnumcolors i st)"

text \<open>Lines 567-579: the second pass over all pixels when a key survived.\<close>

definition recheck8_step :: "color_mode \<Rightarrow> byte list \<Rightarrow> nat \<Rightarrow> color_profile \<times> rgba8 \<Rightarrow> color_profile \<times> rgba8" where
  "recheck8_step mode inp i st =
     (case st of (p, px) \<Rightarrow>
      case getPixelColorRGBA8 px inp i mode of
        (r, g, b, a) \<Rightarrow>
          (if a \<noteq> 0 \<and> ucast r = prof_key_r p \<and> ucast g = prof_key_g p \<and> ucast b = prof_key_b p
           then p\<lparr>prof_alpha := True\<rparr> else p, (r, g, b, a)))"

definition key_recheck8 :: "color_mode \<Rightarrow> byte list \<Rightarrow> nat list \<Rightarrow> color_profile \<times> rgba8 \<Rightarrow> color_profile \<times> rgba8" where
  "key_recheck8 mode inp is st = fold (recheck8_step mode inp) is st"

text \<open>Lines 582-584: \<open>key_r += (key_r << 8)\<close> in \<open>unsigned short\<close> arithmetic.\<close>

definition widen_key :: "color_profile \<Rightarrow> color_profile" where
  "widen_key p =
     p\<lparr>prof_key_r := prof_key_r p + push_bit 8 (prof_key_r p),
       prof_key_g := prof_key_g p + push_bit 8 (prof_key_g p),
       prof_key_b := prof_key_b p + push_bit 8 (prof_key_b p)\<rparr>"

subsection \<open>The 16-bit pass\<close>

text \<open>Lines 427-440: is some channel of some pixel not of the form \<open>0xXYXY\<close>?\<close>

definition u16_halves_differ :: "u16 \<Rightarrow> bool" where
  "u16_halves_differ x = (x AND 255 \<noteq> drop_bit 8 x AND 255)"

fun sixteen_scan :: "color_mode \<Rightarrow> byte list \<Rightarrow> nat list \<Rightarrow> rgba16 \<Rightarrow> bool" where
  "sixteen_scan mode inp [] px = False"
| "sixteen_scan mode inp (i # is) px =
     (case getPixelColorRGBA16 px inp i mode of
        (r, g, b, a) \<Rightarrow>
          if u16_halves_differ r \<or> u16_halves_differ g \<or> u16_halves_differ b \<or> u16_halves_differ a
          then True else sixteen_scan mode inp is (r, g, b, a))"

record p16_state =
  s16_prof :: color_profile
  s16_colored_done :: bool
  s16_alpha_done :: bool
  s16_px :: rgba16

definition alpha_step16 :: "rgba16 \<Rightarrow> color_profile \<Rightarrow> color_profile \<times> bool" where
  "alpha_step16 px p =
     (case px of (r, g, b, a) \<Rightarrow>
       let matchkey = (r = prof_key_r p \<and> g = prof_key_g p \<and> b = prof_key_b p)
       in if a \<noteq> 65535 \<and> (a \<noteq> 0 \<or> (prof_key p \<and> \<not> matchkey))
          then (bits_at_least_8 (p\<lparr>prof_alpha := True\<rparr>), True)
          else if a = 0 \<and> \<not> prof_alpha p \<and> \<not> prof_key p
          then (p\<lparr>prof_key := True, prof_key_r := r, prof_key_g := g, prof_key_b := b\<rparr>, False)
          else if a = 65535 \<and> prof_key p \<and> matchkey
          then (p\<lparr>prof_alpha := True\<rparr>, True)
          else (p, False))"

text \<open>Lines 448-482; \<open>bits_done\<close> and \<open>numcolors_done\<close> are set before this loop.\<close>

definition p16_step :: "color_mode \<Rightarrow> byte list \<Rightarrow> nat \<Rightarrow> p16_state \<Rightarrow> p16_state" where
  "p16_step mode inp i st =
     (let px = getPixelColorRGBA16 (s16_px st) inp i mode;
          (r, g, b, a) = px;
          st1 = (if \<not> s16_colored_done st \<and> (r \<noteq> g \<or> r \<noteq> b)
                 then st\<lparr>s16_prof := (s16_prof st)\<lparr>prof_colored := True\<rparr>, s16_colored_done := True\<rparr>
                 else st);
          st2 = (if \<not> s16_alpha_done st1
                 then (case alpha_step16 px (s16_prof st1) of
                         (p', done') \<Rightarrow> st1\<lparr>s16_prof := p', s16_alpha_done := done'\<rparr>)
                 else st1)
      in st2\<lparr>s16_px := px\<rparr>)"

text \<open>Line 481: \<open>bits_done\<close> and \<open>numcolors_done\<close> are set, so the loop breaks when alpha and colour are answered.\<close>

definition unless16_done :: "(p16_state \<Rightarrow> p16_state) \<Rightarrow> p16_state \<Rightarrow> p16_state" where
  "unless16_done k st = (if s16_alpha_done st \<and> s16_colored_done st then st else k st)"

fun profile16_loop :: "color_mode \<Rightarrow> byte list \<Rightarrow> nat list \<Rightarrow> p16_state \<Rightarrow> p16_state" where
  "profile16_loop mode inp [] st = st"
| "profile16_loop mode inp (i # is) st = unless16_done (profile16_loop mode inp is) (p16_step mode inp i st)"

definition recheck16_step :: "color_mode \<Rightarrow> byte list \<Rightarrow> nat \<Rightarrow> color_profile \<times> rgba16 \<Rightarrow> color_profile \<times> rgba16" where
  "recheck16_step mode inp i st =
     (case st of (p, px) \<Rightarrow>
      case getPixelColorRGBA16 px inp i mode of
        (r, g, b, a) \<Rightarrow>
          (if a \<noteq> 0 \<and> r = prof_key_r p \<and> g = prof_key_g p \<and> b = prof_key_b p
           then p\<lparr>prof_alpha := True\<rparr> else p, (r, g, b, a)))"

definition key_recheck16 :: "color_mode \<Rightarrow> byte list \<Rightarrow> nat list \<Rightarrow> color_profile \<times> rgba16 \<Rightarrow> color_profile \<times> rgba16" where
  "key_recheck16 mode inp is st = fold (recheck16_step mode inp) is st"

subsection \<open>The profiler\<close>

text \<open>
  \<open>lodepng_get_color_profile(profile, in, w, h, mode)\<close>. Its \<open>error\<close> variable is
  never set, so it always returns 0 and the profile; the model returns the
  profile. The locals \<open>r, g, b, a\<close> of the 16-bit check are uninitialised in C;
  for bit depth 16 every legal colour type writes all four, and they start at
  0 here.
\<close>

definition maxnumcolors_of :: "nat \<Rightarrow> nat" where
  "maxnumcolors_of bpp =
     (if bpp \<le> 8 then (if bpp = 1 then 2 else if bpp = 2 then 4 else if bpp = 4 then 16 else 256)
      else 257)"

text \<open>Lines 499-503: the flags and locals of the 8-bit pass before its first pixel.\<close>

definition p8_init :: "color_profile \<Rightarrow> color_mode \<Rightarrow> p8_state" where
  "p8_init profile mode =
     \<lparr>st_prof = profile, st_tree = color_tree_init,
      st_colored_done = lodepng_is_greyscale_type mode, st_alpha_done = \<not> lodepng_can_have_alpha mode,
      st_numcolors_done = False, st_bits_done = (lodepng_get_bpp mode = 1), st_px = (0, 0, 0, 0)\<rparr>"

text \<open>Lines 484-496: after the 16-bit pass, the second pass when a key survived.\<close>

definition profile16_finish :: "color_mode \<Rightarrow> byte list \<Rightarrow> nat \<Rightarrow> p16_state \<Rightarrow> color_profile" where
  "profile16_finish mode inp n st =
     (let p = s16_prof st
      in if prof_key p \<and> \<not> prof_alpha p then fst (key_recheck16 mode inp [0..<n] (p, s16_px st)) else p)"

text \<open>Lines 567-584: after the 8-bit pass, the second pass when a key survived, then the key widening.\<close>

definition profile8_finish :: "color_mode \<Rightarrow> byte list \<Rightarrow> nat \<Rightarrow> p8_state \<Rightarrow> color_profile" where
  "profile8_finish mode inp n st =
     (let p = st_prof st
      in widen_key (if prof_key p \<and> \<not> prof_alpha p then fst (key_recheck8 mode inp [0..<n] (p, st_px st)) else p))"

definition lodepng_get_color_profile ::
  "color_profile \<Rightarrow> byte list \<Rightarrow> u32 \<Rightarrow> u32 \<Rightarrow> color_mode \<Rightarrow> color_profile" where
  "lodepng_get_color_profile profile inp w h mode =
     (let n = numpixels w h;
          bpp = lodepng_get_bpp mode
      in if bitdepth mode = 16 \<and> sixteen_scan mode inp [0..<n] (0, 0, 0, 0) then
           profile16_finish mode inp n
             (profile16_loop mode inp [0..<n]
                \<lparr>s16_prof = profile\<lparr>prof_bits := 16\<rparr>, s16_colored_done = lodepng_is_greyscale_type mode,
                 s16_alpha_done = \<not> lodepng_can_have_alpha mode, s16_px = (0, 0, 0, 0)\<rparr>)
         else
           profile8_finish mode inp n
             (profile8_loop mode inp bpp (maxnumcolors_of bpp) [0..<n] (p8_init profile mode)))"

end
