(* ===== verification/ProfileProps.thy ===== *)
theory ProfileProps
  imports Profile
begin

text \<open>
  Properties of the colour profiler of \<^verbatim>\<open>src/pngtest.c\<close>. The main result is
  the soundness of the transparency key on the 8-bit pass: when the profile says
  the image needs no alpha channel, every pixel is opaque or fully transparent,
  and the transparent ones are exactly those whose colour is the key. The proof
  is an invariant of the main loop (\<open>p8_inv\<close>: the set of pixels seen so far
  against the key state machine \<open>alpha_step8\<close>), a closed form of the second
  pass \<open>key_recheck8\<close>, and the injectivity of the widening \<open>k + (k << 8)\<close>
  modulo \<open>2^16\<close>.

  The pixel decoder's result depends on the previous pixel only in the grey
  branch below 8 bits (the line-263 defect, see \<open>PixelRead\<close>); the theorems
  here are for the other modes (\<open>decode_independent\<close>), where each pixel is
  \<open>pixel8 mode inp i\<close>.
\<close>


text \<open>Modes whose decoded pixel does not depend on the previous one.\<close>

definition decode_independent :: "color_mode \<Rightarrow> bool" where
  "decode_independent mode =
     (\<not> (colortype mode = LCT_GREY \<and> bitdepth mode \<noteq> 8 \<and> bitdepth mode \<noteq> 16))"

text \<open>The pixel \<open>i\<close> as decoded from a fresh state.\<close>

definition pixel8 :: "color_mode \<Rightarrow> byte list \<Rightarrow> nat \<Rightarrow> rgba8" where
  "pixel8 mode inp i = getPixelColorRGBA8 (0, 0, 0, 0) inp i mode"

text \<open>Line 522: the colour equals the key, comparing each 8-bit channel with the 16-bit key field.\<close>

definition key_matches :: "color_profile \<Rightarrow> rgba8 \<Rightarrow> bool" where
  "key_matches p px =
     (case px of (r, g, b, a) \<Rightarrow> ucast r = prof_key_r p \<and> ucast g = prof_key_g p \<and> ucast b = prof_key_b p)"

text \<open>What the key state machine knows about the pixels \<open>S\<close> seen so far while no alpha was found.\<close>

definition key_inv8 :: "color_profile \<Rightarrow> rgba8 set \<Rightarrow> bool" where
  "key_inv8 p S \<longleftrightarrow>
     (\<forall>(r, g, b, a) \<in> S. (a = 0 \<or> a = 255) \<and> (a = 0 \<longrightarrow> prof_key p \<and> key_matches p (r, g, b, a)))"

text \<open>Two profiles agree on the key.\<close>

definition same_key :: "color_profile \<Rightarrow> color_profile \<Rightarrow> bool" where
  "same_key p q \<longleftrightarrow> prof_key p = prof_key q \<and> prof_key_r p = prof_key_r q \<and>
     prof_key_g p = prof_key_g q \<and> prof_key_b p = prof_key_b q"

text \<open>The invariant of the 8-bit main loop over the pixels \<open>S\<close> processed so far.\<close>

definition p8_inv :: "p8_state \<Rightarrow> rgba8 set \<Rightarrow> bool" where
  "p8_inv st S \<longleftrightarrow> st_alpha_done st = prof_alpha (st_prof st) \<and>
     (\<not> prof_alpha (st_prof st) \<longrightarrow> key_inv8 (st_prof st) S)"

text \<open>Lines 513-514: a pixel is grey when \<open>r = g = b\<close>.\<close>

definition is_grey :: "rgba8 \<Rightarrow> bool" where
  "is_grey px = (case px of (r, g, b, a) \<Rightarrow> r = g \<and> r = b)"

text \<open>Line 572: a pixel that shows the key is not a key (it is not fully transparent).\<close>

definition recheck_hit :: "color_profile \<Rightarrow> rgba8 \<Rightarrow> bool" where
  "recheck_hit p px = (case px of (r, g, b, a) \<Rightarrow> a \<noteq> 0 \<and> key_matches p px)"

declare unless_all_done_def [simp] unless16_done_def [simp]

lemma getPixelColorRGBA8_independent:
  "decode_independent mode \<Longrightarrow> getPixelColorRGBA8 prev inp i mode = pixel8 mode inp i"
  by (cases prev) (auto simp: getPixelColorRGBA8_def pixel8_def decode_independent_def Let_def
      split: colortype.split)

lemma key_matches_cong: "same_key p q \<Longrightarrow> key_matches p px = key_matches q px"
  by (cases px) (simp add: key_matches_def same_key_def)

lemma same_key_refl [simp]: "same_key p p"
  by (simp add: same_key_def)

lemma same_key_trans: "same_key p q \<Longrightarrow> same_key q r \<Longrightarrow> same_key p r"
  by (simp add: same_key_def)

lemma bits_at_least_8_fields [simp]:
  "prof_key (bits_at_least_8 p) = prof_key p" "prof_key_r (bits_at_least_8 p) = prof_key_r p"
  "prof_key_g (bits_at_least_8 p) = prof_key_g p" "prof_key_b (bits_at_least_8 p) = prof_key_b p"
  "prof_alpha (bits_at_least_8 p) = prof_alpha p"
  by (simp_all add: bits_at_least_8_def)

lemma p8_bits_update_fields [simp]:
  "st_alpha_done (p8_bits_update bpp st) = st_alpha_done st"
  "st_px (p8_bits_update bpp st) = st_px st"
  "prof_key (st_prof (p8_bits_update bpp st)) = prof_key (st_prof st)"
  "prof_key_r (st_prof (p8_bits_update bpp st)) = prof_key_r (st_prof st)"
  "prof_key_g (st_prof (p8_bits_update bpp st)) = prof_key_g (st_prof st)"
  "prof_key_b (st_prof (p8_bits_update bpp st)) = prof_key_b (st_prof st)"
  "prof_alpha (st_prof (p8_bits_update bpp st)) = prof_alpha (st_prof st)"
  by (simp_all add: p8_bits_update_def Let_def split: prod.split)

lemma p8_colored_update_fields [simp]:
  "st_alpha_done (p8_colored_update st) = st_alpha_done st"
  "st_px (p8_colored_update st) = st_px st"
  "prof_key (st_prof (p8_colored_update st)) = prof_key (st_prof st)"
  "prof_key_r (st_prof (p8_colored_update st)) = prof_key_r (st_prof st)"
  "prof_key_g (st_prof (p8_colored_update st)) = prof_key_g (st_prof st)"
  "prof_key_b (st_prof (p8_colored_update st)) = prof_key_b (st_prof st)"
  "prof_alpha (st_prof (p8_colored_update st)) = prof_alpha (st_prof st)"
  by (simp_all add: p8_colored_update_def split: prod.split)

lemma p8_numcolors_update_fields [simp]:
  "st_alpha_done (p8_numcolors_update m st) = st_alpha_done st"
  "prof_key (st_prof (p8_numcolors_update m st)) = prof_key (st_prof st)"
  "prof_key_r (st_prof (p8_numcolors_update m st)) = prof_key_r (st_prof st)"
  "prof_key_g (st_prof (p8_numcolors_update m st)) = prof_key_g (st_prof st)"
  "prof_key_b (st_prof (p8_numcolors_update m st)) = prof_key_b (st_prof st)"
  "prof_alpha (st_prof (p8_numcolors_update m st)) = prof_alpha (st_prof st)"
  by (simp_all add: p8_numcolors_update_def Let_def split: prod.split)

lemma p8_step_done:
  assumes "st_alpha_done st"
  shows "st_alpha_done (p8_step mode inp bpp m i st) \<and>
         same_key (st_prof (p8_step mode inp bpp m i st)) (st_prof st) \<and>
         prof_alpha (st_prof (p8_step mode inp bpp m i st)) = prof_alpha (st_prof st)"
  using assms by (simp add: p8_step_def p8_alpha_update_def same_key_def)

lemma alpha_step8_keeps_inv:
  assumes inv: "key_inv8 p S" and na: "\<not> prof_alpha p"
    and step: "alpha_step8 px p = (p', d)"
  shows "(prof_alpha p' \<and> d) \<or> (\<not> prof_alpha p' \<and> \<not> d \<and> key_inv8 p' (insert px S))"
proof -
  obtain r g b a where px: "px = (r, g, b, a)" by (cases px) auto
  note defs = alpha_step8_def key_inv8_def key_matches_def bits_at_least_8_def
  show ?thesis
  proof (cases "a \<noteq> 255 \<and> (a \<noteq> 0 \<or> (prof_key p \<and> \<not> key_matches p px))")
    case True
    then show ?thesis using step px by (auto simp: defs)
  next
    case c1: False
    show ?thesis
    proof (cases "a = 0 \<and> \<not> prof_alpha p \<and> \<not> prof_key p")
      case True
      then have none0: "\<forall>(r', g', b', a') \<in> S. a' = 255" using inv by (auto simp: key_inv8_def)
      show ?thesis using True c1 step px none0 by (auto simp: defs)
    next
      case c2: False
      show ?thesis
      proof (cases "a = 255 \<and> prof_key p \<and> key_matches p px")
        case True
        then show ?thesis using c1 c2 step px by (auto simp: defs)
      next
        case False
        then show ?thesis using c1 c2 step px inv na by (auto simp: defs)
      qed
    qed
  qed
qed

lemma profile8_loop_done:
  "st_alpha_done st \<Longrightarrow>
   st_alpha_done (profile8_loop mode inp bpp m is st) \<and>
   same_key (st_prof (profile8_loop mode inp bpp m is st)) (st_prof st) \<and>
   prof_alpha (st_prof (profile8_loop mode inp bpp m is st)) = prof_alpha (st_prof st)"
proof (induction "is" arbitrary: st)
  case Nil
  then show ?case by simp
next
  case (Cons i "is")
  note s1 = p8_step_done [OF Cons.prems, of mode inp bpp m i]
  show ?case
    using s1 Cons.IH [of "p8_step mode inp bpp m i st"]
    by (auto simp: Let_def intro: same_key_trans)
qed

lemma key_inv8_cong: "same_key p q \<Longrightarrow> key_inv8 p S = key_inv8 q S"
  by (simp add: key_inv8_def key_matches_def same_key_def)

lemma p8_inv_step:
  assumes ind: "decode_independent mode" and inv: "p8_inv st S"
  shows "p8_inv (p8_step mode inp bpp m i st) (insert (pixel8 mode inp i) S)"
proof (cases "st_alpha_done st")
  case True
  then show ?thesis using inv p8_step_done [OF True, of mode inp bpp m i] by (simp add: p8_inv_def)
next
  case False
  define st1 where "st1 = p8_colored_update (p8_bits_update bpp (st\<lparr>st_px := pixel8 mode inp i\<rparr>))"
  obtain p' d where ad: "alpha_step8 (pixel8 mode inp i) (st_prof st1) = (p', d)" by fastforce
  have px1: "st_px st1 = pixel8 mode inp i" by (simp add: st1_def)
  have sk: "same_key (st_prof st1) (st_prof st)" and na: "\<not> prof_alpha (st_prof st1)"
    and nd: "\<not> st_alpha_done st1"
    using False inv by (simp_all add: st1_def same_key_def p8_inv_def)
  have ki: "key_inv8 (st_prof st1) S"
    using inv False key_inv8_cong [OF sk] by (simp add: p8_inv_def)
  have res: "st_prof (p8_step mode inp bpp m i st) = st_prof (p8_numcolors_update m (st1\<lparr>st_prof := p', st_alpha_done := d\<rparr>))"
    "st_alpha_done (p8_step mode inp bpp m i st) = d"
    using nd ad by (simp_all add: p8_step_def getPixelColorRGBA8_independent [OF ind] st1_def [symmetric]
      p8_alpha_update_def px1)
  have "prof_alpha p' \<and> d \<or> \<not> prof_alpha p' \<and> \<not> d \<and> key_inv8 p' (insert (pixel8 mode inp i) S)"
    by (rule alpha_step8_keeps_inv [OF ki na ad])
  moreover have "same_key (st_prof (p8_step mode inp bpp m i st)) p'"
    "prof_alpha (st_prof (p8_step mode inp bpp m i st)) = prof_alpha p'"
    using res by (simp_all add: same_key_def)
  ultimately show ?thesis
    using res key_inv8_cong by (auto simp: p8_inv_def)
qed

lemma profile8_loop_inv:
  assumes ind: "decode_independent mode"
  shows "p8_inv st S \<Longrightarrow> p8_inv (profile8_loop mode inp bpp m is st) (S \<union> pixel8 mode inp ` set is)
         \<or> prof_alpha (st_prof (profile8_loop mode inp bpp m is st))"
proof (induction "is" arbitrary: st S)
  case Nil
  then show ?case by simp
next
  case (Cons i "is")
  let ?st' = "p8_step mode inp bpp m i st"
  have inv': "p8_inv ?st' (insert (pixel8 mode inp i) S)" by (rule p8_inv_step [OF ind Cons.prems])
  show ?case
  proof (cases "all_done ?st'")
    case True
    then show ?thesis using inv' by (simp add: all_done_def p8_inv_def)
  next
    case False
    then show ?thesis using Cons.IH [OF inv'] by (simp add: insert_commute)
  qed
qed

lemma recheck_hit_alpha [simp]: "recheck_hit (p\<lparr>prof_alpha := x\<rparr>) px = recheck_hit p px"
  by (cases px) (simp add: recheck_hit_def key_matches_def)

lemma key_recheck8_result:
  "decode_independent mode \<Longrightarrow>
   fst (key_recheck8 mode inp is (p, px)) =
     (if \<exists>i \<in> set is. recheck_hit p (pixel8 mode inp i) then p\<lparr>prof_alpha := True\<rparr> else p)"
proof (induction "is" arbitrary: p px)
  case Nil
  then show ?case by (simp add: key_recheck8_def)
next
  case (Cons i "is")
  obtain r g b a where px: "pixel8 mode inp i = (r, g, b, a)" by (cases "pixel8 mode inp i") auto
  have hit: "recheck_hit p (r, g, b, a) = (a \<noteq> 0 \<and> ucast r = prof_key_r p \<and> ucast g = prof_key_g p \<and> ucast b = prof_key_b p)"
    by (simp add: recheck_hit_def key_matches_def)
  show ?case
    using Cons.IH [OF Cons.prems] px hit
    by (auto simp: key_recheck8_def recheck8_step_def getPixelColorRGBA8_independent [OF Cons.prems])
qed

lemma palette_entry_opaque:
  "\<not> palette_has_alpha ps \<Longrightarrow> k < length ps \<Longrightarrow> snd (snd (snd (ps ! k))) = 255"
proof -
  assume na: "\<not> palette_has_alpha ps" and k: "k < length ps"
  obtain r g b a where e: "ps ! k = (r, g, b, a)" by (cases "ps ! k") auto
  have "(r, g, b, a) \<in> set ps" using nth_mem [OF k] e by simp
  then have "\<not> a < 255" using na by (auto simp: palette_has_alpha_iff)
  then show ?thesis using e by (simp add: byte_not_less_255)
qed

lemma cannot_alpha_opaque:
  "\<not> lodepng_can_have_alpha mode \<Longrightarrow> snd (snd (snd (getPixelColorRGBA8 prev inp i mode))) = 255"
  by (cases prev)
    (auto simp: getPixelColorRGBA8_def lodepng_can_have_alpha_def lodepng_is_alpha_type_iff
       lodepng_has_palette_alpha_def Let_def not_le palette_entry_opaque
       split: colortype.split)

lemma u16_257_inverse: "(65281 :: u16) * 257 = 1"
  by simp

lemma widen_key_eq_iff:
  "unat (k + push_bit 8 k :: u16) = 257 * unat (r :: byte) \<longleftrightarrow> k = ucast r"
proof -
  have w: "k + push_bit 8 k = 257 * k" for k :: u16 by (simp add: push_bit_eq_mult)
  have small: "unat (257 * ucast r :: u16) = 257 * unat r"
  proof -
    have "unat r < 256" by simp
    then have "257 * unat r < 65536" by linarith
    then have "257 * unat r < 2 ^ 16" by simp
    then show ?thesis by (simp add: unat_mult_lem [THEN iffD1])
  qed
  show ?thesis
  proof
    assume "unat (k + push_bit 8 k) = 257 * unat r"
    then have "257 * k = 257 * (ucast r :: u16)" using small w by (metis word_unat_eq_iff)
    then have "65281 * (257 * k) = 65281 * (257 * (ucast r :: u16))" by simp
    then show "k = ucast r" by (simp only: mult.assoc [symmetric] u16_257_inverse) simp
  next
    assume "k = ucast r"
    then show "unat (k + push_bit 8 k) = 257 * unat r" using small w by simp
  qed
qed

lemma key_inv8_mem:
  assumes "key_inv8 p S" and "(r, g, b, a) \<in> S"
  shows "(a = 0 \<or> a = 255) \<and> (a = 0 \<longrightarrow> prof_key p \<and> key_matches p (r, g, b, a))"
  using assms unfolding key_inv8_def by (drule_tac x = "(r, g, b, a)" in bspec) auto

lemma widen_key_fields [simp]:
  "prof_key (widen_key p) = prof_key p" "prof_alpha (widen_key p) = prof_alpha p"
  by (simp_all add: widen_key_def)

lemma key_matches_widened:
  "key_matches p (r, g, b, a) \<longleftrightarrow>
   unat (prof_key_r (widen_key p)) = 257 * unat r \<and> unat (prof_key_g (widen_key p)) = 257 * unat g \<and>
   unat (prof_key_b (widen_key p)) = 257 * unat b"
  by (simp add: key_matches_def widen_key_def widen_key_eq_iff eq_commute [of "ucast _"])

lemma lodepng_get_color_profile_8:
  assumes "bitdepth mode \<noteq> 16"
  shows "lodepng_get_color_profile profile inp w h mode =
    (let p = st_prof (profile8_loop mode inp (lodepng_get_bpp mode) (maxnumcolors_of (lodepng_get_bpp mode))
                        [0..<numpixels w h] (p8_init profile mode))
     in widen_key (if prof_key p \<and> \<not> prof_alpha p
                   then fst (key_recheck8 mode inp [0..<numpixels w h] (p, st_px (profile8_loop mode inp
                          (lodepng_get_bpp mode) (maxnumcolors_of (lodepng_get_bpp mode)) [0..<numpixels w h]
                          (p8_init profile mode))))
                   else p))"
  using assms by (simp add: lodepng_get_color_profile_def profile8_finish_def Let_def)

lemma profile_key_sound:
  assumes ind: "decode_independent mode" and bd: "bitdepth mode \<noteq> 16"
    and P: "P = lodepng_get_color_profile lodepng_color_profile_init inp w h mode"
    and na: "\<not> prof_alpha P" and i: "i < numpixels w h" and px: "pixel8 mode inp i = (r, g, b, a)"
  shows "(a = 0 \<or> a = 255) \<and>
    (a = 0 \<longleftrightarrow> prof_key P \<and> unat (prof_key_r P) = 257 * unat r \<and>
                  unat (prof_key_g P) = 257 * unat g \<and> unat (prof_key_b P) = 257 * unat b)"
proof -
  let ?bpp = "lodepng_get_bpp mode"
  let ?st = "profile8_loop mode inp ?bpp (maxnumcolors_of ?bpp) [0..<numpixels w h]
               (p8_init lodepng_color_profile_init mode)"
  define p0 where "p0 = st_prof ?st"
  have hits: "prof_key p0 \<longrightarrow> \<not> (\<exists>j \<in> set [0..<numpixels w h]. recheck_hit p0 (pixel8 mode inp j))"
    and P0: "P = widen_key p0" and na0: "\<not> prof_alpha p0"
    using na unfolding P lodepng_get_color_profile_8 [OF bd] p0_def [symmetric]
    by (auto simp: Let_def key_recheck8_result [OF ind] split: if_splits)
  have mem: "(r, g, b, a) \<in> pixel8 mode inp ` set [0..<numpixels w h]"
    using i px by (metis atLeastLessThan_iff image_eqI set_upt zero_le)
  show ?thesis
  proof (cases "lodepng_can_have_alpha mode")
    case True
    have "p8_inv (p8_init lodepng_color_profile_init mode) {}"
      using True by (simp add: p8_inv_def p8_init_def key_inv8_def lodepng_color_profile_init_def)
    then have "key_inv8 p0 (pixel8 mode inp ` set [0..<numpixels w h])"
      using profile8_loop_inv [OF ind] na0 by (fastforce simp: p0_def p8_inv_def)
    then have "(a = 0 \<or> a = 255) \<and> (a = 0 \<longrightarrow> prof_key p0 \<and> key_matches p0 (r, g, b, a))"
      using mem by (rule key_inv8_mem)
    moreover have "a \<noteq> 0 \<and> prof_key p0 \<longrightarrow> \<not> key_matches p0 (r, g, b, a)"
      using hits mem px by (force simp: recheck_hit_def)
    ultimately show ?thesis by (auto simp: P0 key_matches_widened)
  next
    case False
    have "prof_key p0 = False"
      using profile8_loop_done [of "p8_init lodepng_color_profile_init mode"] False
      by (simp add: p0_def p8_init_def same_key_def lodepng_color_profile_init_def)
    moreover have "a = 255" using cannot_alpha_opaque [OF False, of "(0, 0, 0, 0)" inp i] px by (simp add: pixel8_def)
    ultimately show ?thesis by (simp add: P0)
  qed
qed

subsection \<open>The colour flag\<close>

lemma p8_updates_colored [simp]:
  "prof_colored (st_prof (p8_bits_update bpp st)) = prof_colored (st_prof st)"
  "st_colored_done (p8_bits_update bpp st) = st_colored_done st"
  "prof_colored (st_prof (p8_alpha_update st)) = prof_colored (st_prof st)"
  "st_colored_done (p8_alpha_update st) = st_colored_done st"
  "st_px (p8_alpha_update st) = st_px st"
  "prof_colored (st_prof (p8_numcolors_update m st)) = prof_colored (st_prof st)"
  "st_colored_done (p8_numcolors_update m st) = st_colored_done st"
  by (simp_all add: p8_bits_update_def p8_alpha_update_def p8_numcolors_update_def alpha_step8_def
      bits_at_least_8_def Let_def split: prod.split)

lemma p8_step_colored:
  assumes "decode_independent mode" and "st_colored_done st = prof_colored (st_prof st)"
  shows "st_colored_done (p8_step mode inp bpp m i st) = prof_colored (st_prof (p8_step mode inp bpp m i st)) \<and>
         prof_colored (st_prof (p8_step mode inp bpp m i st)) =
           (prof_colored (st_prof st) \<or> \<not> is_grey (pixel8 mode inp i))"
  using assms
  by (auto simp: p8_step_def p8_colored_update_def getPixelColorRGBA8_independent is_grey_def
      bits_at_least_8_def split: prod.split)

lemma profile8_loop_colored:
  assumes ind: "decode_independent mode"
  shows "st_colored_done st = prof_colored (st_prof st) \<Longrightarrow>
    prof_colored (st_prof (profile8_loop mode inp bpp m is st)) =
      (prof_colored (st_prof st) \<or> (\<exists>i \<in> set is. \<not> is_grey (pixel8 mode inp i)))"
proof (induction "is" arbitrary: st)
  case Nil
  then show ?case by simp
next
  case (Cons i "is")
  note s = p8_step_colored [OF ind Cons.prems, of inp bpp m i]
  show ?case
    using s Cons.IH [of "p8_step mode inp bpp m i st"] by (auto simp: Let_def all_done_def)
qed

lemma profile8_loop_colored_done:
  "st_colored_done st \<Longrightarrow> st_colored_done (profile8_loop mode inp bpp m is st) \<and>
     prof_colored (st_prof (profile8_loop mode inp bpp m is st)) = prof_colored (st_prof st)"
proof (induction "is" arbitrary: st)
  case Nil
  then show ?case by simp
next
  case (Cons i "is")
  have "st_colored_done (p8_step mode inp bpp m i st) \<and>
        prof_colored (st_prof (p8_step mode inp bpp m i st)) = prof_colored (st_prof st)"
    using Cons.prems by (simp add: p8_step_def p8_colored_update_def split: prod.split)
  then show ?case using Cons.IH [of "p8_step mode inp bpp m i st"] by (simp add: Let_def)
qed

lemma greyscale_pixel8_grey:
  "decode_independent mode \<Longrightarrow> lodepng_is_greyscale_type mode \<Longrightarrow> is_grey (pixel8 mode inp i)"
  by (auto simp: pixel8_def getPixelColorRGBA8_def decode_independent_def lodepng_is_greyscale_type_def
      is_grey_def Let_def)

lemma widen_key_colored [simp]: "prof_colored (widen_key p) = prof_colored p"
  by (simp add: widen_key_def)

lemma profile_colored_iff:
  assumes ind: "decode_independent mode" and bd: "bitdepth mode \<noteq> 16"
  shows "prof_colored (lodepng_get_color_profile lodepng_color_profile_init inp w h mode) =
         (\<exists>i < numpixels w h. \<not> is_grey (pixel8 mode inp i))"
proof -
  let ?bpp = "lodepng_get_bpp mode"
  let ?st = "profile8_loop mode inp ?bpp (maxnumcolors_of ?bpp) [0..<numpixels w h]
               (p8_init lodepng_color_profile_init mode)"
  have P: "prof_colored (lodepng_get_color_profile lodepng_color_profile_init inp w h mode) =
           prof_colored (st_prof ?st)"
    unfolding lodepng_get_color_profile_8 [OF bd]
    by (simp add: Let_def key_recheck8_result [OF ind])
  have c0: "\<not> prof_colored (st_prof (p8_init lodepng_color_profile_init mode))"
    by (simp add: p8_init_def lodepng_color_profile_init_def)
  show ?thesis
  proof (cases "lodepng_is_greyscale_type mode")
    case True
    then have "st_colored_done (p8_init lodepng_color_profile_init mode)" by (simp add: p8_init_def)
    then show ?thesis
      using P c0 profile8_loop_colored_done greyscale_pixel8_grey [OF ind True] by auto
  next
    case False
    then have "st_colored_done (p8_init lodepng_color_profile_init mode) =
               prof_colored (st_prof (p8_init lodepng_color_profile_init mode))"
      using c0 by (simp add: p8_init_def)
    then show ?thesis
      using P c0 profile8_loop_colored [OF ind] by auto
  qed
qed

text \<open>
  C4. Soundness of the transparency key on the 8-bit pass. For an input mode
  whose pixels decode independently of each other and whose bit depth is not 16,
  if \<open>lodepng_get_color_profile\<close> reports no alpha, then every pixel of the image
  has alpha 0 or 255, and a pixel is transparent exactly when the profile has a
  key and the key, widened to 16 bits by \<open>k + (k << 8)\<close>, is its colour.
\<close>

theorem profile_key_exact:
  assumes ind: "decode_independent mode" and bd: "bitdepth mode \<noteq> 16"
    and P: "P = lodepng_get_color_profile lodepng_color_profile_init inp w h mode"
    and na: "\<not> prof_alpha P" and i: "i < numpixels w h" and px: "pixel8 mode inp i = (r, g, b, a)"
  shows "(a = 0 \<or> a = 255) \<and>
    (a = 0 \<longleftrightarrow> prof_key P \<and> unat (prof_key_r P) = 257 * unat r \<and>
                  unat (prof_key_g P) = 257 * unat g \<and> unat (prof_key_b P) = 257 * unat b)"
  using assms by (rule profile_key_sound)

lemma profile_example:
  "lodepng_get_color_profile lodepng_color_profile_init [10, 20, 30, 0, 1, 2, 3, 255] 2 1
     lodepng_color_mode_init =
   \<lparr>prof_colored = True, prof_key = True, prof_key_r = 2570, prof_key_g = 5140, prof_key_b = 7710,
    prof_alpha = False, prof_numcolors = 2, prof_palette = [(10, 20, 30, 0), (1, 2, 3, 255)],
    prof_bits = 8\<rparr>"
  by code_simp

theorem profile_key_exact_witness:
  "decode_independent lodepng_color_mode_init \<and> bitdepth lodepng_color_mode_init \<noteq> 16 \<and>
   \<not> prof_alpha (lodepng_get_color_profile lodepng_color_profile_init [10, 20, 30, 0, 1, 2, 3, 255] 2 1
                    lodepng_color_mode_init) \<and>
   0 < numpixels 2 1 \<and> pixel8 lodepng_color_mode_init [10, 20, 30, 0, 1, 2, 3, 255] 0 = (10, 20, 30, 0) \<and>
   prof_key (lodepng_get_color_profile lodepng_color_profile_init [10, 20, 30, 0, 1, 2, 3, 255] 2 1
               lodepng_color_mode_init)"
proof -
  have m: "decode_independent lodepng_color_mode_init" "bitdepth lodepng_color_mode_init = 8"
    "pixel8 lodepng_color_mode_init [10, 20, 30, 0, 1, 2, 3, 255] 0 = (10, 20, 30, 0)"
    by (simp_all add: decode_independent_def lodepng_color_mode_init_def pixel8_def getPixelColorRGBA8_def)
  show ?thesis
    using profile_key_exact [of lodepng_color_mode_init
      "lodepng_get_color_profile lodepng_color_profile_init [10, 20, 30, 0, 1, 2, 3, 255] 2 1
         lodepng_color_mode_init"
      "[10, 20, 30, 0, 1, 2, 3, 255]" 2 1 0 10 20 30 0] m
    by (simp add: profile_example)
qed

end
