(* ===== verification/AutoChoose.thy ===== *)
theory AutoChoose
  imports Profile
begin

text \<open>
  The mode selector \<open>lodepng_auto_choose_color(mode_out, image, w, h, mode_in)\<close>
  of \<^verbatim>\<open>src/pngtest.c\<close> (lines 653-716): profile the image, then choose a palette
  or the smallest grey/RGB(A) mode and, when a key survived, a transparent colour
  key masked to the chosen depth (\<open>(1u << bitdepth) - 1\<close>, in 32-bit
  unsigned arithmetic). The products \<open>w * h\<close> are 32-bit unsigned
  (\<open>numpixels\<close>); \<open>n * 2\<close> cannot wrap since \<open>n \<le> 257\<close>. Palette allocation
  failure (error 83) is not modelled, so the result is the chosen mode.
\<close>

definition palettebits_of :: "nat \<Rightarrow> nat" where
  "palettebits_of n = (if n \<le> 2 then 1 else if n \<le> 4 then 2 else if n \<le> 16 then 4 else 8)"

text \<open>Lines 682-686: \<open>lodepng_palette_add\<close> for each remembered colour.\<close>

fun palette_add_all :: "color_mode \<Rightarrow> rgba8 list \<Rightarrow> color_mode" where
  "palette_add_all m [] = m"
| "palette_add_all m ((r, g, b, a) # cs) = palette_add_all (lodepng_palette_add m r g b a) cs"

text \<open>Lines 666-670: too few pixels to justify the \<open>tRNS\<close> chunk.\<close>

definition small_image_rule :: "u32 \<Rightarrow> u32 \<Rightarrow> color_profile \<Rightarrow> color_profile" where
  "small_image_rule w h prof =
     (if prof_key prof \<and> numpixels w h \<le> 16 then bits_at_least_8 (prof\<lparr>prof_alpha := True\<rparr>)
      else prof)"

definition palette_ok_of :: "u32 \<Rightarrow> u32 \<Rightarrow> color_profile \<Rightarrow> bool" where
  "palette_ok_of w h prof =
     (let grey_ok = (\<not> prof_colored prof \<and> \<not> prof_alpha prof);
          n = prof_numcolors prof;
          ok0 = (n \<le> 256 \<and> n * 2 < numpixels w h \<and> prof_bits prof \<le> 8);
          ok1 = (if numpixels w h < n * 2 then False else ok0)
      in if grey_ok \<and> prof_bits prof \<le> palettebits_of n then False else ok1)"

definition choose_colortype :: "color_profile \<Rightarrow> colortype" where
  "choose_colortype prof =
     (if prof_alpha prof then (if prof_colored prof then LCT_RGBA else LCT_GREY_ALPHA)
      else (if prof_colored prof then LCT_RGB else LCT_GREY))"

text \<open>Lines 671-714: the choice made from the (small-image adjusted) profile.\<close>

definition choose_from_profile :: "color_mode \<Rightarrow> u32 \<Rightarrow> u32 \<Rightarrow> color_mode \<Rightarrow> color_profile \<Rightarrow> color_mode" where
  "choose_from_profile mode_out w h mode_in prof =
     (let mo = mode_out\<lparr>key_defined := False\<rparr>
      in if palette_ok_of w h prof then
           (let mo1 = palette_add_all (lodepng_palette_clear mo)
                        (take (prof_numcolors prof) (prof_palette prof));
                mo2 = mo1\<lparr>colortype := LCT_PALETTE, bitdepth := palettebits_of (prof_numcolors prof)\<rparr>
            in if colortype mode_in = LCT_PALETTE \<and> palettesize mode_in \<ge> palettesize mo2
                  \<and> bitdepth mode_in = bitdepth mo2
               then lodepng_color_mode_copy mo2 mode_in else mo2)
         else
           (let mo1 = mo\<lparr>bitdepth := prof_bits prof, colortype := choose_colortype prof\<rparr>
            in if prof_key prof \<and> \<not> prof_alpha prof
               then (let mask = (2 ^ bitdepth mo1 - 1 :: u32)
                     in mo1\<lparr>key_r := unat (ucast (prof_key_r prof) AND mask),
                            key_g := unat (ucast (prof_key_g prof) AND mask),
                            key_b := unat (ucast (prof_key_b prof) AND mask), key_defined := True\<rparr>)
               else mo1))"

definition lodepng_auto_choose_color ::
  "color_mode \<Rightarrow> byte list \<Rightarrow> u32 \<Rightarrow> u32 \<Rightarrow> color_mode \<Rightarrow> color_mode" where
  "lodepng_auto_choose_color mode_out img w h mode_in =
     choose_from_profile mode_out w h mode_in
       (small_image_rule w h (lodepng_get_color_profile lodepng_color_profile_init img w h mode_in))"

end
