(* ===== verification/Convert.thy ===== *)
theory Convert
  imports PixelRead ColorTree
begin

text \<open>
  The colour converter \<open>lodepng_convert(out, in, mode_out, mode_in, w, h)\<close> of
  \<^verbatim>\<open>src/pngtest.c\<close> (lines 1039-1109) with its helpers \<open>rgba16ToPixel\<close> (776-814),
  \<open>rgba8ToPixel\<close> (966-1037). The output
  buffer \<open>out\<close> is allocated by the caller; the model takes it as a byte list and
  returns it updated together with the error code, since on error 82 (a colour
  missing from the output palette) the C function returns with the buffer
  partly written and its caller \<open>auto_convert_data\<close> ignores the code. A write
  beyond the end of the list leaves the list unchanged (in C it would overflow
  the buffer); the lemmas assume a buffer of \<open>lodepng_get_raw_size\<close> bytes.
\<close>

text \<open>\<open>(x >> 8) & 255\<close> and \<open>x & 255\<close>: the high and low byte of a 16-bit sample.\<close>

definition hi_byte :: "u16 \<Rightarrow> byte" where
  "hi_byte x = ucast (drop_bit 8 x AND 255)"

definition lo_byte :: "u16 \<Rightarrow> byte" where
  "lo_byte x = ucast (x AND 255)"

definition rgba16ToPixel :: "byte list \<Rightarrow> nat \<Rightarrow> color_mode \<Rightarrow> rgba16 \<Rightarrow> byte list" where
  "rgba16ToPixel out i mode px =
     (case px of (r, g, b, a) \<Rightarrow>
      case colortype mode of
        LCT_GREY \<Rightarrow> out[i * 2 := hi_byte r, i * 2 + 1 := lo_byte r]
      | LCT_RGB \<Rightarrow>
          out[i * 6 := hi_byte r, i * 6 + 1 := lo_byte r, i * 6 + 2 := hi_byte g,
              i * 6 + 3 := lo_byte g, i * 6 + 4 := hi_byte b, i * 6 + 5 := lo_byte b]
      | LCT_GREY_ALPHA \<Rightarrow>
          out[i * 4 := hi_byte r, i * 4 + 1 := lo_byte r, i * 4 + 2 := hi_byte a, i * 4 + 3 := lo_byte a]
      | LCT_RGBA \<Rightarrow>
          out[i * 8 := hi_byte r, i * 8 + 1 := lo_byte r, i * 8 + 2 := hi_byte g,
              i * 8 + 3 := lo_byte g, i * 8 + 4 := hi_byte b, i * 8 + 5 := lo_byte b,
              i * 8 + 6 := hi_byte a, i * 8 + 7 := lo_byte a]
      | LCT_PALETTE \<Rightarrow> out)"

text \<open>
  \<open>rgba8ToPixel\<close>: error 82 when the colour is not in the palette tree, 0
  otherwise. Grey keeps the red sample; below 8 bits its most significant
  \<open>bitdepth\<close> bits are packed with \<open>addColorBits\<close>. Grey with alpha at a depth
  other than 8 and 16 writes nothing.
\<close>

definition rgba8ToPixel :: "byte list \<Rightarrow> nat \<Rightarrow> color_mode \<Rightarrow> ColorTree \<Rightarrow> rgba8 \<Rightarrow> nat \<times> byte list" where
  "rgba8ToPixel out i mode tree px =
     (case px of (r, g, b, a) \<Rightarrow>
      case colortype mode of
        LCT_GREY \<Rightarrow>
          (0, if bitdepth mode = 8 then out[i := r]
              else if bitdepth mode = 16 then out[i * 2 := r, i * 2 + 1 := r]
              else addColorBits out i (bitdepth mode)
                     (unat (drop_bit (8 - bitdepth mode) r AND (2 ^ bitdepth mode - 1))))
      | LCT_RGB \<Rightarrow>
          (0, if bitdepth mode = 8 then out[i * 3 := r, i * 3 + 1 := g, i * 3 + 2 := b]
              else out[i * 6 := r, i * 6 + 1 := r, i * 6 + 2 := g, i * 6 + 3 := g,
                       i * 6 + 4 := b, i * 6 + 5 := b])
      | LCT_PALETTE \<Rightarrow>
          (let index = color_tree_get tree r g b a
           in if index < 0 then (82, out)
              else (0, if bitdepth mode = 8 then out[i := of_int index]
                       else addColorBits out i (bitdepth mode) (nat index)))
      | LCT_GREY_ALPHA \<Rightarrow>
          (0, if bitdepth mode = 8 then out[i * 2 := r, i * 2 + 1 := a]
              else if bitdepth mode = 16 then out[i * 4 := r, i * 4 + 1 := r, i * 4 + 2 := a, i * 4 + 3 := a]
              else out)
      | LCT_RGBA \<Rightarrow>
          (0, if bitdepth mode = 8 then out[i * 4 := r, i * 4 + 1 := g, i * 4 + 2 := b, i * 4 + 3 := a]
              else out[i * 8 := r, i * 8 + 1 := r, i * 8 + 2 := g, i * 8 + 3 := g,
                       i * 8 + 4 := b, i * 8 + 5 := b, i * 8 + 6 := a, i * 8 + 7 := a]))"

text \<open>
  Lines 1054-1074: the palette tree of the output mode. With an empty output
  palette the input palette is used; at most \<open>1 << bitdepth\<close> entries are
  added, entry \<open>i\<close> with index \<open>i\<close> (a later duplicate overrides an earlier one).
\<close>

definition convert_palette_tree :: "color_mode \<Rightarrow> color_mode \<Rightarrow> ColorTree" where
  "convert_palette_tree mode_out mode_in =
     (let pal = (if palettesize mode_out = 0 then palette mode_in else palette mode_out);
          palsize = (if length pal < 2 ^ bitdepth mode_out then length pal else 2 ^ bitdepth mode_out)
      in fold (\<lambda>i t. case pal ! i of (r, g, b, a) \<Rightarrow> color_tree_add t r g b a i) [0..<palsize]
           color_tree_init)"

text \<open>Lines 1076-1084: 16-bit to 16-bit; the sample variables restart at 0 for each pixel.\<close>

definition convert16_loop :: "byte list \<Rightarrow> byte list \<Rightarrow> color_mode \<Rightarrow> color_mode \<Rightarrow> nat list \<Rightarrow> byte list" where
  "convert16_loop out inp mode_out mode_in is =
     fold (\<lambda>i ob. rgba16ToPixel ob i mode_out (getPixelColorRGBA16 (0, 0, 0, 0) inp i mode_in)) is out"

text \<open>
  Lines 1093-1101: the general path. \<open>r, g, b, a\<close> are set to 0 once before the
  loop and carry over between pixels; \<open>CERROR_TRY_RETURN\<close> leaves at the first
  error.
\<close>

definition convert8_step ::
  "byte list \<Rightarrow> byte list \<Rightarrow> color_mode \<Rightarrow> color_mode \<Rightarrow> ColorTree \<Rightarrow> nat \<Rightarrow> rgba8 \<Rightarrow> (nat \<times> byte list) \<times> rgba8" where
  "convert8_step out inp mode_out mode_in tree i px =
     (case getPixelColorRGBA8 px inp i mode_in of
        (r, g, b, a) \<Rightarrow> (rgba8ToPixel out i mode_out tree (r, g, b, a), (r, g, b, a)))"

definition unless_error :: "(byte list \<Rightarrow> rgba8 \<Rightarrow> nat \<times> byte list) \<Rightarrow> (nat \<times> byte list) \<times> rgba8 \<Rightarrow> nat \<times> byte list" where
  "unless_error k r = (case r of ((e, out'), px') \<Rightarrow> if e \<noteq> 0 then (e, out') else k out' px')"

fun convert8_loop ::
  "byte list \<Rightarrow> byte list \<Rightarrow> color_mode \<Rightarrow> color_mode \<Rightarrow> ColorTree \<Rightarrow> nat list \<Rightarrow> rgba8 \<Rightarrow> nat \<times> byte list" where
  "convert8_loop out inp mode_out mode_in tree [] px = (0, out)"
| "convert8_loop out inp mode_out mode_in tree (i # is) px =
     unless_error (\<lambda>out' px'. convert8_loop out' inp mode_out mode_in tree is px')
       (convert8_step out inp mode_out mode_in tree i px)"

definition lodepng_convert ::
  "byte list \<Rightarrow> byte list \<Rightarrow> color_mode \<Rightarrow> color_mode \<Rightarrow> u32 \<Rightarrow> u32 \<Rightarrow> nat \<times> byte list" where
  "lodepng_convert out inp mode_out mode_in w h =
     (let n = numpixels w h
      in if lodepng_color_mode_equal mode_out mode_in then
           (0, fold (\<lambda>k ob. ob[k := inp ! k]) [0..<lodepng_get_raw_size w h mode_in] out)
         else
           (let tree = (if colortype mode_out = LCT_PALETTE then convert_palette_tree mode_out mode_in
                        else color_tree_init)
            in if bitdepth mode_in = 16 \<and> bitdepth mode_out = 16 then
                 (0, convert16_loop out inp mode_out mode_in [0..<n])
               else if bitdepth mode_out = 8 \<and> colortype mode_out = LCT_RGBA then
                 (0, getPixelColorsRGBA8 out n True inp mode_in)
               else if bitdepth mode_out = 8 \<and> colortype mode_out = LCT_RGB then
                 (0, getPixelColorsRGBA8 out n False inp mode_in)
               else convert8_loop out inp mode_out mode_in tree [0..<n] (0, 0, 0, 0)))"

end
