(* ===== verification/ConvertProps.thy ===== *)
theory ConvertProps
  imports Convert ProfileProps
begin

text \<open>
  Properties of the converter \<open>lodepng_convert\<close>: the copy when the modes are
  equal, and the error path of the conversion to a palette, which depends on the
  colour tree built from the palette (\<open>convert_palette_tree\<close>) answering exactly
  the colours of the loaded entries.
\<close>

text \<open>The palette entries that \<open>lodepng_convert\<close> loads into its tree (lines 1056-1067).\<close>

definition palette_lookup_size :: "color_mode \<Rightarrow> color_mode \<Rightarrow> rgba8 list" where
  "palette_lookup_size mo mi = (let pal = (if palettesize mo = 0 then palette mi else palette mo)
     in take (2 ^ bitdepth mo) pal)"


text \<open>
  C11. Round-trip identity of the specification: converting a buffer of
  \<open>lodepng_get_raw_size\<close> bytes to its own mode copies it and reports no error.
\<close>

theorem lodepng_convert_same_mode:
  assumes "length out = lodepng_get_raw_size w h mode" and "length out \<le> length inp"
  shows "lodepng_convert out inp mode mode w h = (0, take (length out) inp)"
  using assms fold_copy_prefix [of "length out" out inp]
  by (simp add: lodepng_convert_def lodepng_color_mode_equal_refl)

lemma fold_palette_tree:
  "k \<le> length pal \<Longrightarrow>
   ct_wf (fold (\<lambda>i t. case pal ! i of (r, g, b, a) \<Rightarrow> color_tree_add t r g b a i) [0..<k] color_tree_init) \<and>
   (\<forall>r g b a. color_tree_get (fold (\<lambda>i t. case pal ! i of (r, g, b, a) \<Rightarrow> color_tree_add t r g b a i) [0..<k] color_tree_init) r g b a \<ge> 0
      \<longleftrightarrow> (r, g, b, a) \<in> set (take k pal))"
proof (induction k)
  case 0
  then show ?case by simp
next
  case (Suc k)
  obtain r0 g0 b0 a0 where e: "pal ! k = (r0, g0, b0, a0)" by (cases "pal ! k") auto
  have k: "k < length pal" using Suc.prems by simp
  from Suc show ?case
    by (auto simp: e color_tree_add_wf color_tree_get_add_eq take_Suc_conv_app_nth [OF k])
qed

lemma convert_palette_tree_lookup:
  "ct_wf (convert_palette_tree mo mi) \<and>
   (color_tree_get (convert_palette_tree mo mi) r g b a \<ge> 0 \<longleftrightarrow> (r, g, b, a) \<in> set (palette_lookup_size mo mi))"
proof -
  define pal where "pal = (if palettesize mo = 0 then palette mi else palette mo)"
  define k where "k = (if length pal < 2 ^ bitdepth mo then length pal else 2 ^ bitdepth mo)"
  have t: "convert_palette_tree mo mi =
      fold (\<lambda>i t. case pal ! i of (r, g, b, a) \<Rightarrow> color_tree_add t r g b a i) [0..<k] color_tree_init"
    unfolding convert_palette_tree_def Let_def pal_def [symmetric] k_def [symmetric] ..
  have l: "palette_lookup_size mo mi = take k pal"
    unfolding palette_lookup_size_def Let_def pal_def [symmetric] k_def by (simp add: min_def)
  have "k \<le> length pal" by (simp add: k_def)
  from fold_palette_tree [OF this] show ?thesis unfolding t l by blast
qed

lemma convert_palette_tree_missing:
  "(case px of (r, g, b, a) \<Rightarrow> color_tree_get (convert_palette_tree mo mi) r g b a < 0) =
   (px \<notin> set (palette_lookup_size mo mi))"
  using convert_palette_tree_lookup [of mo mi] by (cases px) (simp add: not_le [symmetric])

lemma convert8_loop_palette_error:
  assumes ind: "decode_independent mi" and pal: "colortype mo = LCT_PALETTE"
  shows "fst (convert8_loop out inp mo mi tree is px) =
    (if \<exists>i \<in> set is. (case pixel8 mi inp i of (r, g, b, a) \<Rightarrow> color_tree_get tree r g b a < 0)
     then 82 else 0)"
proof (induction "is" arbitrary: out px)
  case Nil
  then show ?case by simp
next
  case (Cons i "is")
  obtain r g b a where px: "pixel8 mi inp i = (r, g, b, a)" by (cases "pixel8 mi inp i") auto
  show ?case
    using Cons.IH px pal
    by (auto simp: convert8_step_def unless_error_def getPixelColorRGBA8_independent [OF ind]
        rgba8ToPixel_def Let_def)
qed

text \<open>
  C12. Error behaviour of the conversion to a palette (depth below 16, the
  modes differing): the converter reports error 82 exactly when some pixel of
  the image is not among the palette entries the converter loads into its
  colour tree (the first \<open>2^bitdepth\<close> entries of the output palette, or of the
  input palette when the output palette is empty), and 0 otherwise.
\<close>

theorem lodepng_convert_palette_error:
  assumes ind: "decode_independent mode_in" and pal: "colortype mode_out = LCT_PALETTE"
    and ne: "\<not> lodepng_color_mode_equal mode_out mode_in" and bd: "bitdepth mode_out \<noteq> 16"
  shows "fst (lodepng_convert out inp mode_out mode_in w h) =
    (if \<exists>i < numpixels w h. pixel8 mode_in inp i \<notin> set (palette_lookup_size mode_out mode_in) then 82 else 0)"
proof -
  have "fst (lodepng_convert out inp mode_out mode_in w h) =
        fst (convert8_loop out inp mode_out mode_in (convert_palette_tree mode_out mode_in) [0..<numpixels w h] (0, 0, 0, 0))"
    using pal ne bd by (simp add: lodepng_convert_def Let_def)
  also have "\<dots> = (if \<exists>i < numpixels w h. pixel8 mode_in inp i \<notin> set (palette_lookup_size mode_out mode_in) then 82 else 0)"
    unfolding convert8_loop_palette_error [OF ind pal] convert_palette_tree_missing by simp
  finally show ?thesis .
qed

theorem lodepng_convert_same_mode_witness:
  "length [0 :: byte] = lodepng_get_raw_size 2 2 (lodepng_color_mode_init\<lparr>colortype := LCT_GREY, bitdepth := 1\<rparr>) \<and>
   length [0 :: byte] \<le> length [16 :: byte] \<and>
   lodepng_convert [0] [16] (lodepng_color_mode_init\<lparr>colortype := LCT_GREY, bitdepth := 1\<rparr>)
     (lodepng_color_mode_init\<lparr>colortype := LCT_GREY, bitdepth := 1\<rparr>) 2 2 = (0, [16])"
proof -
  have "length [0 :: byte] = lodepng_get_raw_size 2 2 (lodepng_color_mode_init\<lparr>colortype := LCT_GREY, bitdepth := 1\<rparr>)"
    by code_simp
  then show ?thesis using lodepng_convert_same_mode [of "[0]" 2 2 _ "[16]"] by simp
qed

theorem lodepng_convert_palette_error_witness:
  "decode_independent lodepng_color_mode_init \<and>
   colortype (lodepng_color_mode_init\<lparr>colortype := LCT_PALETTE, bitdepth := 1, palette := [(10, 20, 30, 255), (1, 2, 3, 255)]\<rparr>) = LCT_PALETTE \<and>
   \<not> lodepng_color_mode_equal
       (lodepng_color_mode_init\<lparr>colortype := LCT_PALETTE, bitdepth := 1, palette := [(10, 20, 30, 255), (1, 2, 3, 255)]\<rparr>)
       lodepng_color_mode_init \<and>
   fst (lodepng_convert [0] [10, 20, 30, 255, 1, 2, 3, 254]
     (lodepng_color_mode_init\<lparr>colortype := LCT_PALETTE, bitdepth := 1, palette := [(10, 20, 30, 255), (1, 2, 3, 255)]\<rparr>)
     lodepng_color_mode_init 2 1) = 82"
proof -
  have h: "decode_independent lodepng_color_mode_init"
    "colortype (lodepng_color_mode_init\<lparr>colortype := LCT_PALETTE, bitdepth := 1, palette := [(10, 20, 30, 255), (1, 2, 3, 255)]\<rparr>) = LCT_PALETTE"
    "\<not> lodepng_color_mode_equal
       (lodepng_color_mode_init\<lparr>colortype := LCT_PALETTE, bitdepth := 1, palette := [(10, 20, 30, 255), (1, 2, 3, 255)]\<rparr>)
       lodepng_color_mode_init"
    "bitdepth (lodepng_color_mode_init\<lparr>colortype := LCT_PALETTE, bitdepth := 1, palette := [(10, 20, 30, 255), (1, 2, 3, 255)]\<rparr>) \<noteq> 16"
    by (simp_all add: decode_independent_def lodepng_color_mode_init_def lodepng_color_mode_equal_def)
  have m: "\<exists>i < numpixels 2 1. pixel8 lodepng_color_mode_init [10, 20, 30, 255, 1, 2, 3, 254] i
      \<notin> set (palette_lookup_size
            (lodepng_color_mode_init\<lparr>colortype := LCT_PALETTE, bitdepth := 1, palette := [(10, 20, 30, 255), (1, 2, 3, 255)]\<rparr>)
            lodepng_color_mode_init)"
    unfolding ex_less_list_ex by code_simp
  show ?thesis using lodepng_convert_palette_error [OF h, of "[0]" "[10, 20, 30, 255, 1, 2, 3, 254]" 2 1] m h by simp
qed

end
