(* ===== verification/ScanlineFilter.thy ===== *)
theory ScanlineFilter
  imports ColorMode BitStream
begin

text \<open>
  The scanline filter stage of \<^verbatim>\<open>src/pngtest.c\<close>: \<open>paethPredictor\<close> (lines
  1146-1155), \<open>filterScanline\<close> (1157-1211), \<open>filter\<close> (1213-1263) and
  \<open>preProcessScanlines\<close> (1268-1295). The C functions write through pointers into
  the middle of buffers (\<open>&out[outindex]\<close>); the model passes the slice from that
  offset and writes the result back with \<open>at_offset\<close>. A missing previous line
  (the null pointer \<open>prevline\<close>) is \<open>None\<close>. The buffers returned by
  \<open>lodepng_malloc\<close> are modelled as zero-filled lists of the allocated size
  (every byte the lemmas read is written first); allocation failure (error 83)
  is not modelled. The products \<open>w * bpp\<close> and \<open>h * linebytes\<close> are 32-bit
  unsigned arithmetic, as in C.
\<close>

text \<open>
  \<open>paethPredictor(short a, short b, short c)\<close>: the arguments come from
  unsigned chars, so the differences are computed in \<open>int\<close>; the result is
  cast back to \<open>unsigned char\<close>.
\<close>

definition paethPredictor :: "int \<Rightarrow> int \<Rightarrow> int \<Rightarrow> byte" where
  "paethPredictor a b c =
     (let pa = \<bar>b - c\<bar>; pb = \<bar>a - c\<bar>; pc = \<bar>a + b - c - c\<bar>
      in if pc < pa \<and> pc < pb then word_of_int c
         else if pb < pa then word_of_int b else word_of_int a)"

text \<open>A loop \<open>for(i ...) out[i] = f(i)\<close> over the indices \<open>is\<close>.\<close>

definition store_each :: "(nat \<Rightarrow> byte) \<Rightarrow> nat list \<Rightarrow> byte list \<Rightarrow> byte list" where
  "store_each f is out = fold (\<lambda>i ob. ob[i := f i]) is out"

text \<open>
  \<open>filterScanline(out, scanline, prevline, length, bytewidth, filterType)\<close>:
  the five PNG filters; the first loop of Sub, Average and Paeth runs over
  \<open>[0, bytewidth)\<close> and the second over \<open>[bytewidth, length)\<close>. An unknown filter
  type returns without writing.
\<close>

definition filterScanline ::
  "byte list \<Rightarrow> byte list \<Rightarrow> byte list option \<Rightarrow> nat \<Rightarrow> nat \<Rightarrow> nat \<Rightarrow> byte list" where
  "filterScanline out sc prevline len bw filterType =
     (if filterType = 0 then store_each (\<lambda>i. sc ! i) [0..<len] out
      else if filterType = 1 then
        store_each (\<lambda>i. sc ! i - sc ! (i - bw)) [bw..<len] (store_each (\<lambda>i. sc ! i) [0..<bw] out)
      else if filterType = 2 then
        (case prevline of
           Some pl \<Rightarrow> store_each (\<lambda>i. sc ! i - pl ! i) [0..<len] out
         | None \<Rightarrow> store_each (\<lambda>i. sc ! i) [0..<len] out)
      else if filterType = 3 then
        (case prevline of
           Some pl \<Rightarrow>
             store_each (\<lambda>i. sc ! i - word_of_nat ((unat (sc ! (i - bw)) + unat (pl ! i)) div 2)) [bw..<len]
               (store_each (\<lambda>i. sc ! i - drop_bit 1 (pl ! i)) [0..<bw] out)
         | None \<Rightarrow>
             store_each (\<lambda>i. sc ! i - drop_bit 1 (sc ! (i - bw))) [bw..<len]
               (store_each (\<lambda>i. sc ! i) [0..<bw] out))
      else if filterType = 4 then
        (case prevline of
           Some pl \<Rightarrow>
             store_each (\<lambda>i. sc ! i - paethPredictor (uint (sc ! (i - bw))) (uint (pl ! i)) (uint (pl ! (i - bw))))
               [bw..<len] (store_each (\<lambda>i. sc ! i - pl ! i) [0..<bw] out)
         | None \<Rightarrow>
             store_each (\<lambda>i. sc ! i - sc ! (i - bw)) [bw..<len] (store_each (\<lambda>i. sc ! i) [0..<bw] out))
      else out)"

text \<open>\<open>f(&buf[k])\<close>: apply a function to the part of a buffer from offset \<open>k\<close>.\<close>

definition at_offset :: "nat \<Rightarrow> (byte list \<Rightarrow> byte list) \<Rightarrow> byte list \<Rightarrow> byte list" where
  "at_offset k f xs = take k xs @ f (drop k xs)"

text \<open>\<open>(w * bpp + 7) / 8\<close> in 32-bit unsigned arithmetic: the bytes of one scanline.\<close>

definition line_bytes :: "u32 \<Rightarrow> nat \<Rightarrow> nat" where
  "line_bytes w bpp = unat ((w * word_of_nat bpp + 7) div 8)"

text \<open>
  The row loop of \<open>filter\<close> for palette images and depths below 8: every row is
  filtered with type 0 at \<open>outindex = linebytes * y\<close> (the filter-type byte
  written at \<open>out[outindex]\<close> is overwritten by the first byte of the row, since
  the line \<open>outindex = (1 + linebytes) * y\<close> is commented out).
\<close>

fun filter_rows ::
  "nat \<Rightarrow> nat \<Rightarrow> byte list \<Rightarrow> byte list option \<Rightarrow> nat list \<Rightarrow> byte list \<Rightarrow> byte list" where
  "filter_rows linebytes bytewidth inp prevline [] out = out"
| "filter_rows linebytes bytewidth inp prevline (y # ys) out =
     (let outindex = linebytes * y; inindex = linebytes * y;
          out1 = out[outindex := 0];
          out2 = at_offset outindex
                   (\<lambda>ob. filterScanline ob (drop inindex inp) prevline linebytes bytewidth 0) out1
      in filter_rows linebytes bytewidth inp (Some (drop inindex inp)) ys out2)"

text \<open>\<open>filter(out, in, w, h, info)\<close>: error 31 for a zero bit depth, 88 for a mode that is neither palette nor below 8 bits.\<close>

definition filter_c :: "byte list \<Rightarrow> byte list \<Rightarrow> u32 \<Rightarrow> u32 \<Rightarrow> color_mode \<Rightarrow> nat \<times> byte list" where
  "filter_c out inp w h info =
     (let bpp = lodepng_get_bpp info;
          linebytes = line_bytes w bpp;
          bytewidth = (bpp + 7) div 8
      in if bpp = 0 then (31, out)
         else if colortype info = LCT_PALETTE \<or> bitdepth info < 8 then
           (0, filter_rows linebytes bytewidth inp None [0..<unat h] out)
         else (88, out))"

text \<open>
  \<open>preProcessScanlines(&out, &outsize, in, w, h, color)\<close>: allocate
  \<open>h * linebytes\<close> bytes, pad every scanline to a whole number of bytes with
  \<open>addPaddingBits\<close>, then filter. Returns the error, the size and the buffer.
\<close>

definition preProcessScanlines :: "byte list \<Rightarrow> u32 \<Rightarrow> u32 \<Rightarrow> color_mode \<Rightarrow> nat \<times> nat \<times> byte list" where
  "preProcessScanlines inp w h color =
     (let bpp = lodepng_get_bpp color;
          outsize = unat (h * ((w * word_of_nat bpp + 7) div 8));
          out = replicate outsize 0;
          padded = addPaddingBits (replicate outsize 0) inp (line_bytes w bpp * 8) (unat (w * word_of_nat bpp)) (unat h)
      in case filter_c out padded w h color of (error, out') \<Rightarrow> (error, outsize, out'))"

end
