(* ===== verification/Driver.thy ===== *)
theory Driver
  imports AutoChoose Convert ScanlineFilter
begin

text \<open>
  The driver of \<^verbatim>\<open>src/pngtest.c\<close> that reduces PNG files in place: the row
  buffer helpers (\<open>bytep_to_bytepp\<close>, \<open>bytepp_to_bytep\<close>, \<open>malloc_png_bytep\<close>,
  \<open>malloc_png_bytepp\<close>, lines 1298-1376), \<open>auto_convert_data\<close> (1392-1416),
  \<open>color_mode_init\<close> (1418-1439), the header and palette handed to libpng
  (\<open>SetIHDR\<close>, \<open>SetPLTE\<close>, \<open>SetIDAT\<close>, 1441-1467), the statistics
  (\<open>file_type_info\<close>, \<open>update_info\<close>, the totals of \<open>display_info\<close>, 1476-1669),
  \<open>decode_png\<close> (1670-1756), \<open>encode_png\<close> (1758-1830), \<open>convert_png\<close>
  (1832-1855) and the directory walk \<open>convert_folder\<close> (1857-1900).

  libpng, the file system and \<open>printf\<close> are outside the model. What
  \<open>decode_png\<close> gets from libpng (whether the file opens, whether the signature
  matches, the size, colour type, bit depth and rows after
  \<open>PNG_TRANSFORM_EXPAND\<close>, and the file size) is the record \<open>png_file\<close>; what
  \<open>encode_png\<close> hands to libpng (header, palette, rows) is the record
  \<open>png_written\<close>, and the size of the written file is an input. Memory from
  \<open>malloc\<close> is modelled as zero-filled buffers of the requested size, row buffers
  as a list of rows. The \<open>int\<close> loop bounds \<open>width\<close> and \<open>height\<close> give no
  iteration when negative.
\<close>

subsection \<open>Row buffers\<close>

text \<open>
  One pixel of \<open>bytep_to_bytepp\<close>: bit depths 32, 24 and 8 copy 4, 3 or 1
  bytes; below 8 bits one byte is copied for every \<open>8 / bpp\<close> pixels. Other
  depths (16, 48, 64) copy nothing.
\<close>

definition b2bpp_pixel :: "nat \<Rightarrow> byte list \<Rightarrow> nat \<Rightarrow> nat \<Rightarrow> nat \<times> byte list list \<Rightarrow> nat \<times> byte list list" where
  "b2bpp_pixel bpp inp i j st =
     (case st of (pos, rows) \<Rightarrow>
       if bpp = 32 then
         (pos + 4, rows[i := (rows ! i)[4 * j := inp ! pos, 4 * j + 1 := inp ! (pos + 1),
                                         4 * j + 2 := inp ! (pos + 2), 4 * j + 3 := inp ! (pos + 3)]])
       else if bpp = 24 then
         (pos + 3, rows[i := (rows ! i)[3 * j := inp ! pos, 3 * j + 1 := inp ! (pos + 1),
                                         3 * j + 2 := inp ! (pos + 2)]])
       else if bpp = 8 then (pos + 1, rows[i := (rows ! i)[j := inp ! pos]])
       else if bpp < 8 then
         (let span = 8 div bpp
          in if j mod span = 0 then (pos + 1, rows[i := (rows ! i)[j div span := inp ! pos]])
             else (pos, rows))
       else (pos, rows))"

definition bytep_to_bytepp :: "color_mode \<Rightarrow> int \<Rightarrow> int \<Rightarrow> byte list \<Rightarrow> byte list list \<Rightarrow> byte list list" where
  "bytep_to_bytepp color width height inp rows =
     snd (fold (\<lambda>i st. fold (\<lambda>j. b2bpp_pixel (lodepng_get_bpp color) inp i j) [0..<nat width] st)
            [0..<nat height] (0, rows))"

text \<open>\<open>bytepp_to_bytep\<close>: \<open>width * channel\<close> bytes of every row, 4 channels for RGBA and 3 otherwise.\<close>

definition bytepp_to_bytep :: "color_mode \<Rightarrow> int \<Rightarrow> int \<Rightarrow> byte list \<Rightarrow> byte list list \<Rightarrow> byte list" where
  "bytepp_to_bytep color width height out rows =
     (let channel = (if colortype color = LCT_RGBA then 4 else 3 :: int);
          size = width * channel
      in snd (fold (\<lambda>i st. fold (\<lambda>j st'. case st' of (pos, ob) \<Rightarrow> (pos + 1, ob[pos := rows ! i ! j]))
                               [0..<nat size] st)
                [0..<nat height] (0, out)))"

definition malloc_png_bytep :: "color_mode \<Rightarrow> int \<Rightarrow> int \<Rightarrow> byte list" where
  "malloc_png_bytep mode width height =
     (let channel = (if colortype mode = LCT_RGBA then 4 else 3 :: int)
      in replicate (nat (width * height * channel)) 0)"

definition malloc_png_bytepp :: "color_mode \<Rightarrow> int \<Rightarrow> int \<Rightarrow> byte list list" where
  "malloc_png_bytepp mode width height =
     replicate (nat height) (replicate (nat ((width * int (lodepng_get_bpp mode) + 7) div 8)) 0)"

text \<open>
  \<open>auto_convert_data\<close>: convert to the chosen mode into a buffer of
  \<open>(width * height * bpp + 7) / 8\<close> bytes (unsigned 32-bit arithmetic, the
  return code of \<open>lodepng_convert\<close> being ignored); below 8 bits, when a row does
  not end on a byte boundary, pad the rows with \<open>preProcessScanlines\<close>; then split
  into rows.
\<close>

definition auto_convert_data ::
  "color_mode \<Rightarrow> color_mode \<Rightarrow> int \<Rightarrow> int \<Rightarrow> byte list \<Rightarrow> byte list list \<Rightarrow> byte list list" where
  "auto_convert_data mode_in mode_out width height inp rows_out =
     (let bpp = int (lodepng_get_bpp mode_out);
          size = unat ((word_of_int width * word_of_int height * word_of_int bpp + 7) div (8 :: u32));
          linebits = ((width * bpp + 7) div 8) * 8;
          converted = snd (lodepng_convert (replicate size 0) inp mode_out mode_in
                             (word_of_int width) (word_of_int height))
      in if bpp < 8 \<and> width * bpp \<noteq> linebits then
           bytep_to_bytepp mode_out width height
             (snd (snd (preProcessScanlines converted (word_of_int width) (word_of_int height) mode_out))) rows_out
         else bytep_to_bytepp mode_out width height converted rows_out)"

text \<open>\<open>color_mode_init(mode, color_type, bit_depth)\<close>: the libpng colour type codes; another code leaves the colour type.\<close>

definition color_mode_init :: "color_mode \<Rightarrow> nat \<Rightarrow> nat \<Rightarrow> color_mode" where
  "color_mode_init mode color_type bit_depth =
     (let m = mode\<lparr>bitdepth := bit_depth\<rparr>
      in if color_type = 0 then m\<lparr>colortype := LCT_GREY\<rparr>
         else if color_type = 2 then m\<lparr>colortype := LCT_RGB\<rparr>
         else if color_type = 3 then m\<lparr>colortype := LCT_PALETTE\<rparr>
         else if color_type = 4 then m\<lparr>colortype := LCT_GREY_ALPHA\<rparr>
         else if color_type = 6 then m\<lparr>colortype := LCT_RGBA\<rparr>
         else m)"

subsection \<open>What is handed to libpng\<close>

text \<open>\<open>SetIHDR\<close>, \<open>SetPLTE\<close> and \<open>SetIDAT\<close>: the header fields, the palette as RGB triples (palette modes only) and the first \<open>hight\<close> rows.\<close>

record png_written =
  ihdr_width :: int
  ihdr_height :: int
  ihdr_bitdepth :: nat
  ihdr_colortype :: nat
  plte :: "(byte \<times> byte \<times> byte) list option"
  idat_rows :: "byte list list"

definition SetPLTE :: "color_mode \<Rightarrow> (byte \<times> byte \<times> byte) list option" where
  "SetPLTE mode =
     (if colortype mode = LCT_PALETTE
      then Some (map (\<lambda>(r, g, b, a). (r, g, b)) (palette mode)) else None)"

definition SetIDAT :: "byte list list \<Rightarrow> int \<Rightarrow> byte list list" where
  "SetIDAT row_pointers hight = take (nat hight) row_pointers"

subsection \<open>Per-file data and statistics\<close>

record auto_pic_data =
  pic_width :: int
  pic_height :: int
  pic_rows :: "byte list list option"
  pic_size :: int
  pic_src_size :: int

record file_type_info =
  fti_num :: int
  fti_size :: int
  fti_src_size :: int

definition file_type_info_init :: file_type_info where
  "file_type_info_init = \<lparr>fti_num = 0, fti_size = 0, fti_src_size = 0\<rparr>"

definition update_file_type_info :: "file_type_info \<Rightarrow> auto_pic_data \<Rightarrow> file_type_info" where
  "update_file_type_info information d =
     \<lparr>fti_num = fti_num information + 1, fti_size = fti_size information + pic_size d,
      fti_src_size = fti_src_size information + pic_src_size d\<rparr>"

record pngexportinfo =
  grey_bit1 :: file_type_info
  grey_bit2 :: file_type_info
  grey_bit4 :: file_type_info
  grey_bit8 :: file_type_info
  palette_bit1 :: file_type_info
  palette_bit2 :: file_type_info
  palette_bit4 :: file_type_info
  palette_bit8 :: file_type_info
  rgb :: file_type_info
  rgba :: file_type_info

definition init_info :: pngexportinfo where
  "init_info =
     \<lparr>grey_bit1 = file_type_info_init, grey_bit2 = file_type_info_init, grey_bit4 = file_type_info_init,
      grey_bit8 = file_type_info_init, palette_bit1 = file_type_info_init, palette_bit2 = file_type_info_init,
      palette_bit4 = file_type_info_init, palette_bit8 = file_type_info_init, rgb = file_type_info_init,
      rgba = file_type_info_init\<rparr>"

text \<open>
  \<open>update_info\<close>: the bucket of the chosen mode. The colour type is compared with
  libpng's codes (0 grey, 3 palette, 2 RGB, 6 RGBA); grey and palette of another
  depth only print an error, and grey with alpha (code 4) has no bucket.
\<close>

definition update_info :: "color_mode \<Rightarrow> auto_pic_data \<Rightarrow> pngexportinfo \<Rightarrow> pngexportinfo" where
  "update_info mode d info =
     (if lct_code (colortype mode) = 0 then
        (if bitdepth mode = 1 then info\<lparr>grey_bit1 := update_file_type_info (grey_bit1 info) d\<rparr>
         else if bitdepth mode = 2 then info\<lparr>grey_bit2 := update_file_type_info (grey_bit2 info) d\<rparr>
         else if bitdepth mode = 4 then info\<lparr>grey_bit4 := update_file_type_info (grey_bit4 info) d\<rparr>
         else if bitdepth mode = 8 then info\<lparr>grey_bit8 := update_file_type_info (grey_bit8 info) d\<rparr>
         else info)
      else if lct_code (colortype mode) = 3 then
        (if bitdepth mode = 1 then info\<lparr>palette_bit1 := update_file_type_info (palette_bit1 info) d\<rparr>
         else if bitdepth mode = 2 then info\<lparr>palette_bit2 := update_file_type_info (palette_bit2 info) d\<rparr>
         else if bitdepth mode = 4 then info\<lparr>palette_bit4 := update_file_type_info (palette_bit4 info) d\<rparr>
         else if bitdepth mode = 8 then info\<lparr>palette_bit8 := update_file_type_info (palette_bit8 info) d\<rparr>
         else info)
      else if lct_code (colortype mode) = 2 then info\<lparr>rgb := update_file_type_info (rgb info) d\<rparr>
      else if lct_code (colortype mode) = 6 then info\<lparr>rgba := update_file_type_info (rgba info) d\<rparr>
      else info)"

text \<open>Lines 1569-1583 of \<open>display_info\<close>: the totals over all buckets (the printing is not modelled).\<close>

definition info_total :: "(file_type_info \<Rightarrow> int) \<Rightarrow> pngexportinfo \<Rightarrow> int" where
  "info_total f info =
     (f (grey_bit1 info) + f (grey_bit2 info) + f (grey_bit4 info) + f (grey_bit8 info))
     + (f (palette_bit1 info) + f (palette_bit2 info) + f (palette_bit4 info) + f (palette_bit8 info))
     + f (rgb info) + f (rgba info)"

subsection \<open>Decoding, encoding and converting one file\<close>

record png_file =
  file_opens :: bool
  signature_ok :: bool
  file_width :: int
  file_height :: int
  file_color_type :: nat
  file_bit_depth :: nat
  file_rows :: "byte list list"
  file_size :: int

text \<open>
  \<open>decode_png(file_path, mode_in, mode_out, pic_data)\<close>: -1 when the file does
  not open or is not RGB or RGBA, 1 for a bad signature, -2 when the chosen mode
  equals the input mode, 0 after converting into new rows. Returns the code, the
  two modes and the picture data.
\<close>

definition decode_png ::
  "png_file \<Rightarrow> color_mode \<Rightarrow> color_mode \<Rightarrow> auto_pic_data \<Rightarrow> int \<times> color_mode \<times> color_mode \<times> auto_pic_data" where
  "decode_png f mode_in mode_out pic =
     (if \<not> file_opens f then (-1, mode_in, mode_out, pic)
      else if \<not> signature_ok f then (1, mode_in, mode_out, pic)
      else
        (let width = file_width f; height = file_height f;
             pic1 = pic\<lparr>pic_height := height, pic_width := width, pic_src_size := file_size f,
                        pic_size := file_size f, pic_rows := None\<rparr>;
             mi = color_mode_init mode_in (file_color_type f) (file_bit_depth f);
             mo = lodepng_color_mode_copy (lodepng_color_mode_cleanup mode_out) mi
         in if colortype mi \<noteq> LCT_RGB \<and> colortype mi \<noteq> LCT_RGBA then (-1, mi, mo, pic1)
            else
              (let inp = bytepp_to_bytep mi width height (malloc_png_bytep mi width height) (file_rows f);
                   mo' = lodepng_auto_choose_color mo inp (word_of_int width) (word_of_int height) mi
               in if lodepng_color_mode_equal mo' mi then (-2, mi, mo', pic1)
                  else (0, mi, mo', pic1\<lparr>pic_rows := Some (auto_convert_data mi mo' width height inp
                                                         (malloc_png_bytepp mo' width height))\<rparr>))))"

text \<open>
  \<open>encode_png(file_name, mode, pic_data)\<close>: -1 when the file cannot be opened
  for writing (the libpng failures are not modelled); otherwise the header,
  palette and rows are written and \<open>pic_data->size\<close> becomes the new file size.
\<close>

definition encode_png :: "bool \<Rightarrow> int \<Rightarrow> color_mode \<Rightarrow> auto_pic_data \<Rightarrow> int \<times> auto_pic_data \<times> png_written option" where
  "encode_png opens new_size mode pic =
     (if \<not> opens then (-1, pic, None)
      else (0, pic\<lparr>pic_size := new_size\<rparr>,
            Some \<lparr>ihdr_width = pic_width pic, ihdr_height = pic_height pic, ihdr_bitdepth = bitdepth mode,
                  ihdr_colortype = lct_code (colortype mode), plte = SetPLTE mode,
                  idat_rows = SetIDAT (case pic_rows pic of Some rs \<Rightarrow> rs | None \<Rightarrow> []) (pic_height pic)\<rparr>))"

text \<open>
  \<open>convert_png(file_path)\<close>: both modes start as \<open>lodepng_color_mode_init\<close>;
  the file is rewritten only when \<open>decode_png\<close> returns 0, and the statistics are
  updated with the output mode in every case. The picture data allocated by
  \<open>malloc\<close> starts at zero here. Returns the statistics and what was written.
\<close>

definition pic_data_zero :: auto_pic_data where
  "pic_data_zero = \<lparr>pic_width = 0, pic_height = 0, pic_rows = None, pic_size = 0, pic_src_size = 0\<rparr>"

definition convert_png :: "png_file \<Rightarrow> bool \<Rightarrow> int \<Rightarrow> pngexportinfo \<Rightarrow> pngexportinfo \<times> png_written option" where
  "convert_png f opens new_size info =
     (case decode_png f lodepng_color_mode_init lodepng_color_mode_init pic_data_zero of
        (code, mi, mo, pic) \<Rightarrow>
          (if code = 0 then
             (case encode_png opens new_size mo pic of (e, pic', w) \<Rightarrow> (update_info mo pic' info, w))
           else (update_info mo pic info, None)))"

subsection \<open>The directory walk\<close>

text \<open>
  \<open>convert_folder(dir)\<close>: a directory is a list of entries; subdirectories
  other than \<open>.\<close> and \<open>..\<close> are walked recursively and files whose extension is
  \<open>.png\<close> (compared ignoring case, \<open>strnicmp\<close>) are converted, in the order
  \<open>_findnext\<close> lists them. A file is given with what libpng would read from it,
  whether it can be rewritten and the size of the rewritten file.
\<close>

datatype fs_entry = FsFile string png_file bool int | FsDir string "fs_entry list"

definition lower_char :: "char \<Rightarrow> char" where
  "lower_char c = (let n = (of_char c :: nat) in if 65 \<le> n \<and> n \<le> 90 then char_of (n + 32) else c)"

text \<open>\<open>_splitpath\<close> extension: from the last dot of the name (none when there is no dot).\<close>

definition file_ext :: "string \<Rightarrow> string" where
  "file_ext name = (if CHR ''.'' \<in> set name then CHR ''.'' # rev (takeWhile (\<lambda>c. c \<noteq> CHR ''.'') (rev name)) else [])"

definition is_png_name :: "string \<Rightarrow> bool" where
  "is_png_name name = (map lower_char (file_ext name) = ''.png'')"

fun convert_folder :: "fs_entry list \<Rightarrow> pngexportinfo \<Rightarrow> pngexportinfo \<times> png_written list"
and convert_entry :: "fs_entry \<Rightarrow> pngexportinfo \<Rightarrow> pngexportinfo \<times> png_written list" where
  "convert_folder [] info = (info, [])"
| "convert_folder (e # es) info =
     (case convert_entry e info of
        (info', ws) \<Rightarrow> (case convert_folder es info' of (info'', ws') \<Rightarrow> (info'', ws @ ws')))"
| "convert_entry (FsDir name es) info =
     (if name = ''.'' \<or> name = ''..'' then (info, []) else convert_folder es info)"
| "convert_entry (FsFile name f opens new_size) info =
     (if is_png_name name then
        (case convert_png f opens new_size info of
           (info', w) \<Rightarrow> (info', case w of Some x \<Rightarrow> [x] | None \<Rightarrow> []))
      else (info, []))"

end
