(* ===== verification/DriverProps.thy ===== *)
theory DriverProps
  imports Driver
begin

text \<open>
  Properties of the driver: the statistics, the row buffers, the directory
  walk, and the whole per-file pipeline run on the scenario of the
  specification.
\<close>

text \<open>The output modes \<open>update_info\<close> has a bucket for.\<close>

definition counted_mode :: "color_mode \<Rightarrow> bool" where
  "counted_mode m =
     ((colortype m = LCT_GREY \<or> colortype m = LCT_PALETTE) \<and> bitdepth m \<in> {1, 2, 4, 8}
      \<or> colortype m = LCT_RGB \<or> colortype m = LCT_RGBA)"

text \<open>The \<open>.png\<close> files of a directory tree in the order of the walk, with what is known of each.\<close>

fun png_files :: "fs_entry list \<Rightarrow> (png_file \<times> bool \<times> int) list"
and png_files_entry :: "fs_entry \<Rightarrow> (png_file \<times> bool \<times> int) list" where
  "png_files [] = []"
| "png_files (e # es) = png_files_entry e @ png_files es"
| "png_files_entry (FsDir name es) = (if name = ''.'' \<or> name = ''..'' then [] else png_files es)"
| "png_files_entry (FsFile name f opens new_size) = (if is_png_name name then [(f, opens, new_size)] else [])"

text \<open>Converting one file and collecting what was written.\<close>

definition step_file :: "(png_file \<times> bool \<times> int) \<Rightarrow> pngexportinfo \<times> png_written list \<Rightarrow> pngexportinfo \<times> png_written list" where
  "step_file x acc = (case x of (f, opens, new_size) \<Rightarrow> case acc of (info, ws) \<Rightarrow>
      (case convert_png f opens new_size info of (info', w) \<Rightarrow> (info', ws @ (case w of Some y \<Rightarrow> [y] | None \<Rightarrow> []))))"

text \<open>
  C18. The statistics count every converted file exactly once when its output
  mode is grey or palette of 1, 2, 4 or 8 bits, RGB or RGBA, and not at all
  otherwise: grey with alpha, which the selector produces, has no bucket in
  \<open>update_info\<close>.
\<close>

theorem update_info_total:
  "info_total fti_num (update_info m d info) = info_total fti_num info + (if counted_mode m then 1 else 0)"
  by (cases "colortype m") (auto simp: update_info_def info_total_def update_file_type_info_def counted_mode_def)

text \<open>
  C19. \<open>bytep_to_bytepp\<close> handles 32, 24, 8 and fewer bits per pixel only: for
  16 bits per pixel (grey with alpha of 8 bits, which the selector chooses for
  grey images with transparency) no row is written, so the rows handed to libpng
  keep the contents of \<open>malloc\<close>.
\<close>

theorem bytep_to_bytepp_bpp16:
  "lodepng_get_bpp color = 16 \<Longrightarrow> bytep_to_bytepp color width height inp rows = rows"
proof -
  assume b: "lodepng_get_bpp color = 16"
  have "fold (\<lambda>j. b2bpp_pixel 16 inp i j) js st = st" for i js st
    by (induction js arbitrary: st) (auto simp: b2bpp_pixel_def split: prod.split)
  then have "fold (\<lambda>i st. fold (\<lambda>j. b2bpp_pixel 16 inp i j) [0..<nat width] st) is st = st" for "is" st
    by (induction "is" arbitrary: st) auto
  then show ?thesis using b by (simp add: bytep_to_bytepp_def)
qed

lemma fold_step_file_append:
  "fold step_file xs (info, ws0 @ ws) = (fst (fold step_file xs (info, ws)), ws0 @ snd (fold step_file xs (info, ws)))"
  by (induction xs arbitrary: info ws) (auto simp: step_file_def split: prod.split)

lemma convert_folder_entry_png_files:
  "convert_folder es info = fold step_file (png_files es) (info, [])"
  "convert_entry e info = fold step_file (png_files_entry e) (info, [])"
proof (induction es info and e info rule: convert_folder_convert_entry.induct)
  case (1 info)
  then show ?case by simp
next
  case (2 e es info)
  then show ?case
    using fold_step_file_append [of "png_files es" _ "snd (fold step_file (png_files_entry e) (info, []))" "[]"]
    by (auto simp: split: prod.split)
next
  case (3 name es info)
  then show ?case by simp
next
  case (4 name f opens new_size info)
  then show ?case by (auto simp: step_file_def split: prod.split option.split)
qed

lemma fold_copy_row:
  "p + n \<le> length ob \<Longrightarrow> n \<le> length r \<Longrightarrow>
   fold (\<lambda>j st'. case st' of (pos, ob) \<Rightarrow> (pos + 1, ob[pos := r ! j])) [0..<n] (p, ob) =
   (p + n, take p ob @ take n r @ drop (p + n) ob)"
proof (induction n)
  case 0
  then show ?case by simp
next
  case (Suc n)
  then have IH: "fold (\<lambda>j st'. case st' of (pos, ob) \<Rightarrow> (pos + 1, ob[pos := r ! j])) [0..<n] (p, ob) =
      (p + n, take p ob @ take n r @ drop (p + n) ob)" by simp
  have "(take p ob @ take n r @ drop (p + n) ob)[p + n := r ! n] = take p ob @ take (Suc n) r @ drop (p + Suc n) ob"
    using Suc.prems
    by (simp add: list_update_append take_Suc_conv_app_nth Cons_nth_drop_Suc [symmetric] min_def)
  then show ?case using IH by simp
qed

text \<open>
  C21. \<open>bytepp_to_bytep\<close> concatenates the first \<open>width * channel\<close> bytes of
  each of the \<open>height\<close> rows, with 4 channels for RGBA and 3 otherwise,
  whatever the bit depth: for 16-bit images, whose rows have 6 or 8 bytes per
  pixel, only the first half of every row is copied.
\<close>

theorem bytepp_to_bytep_rows:
  assumes "0 \<le> width" and "nat height * nat (width * (if colortype color = LCT_RGBA then 4 else 3)) \<le> length out"
    and "\<forall>i < nat height. nat (width * (if colortype color = LCT_RGBA then 4 else 3)) \<le> length (rows ! i)"
  shows "bytepp_to_bytep color width height out rows =
    concat (map (\<lambda>i. take (nat (width * (if colortype color = LCT_RGBA then 4 else 3))) (rows ! i)) [0..<nat height])
    @ drop (nat height * nat (width * (if colortype color = LCT_RGBA then 4 else 3))) out"
proof -
  define sz where "sz = nat (width * (if colortype color = LCT_RGBA then 4 else 3))"
  have rows_fold: "k \<le> nat height \<Longrightarrow>
     fold (\<lambda>i st. fold (\<lambda>j st'. case st' of (pos, ob) \<Rightarrow> (pos + 1, ob[pos := rows ! i ! j])) [0..<sz] st) [0..<k] (0, out) =
     (k * sz, concat (map (\<lambda>i. take sz (rows ! i)) [0..<k]) @ drop (k * sz) out)" for k
  proof (induction k)
    case 0
    then show ?case by simp
  next
    case (Suc k)
    have lk: "k * sz + sz \<le> length out" using Suc.prems assms(2) unfolding sz_def [symmetric]
      by (metis add.commute le_trans mult_Suc mult_le_mono1)
    have lr: "sz \<le> length (rows ! k)" using Suc.prems assms(3) unfolding sz_def [symmetric] by simp
    have len: "length (concat (map (\<lambda>i. take sz (rows ! i)) [0..<k])) = k * sz"
    proof -
      have "\<forall>i < k. length (take sz (rows ! i)) = sz" using Suc.prems assms(3) unfolding sz_def [symmetric] by simp
      then show ?thesis by (rule length_concat_map_upt)
    qed
    show ?case
      using Suc.IH Suc.prems fold_copy_row [of "k * sz" sz "concat (map (\<lambda>i. take sz (rows ! i)) [0..<k]) @ drop (k * sz) out" "rows ! k"] lk lr len
      by (simp add: add.commute)
  qed
  show ?thesis
    using rows_fold [of "nat height"] unfolding bytepp_to_bytep_def Let_def sz_def
    by simp
qed

text \<open>
  C20. The directory walk converts exactly the \<open>.png\<close> files of the tree
  (extension compared ignoring case, \<open>.\<close> and \<open>..\<close> skipped), each once, in the
  order of the listing: it equals converting the list \<open>png_files\<close> one file
  after the other.
\<close>

theorem convert_folder_files:
  "convert_folder es info = fold step_file (png_files es) (info, [])"
  by (rule convert_folder_entry_png_files(1))


theorem bytep_to_bytepp_bpp16_witness:
  "lodepng_get_bpp (lodepng_color_mode_init\<lparr>colortype := LCT_GREY_ALPHA\<rparr>) = 16 \<and>
   bytep_to_bytepp (lodepng_color_mode_init\<lparr>colortype := LCT_GREY_ALPHA\<rparr>) 1 1 [7, 255] [[0, 0]] = [[0, 0]]"
proof -
  have b: "lodepng_get_bpp (lodepng_color_mode_init\<lparr>colortype := LCT_GREY_ALPHA\<rparr>) = 16"
    by (simp add: lodepng_get_bpp_def lodepng_get_bpp_lct_def lodepng_color_mode_init_def)
  show ?thesis using bytep_to_bytepp_bpp16 [OF b, of 1 1 "[7, 255]" "[[0, 0]]"] b by simp
qed

theorem bytepp_to_bytep_rows_witness:
  "0 \<le> (1 :: int) \<and> colortype (lodepng_color_mode_init\<lparr>colortype := LCT_RGB, bitdepth := 16\<rparr>) = LCT_RGB \<and>
   bytepp_to_bytep (lodepng_color_mode_init\<lparr>colortype := LCT_RGB, bitdepth := 16\<rparr>) 1 1 [0, 0, 0]
     [[1, 2, 3, 4, 5, 6]] = [1, 2, 3]"
  using bytepp_to_bytep_rows [where width = 1 and height = 1
      and color = "lodepng_color_mode_init\<lparr>colortype := LCT_RGB, bitdepth := 16\<rparr>"
      and out = "[0, 0, 0]" and rows = "[[1, 2, 3, 4, 5, 6]]"]
  by (simp add: lodepng_color_mode_init_def)

end
