(* ===== verification/Chunk.thy ===== *)
theory Chunk
  imports Prelude
begin

text \<open>
  The chunk writer of \<^verbatim>\<open>src/lpng1634/png_.c\<close> (lines 4389-4537): the growable
  byte vector \<open>ucvector\<close>, \<open>addChunk\<close> and \<open>addChunk_IDAT\<close>, the big-endian
  32-bit integers of the PNG format (\<open>lodepng_set32bitInt\<close>,
  \<open>lodepng_read32bitInt\<close>), the table-driven CRC-32 \<open>lodepng_crc32\<close> and
  \<open>lodepng_chunk_create\<close>. \<open>size_t\<close> is a 64-bit word, so that the overflow test
  of \<open>lodepng_chunk_create\<close> (error 77) is the one the code computes.
  \<open>lodepng_realloc\<close> extends the buffer; the new bytes have unspecified contents
  in C and are modelled as zeros, which is harmless because
  \<open>lodepng_chunk_create\<close> writes every one of them before anything reads them.
  Allocation failure (error 83) is not modelled.
\<close>

type_synonym u64 = "64 word"

text \<open>\<open>struct ucvector\<close>: the data, its used size and its allocated size.\<close>

record ucvector =
  uc_data :: "byte list"
  uc_size :: u64
  uc_allocsize :: u64

definition ucvector_init :: "ucvector \<Rightarrow> ucvector" where
  "ucvector_init p = p\<lparr>uc_data := [], uc_size := 0, uc_allocsize := 0\<rparr>"

text \<open>
  The part of \<open>LodePNGCompressSettings\<close> that \<open>zlib_compress\<close> reads: the
  optional user compressor \<open>custom_zlib\<close> (a function pointer, here a function
  from the input bytes to an error code and the output).
\<close>

record LodePNGCompressSettings =
  custom_zlib :: "(byte list \<Rightarrow> nat \<times> byte list) option"

definition zlib_compress :: "byte list \<Rightarrow> LodePNGCompressSettings \<Rightarrow> nat \<times> byte list" where
  "zlib_compress inp settings =
     (case custom_zlib settings of None \<Rightarrow> (87, []) | Some f \<Rightarrow> f inp)"

text \<open>\<open>(unsigned char)((value >> k) & 0xff)\<close> into four consecutive bytes, most significant first.\<close>

definition lodepng_set32bitInt :: "byte list \<Rightarrow> nat \<Rightarrow> u32 \<Rightarrow> byte list" where
  "lodepng_set32bitInt buffer p value =
     buffer[p := ucast (drop_bit 24 value AND 0xff), p + 1 := ucast (drop_bit 16 value AND 0xff),
            p + 2 := ucast (drop_bit 8 value AND 0xff), p + 3 := ucast (value AND 0xff)]"

text \<open>
  \<open>(buffer[0] << 24) | (buffer[1] << 16) | (buffer[2] << 8) | buffer[3]\<close>, cast to
  \<open>unsigned\<close>: the shifts are computed in \<open>int\<close> and the result reinterpreted as
  32 bits, which is the 32-bit word computation below.
\<close>

definition lodepng_read32bitInt :: "byte list \<Rightarrow> nat \<Rightarrow> u32" where
  "lodepng_read32bitInt buffer p =
     push_bit 24 (ucast (buffer ! p)) OR push_bit 16 (ucast (buffer ! (p + 1))) OR
     push_bit 8 (ucast (buffer ! (p + 2))) OR ucast (buffer ! (p + 3))"

definition lodepng_crc32_table :: "u32 list" where
  "lodepng_crc32_table = [
     0, 1996959894, 3993919788, 2567524794, 124634137, 1886057615, 3915621685, 2657392035,
     249268274, 2044508324, 3772115230, 2547177864, 162941995, 2125561021, 3887607047, 2428444049,
     498536548, 1789927666, 4089016648, 2227061214, 450548861, 1843258603, 4107580753, 2211677639,
     325883990, 1684777152, 4251122042, 2321926636, 335633487, 1661365465, 4195302755, 2366115317,
     997073096, 1281953886, 3579855332, 2724688242, 1006888145, 1258607687, 3524101629, 2768942443,
     901097722, 1119000684, 3686517206, 2898065728, 853044451, 1172266101, 3705015759, 2882616665,
     651767980, 1373503546, 3369554304, 3218104598, 565507253, 1454621731, 3485111705, 3099436303,
     671266974, 1594198024, 3322730930, 2970347812, 795835527, 1483230225, 3244367275, 3060149565,
     1994146192, 31158534, 2563907772, 4023717930, 1907459465, 112637215, 2680153253, 3904427059,
     2013776290, 251722036, 2517215374, 3775830040, 2137656763, 141376813, 2439277719, 3865271297,
     1802195444, 476864866, 2238001368, 4066508878, 1812370925, 453092731, 2181625025, 4111451223,
     1706088902, 314042704, 2344532202, 4240017532, 1658658271, 366619977, 2362670323, 4224994405,
     1303535960, 984961486, 2747007092, 3569037538, 1256170817, 1037604311, 2765210733, 3554079995,
     1131014506, 879679996, 2909243462, 3663771856, 1141124467, 855842277, 2852801631, 3708648649,
     1342533948, 654459306, 3188396048, 3373015174, 1466479909, 544179635, 3110523913, 3462522015,
     1591671054, 702138776, 2966460450, 3352799412, 1504918807, 783551873, 3082640443, 3233442989,
     3988292384, 2596254646, 62317068, 1957810842, 3939845945, 2647816111, 81470997, 1943803523,
     3814918930, 2489596804, 225274430, 2053790376, 3826175755, 2466906013, 167816743, 2097651377,
     4027552580, 2265490386, 503444072, 1762050814, 4150417245, 2154129355, 426522225, 1852507879,
     4275313526, 2312317920, 282753626, 1742555852, 4189708143, 2394877945, 397917763, 1622183637,
     3604390888, 2714866558, 953729732, 1340076626, 3518719985, 2797360999, 1068828381, 1219638859,
     3624741850, 2936675148, 906185462, 1090812512, 3747672003, 2825379669, 829329135, 1181335161,
     3412177804, 3160834842, 628085408, 1382605366, 3423369109, 3138078467, 570562233, 1426400815,
     3317316542, 2998733608, 733239954, 1555261956, 3268935591, 3050360625, 752459403, 1541320221,
     2607071920, 3965973030, 1969922972, 40735498, 2617837225, 3943577151, 1913087877, 83908371,
     2512341634, 3803740692, 2075208622, 213261112, 2463272603, 3855990285, 2094854071, 198958881,
     2262029012, 4057260610, 1759359992, 534414190, 2176718541, 4139329115, 1873836001, 414664567,
     2282248934, 4279200368, 1711684554, 285281116, 2405801727, 4167216745, 1634467795, 376229701,
     2685067896, 3608007406, 1308918612, 956543938, 2808555105, 3495958263, 1231636301, 1047427035,
     2932959818, 3654703836, 1088359270, 936918000, 2847714899, 3736837829, 1202900863, 817233897,
     3183342108, 3401237130, 1404277552, 615818150, 3134207493, 3453421203, 1423857449, 601450431,
     3009837614, 3294710456, 1567103746, 711928724, 3020668471, 3272380065, 1510334235, 755167117]"

definition lodepng_crc32 :: "byte list \<Rightarrow> u32" where
  "lodepng_crc32 data =
     fold (\<lambda>d r. lodepng_crc32_table ! unat ((r XOR ucast d) AND 0xff) XOR drop_bit 8 r) data 0xffffffff
     XOR 0xffffffff"

definition lodepng_chunk_length :: "byte list \<Rightarrow> nat \<Rightarrow> u32" where
  "lodepng_chunk_length chunk c = lodepng_read32bitInt chunk c"

text \<open>The CRC of the name and the data, \<open>length + 4\<close> bytes from \<open>chunk + 4\<close>, written after the data.\<close>

definition lodepng_chunk_generate_crc :: "byte list \<Rightarrow> nat \<Rightarrow> byte list" where
  "lodepng_chunk_generate_crc chunk c =
     (let len = lodepng_chunk_length chunk c;
          CRC = lodepng_crc32 (take (unat (len + 4)) (drop (c + 4) chunk))
      in lodepng_set32bitInt chunk (c + 8 + unat len) CRC)"

definition lodepng_realloc :: "byte list \<Rightarrow> nat \<Rightarrow> byte list" where
  "lodepng_realloc xs n = take n xs @ replicate (n - length xs) 0"

definition char_byte :: "char \<Rightarrow> byte" where
  "char_byte c = word_of_nat (of_char c)"

text \<open>
  \<open>lodepng_chunk_create(out, outlength, length, type, data)\<close>: the new length
  \<open>*outlength + length + 12\<close> in \<open>size_t\<close>, the overflow test (with \<open>length + 12\<close>
  computed in \<open>unsigned\<close>), then length, name, data and CRC at the end of the
  enlarged buffer. Returns the error code, the buffer and its new length.
\<close>

definition lodepng_chunk_create ::
  "byte list \<Rightarrow> u64 \<Rightarrow> u32 \<Rightarrow> string \<Rightarrow> byte list \<Rightarrow> nat \<times> byte list \<times> u64" where
  "lodepng_chunk_create out outlength len type data =
     (let new_length = outlength + ucast len + 12
      in if new_length < ucast (len + 12) \<or> new_length < outlength then (77, out, outlength)
         else
           (let buf = lodepng_realloc out (unat new_length);
                c = unat new_length - unat len - 12;
                buf1 = lodepng_set32bitInt buf c len;
                buf2 = buf1[c + 4 := char_byte (type ! 0), c + 5 := char_byte (type ! 1),
                            c + 6 := char_byte (type ! 2), c + 7 := char_byte (type ! 3)];
                buf3 = fold (\<lambda>i b. b[c + 8 + i := data ! i]) [0..<unat len] buf2
            in (0, lodepng_chunk_generate_crc buf3 c, new_length)))"

text \<open>\<open>addChunk\<close>: on success the allocated size is set to the used size; an error is returned with the vector unchanged.\<close>

definition addChunk :: "ucvector \<Rightarrow> string \<Rightarrow> byte list \<Rightarrow> u64 \<Rightarrow> nat \<times> ucvector" where
  "addChunk out chunkName data len =
     (case lodepng_chunk_create (uc_data out) (uc_size out) (ucast len) chunkName data of
        (e, d, s) \<Rightarrow> if e \<noteq> 0 then (e, out) else (0, out\<lparr>uc_data := d, uc_size := s, uc_allocsize := s\<rparr>))"

definition ucvector_cleanup :: "ucvector \<Rightarrow> ucvector" where
  "ucvector_cleanup p = p\<lparr>uc_size := 0, uc_allocsize := 0, uc_data := []\<rparr>"

text \<open>
  \<open>addChunk_IDAT\<close>: the call of \<open>zlib_compress\<close> is commented out in the source;
  the raw data is stored as the IDAT chunk, and the error of \<open>addChunk\<close> is
  discarded, so the function always returns 0.
\<close>

definition addChunk_IDAT ::
  "ucvector \<Rightarrow> byte list \<Rightarrow> u64 \<Rightarrow> LodePNGCompressSettings \<Rightarrow> nat \<times> ucvector" where
  "addChunk_IDAT out data datasize zlibsettings =
     (let zlibdata = ucvector_init \<lparr>uc_data = [], uc_size = 0, uc_allocsize = 0\<rparr>;
          out' = snd (addChunk out ''IDAT'' data datasize);
          zlibdata' = ucvector_cleanup zlibdata
      in (0, out'))"

text \<open>The reference CRC-32 of the PNG specification, one bit at a time, polynomial \<open>0xEDB88320\<close>.\<close>

definition crc_step :: "u32 \<Rightarrow> u32" where
  "crc_step x = (if bit x 0 then drop_bit 1 x XOR 0xEDB88320 else drop_bit 1 x)"

definition crc_steps :: "nat \<Rightarrow> u32 \<Rightarrow> u32" where
  "crc_steps n x = (crc_step ^^ n) x"

definition crc32_ref :: "byte list \<Rightarrow> u32" where
  "crc32_ref data = fold (\<lambda>d r. crc_steps 8 (r XOR ucast d)) data 0xffffffff XOR 0xffffffff"

text \<open>The four bytes \<open>lodepng_set32bitInt\<close> writes.\<close>

definition be32 :: "u32 \<Rightarrow> byte list" where
  "be32 v = [ucast (drop_bit 24 v AND 0xff), ucast (drop_bit 16 v AND 0xff), ucast (drop_bit 8 v AND 0xff), ucast (v AND 0xff)]"

subsection \<open>CRC-32\<close>

lemma crc_step_xor: "crc_step (a XOR b) = crc_step a XOR crc_step b"
  by (auto simp: crc_step_def drop_bit_xor bit_xor_iff ac_simps)

lemma crc_steps_xor: "crc_steps n (a XOR b) = crc_steps n a XOR crc_steps n b"
  unfolding crc_steps_def by (induction n arbitrary: a b) (simp_all add: crc_step_xor)

lemma crc_steps_0: "crc_steps n 0 = 0"
  unfolding crc_steps_def by (induction n) (simp_all add: crc_step_def)

lemma crc_steps_low_zero: "take_bit n y = 0 \<Longrightarrow> crc_steps n y = drop_bit n y"
proof (induction n arbitrary: y)
  case 0
  then show ?case by (simp add: crc_steps_def)
next
  case (Suc n)
  have "bit (take_bit (Suc n) y) 0 = bit y 0" by (simp add: bit_take_bit_iff)
  then have b: "\<not> bit y 0" using Suc.prems by simp
  have t: "take_bit n (drop_bit 1 y) = 0"
    using Suc.prems by (simp add: take_bit_drop_bit)
  have "crc_steps (Suc n) y = crc_steps n (crc_step y)"
    by (simp only: crc_steps_def funpow_Suc_right comp_def)
  also have "\<dots> = crc_steps n (drop_bit 1 y)" using b by (simp add: crc_step_def)
  also have "\<dots> = drop_bit (Suc n) y" using Suc.IH [OF t] by (simp add: drop_bit_drop_bit)
  finally show ?case .
qed

lemma crc32_table_linear: "list_all (\<lambda>k. list_all (\<lambda>j. lodepng_crc32_table ! (2 ^ k + j) = lodepng_crc32_table ! (2 ^ k) XOR lodepng_crc32_table ! j) [0..<2 ^ k]) [0..<8]"
  unfolding lodepng_crc32_table_def by code_simp

lemma crc32_table_pow2: "list_all (\<lambda>k. lodepng_crc32_table ! (2 ^ k) = crc_steps 8 (2 ^ k)) [0..<8]"
  unfolding lodepng_crc32_table_def crc_steps_def crc_step_def by code_simp

lemma pow2_add_xor_nat: "j < 2 ^ k \<Longrightarrow> 2 ^ k + j = (2 ^ k XOR j :: nat)"
proof -
  assume "j < 2 ^ k"
  then have "take_bit k j = j" by (simp add: take_bit_nat_eq_self_iff)
  then have "\<not> bit j k" by (metis bit_take_bit_iff less_irrefl)
  then have "2 ^ k AND j = (0 :: nat)"
    by (simp add: and_exp_eq_0_iff_not_bit and.commute)
  then show ?thesis by (rule disjunctive_add_eq_xor)
qed

lemma lodepng_crc32_table_crc:
  assumes "i < 256"
  shows "lodepng_crc32_table ! i = crc_steps 8 (word_of_nat i)"
proof -
  have "k \<le> 8 \<Longrightarrow> \<forall>j < 2 ^ k. lodepng_crc32_table ! j = crc_steps 8 (word_of_nat j)" for k
  proof (induction k)
    case 0
    then show ?case by (simp add: lodepng_crc32_table_def crc_steps_0)
  next
    case (Suc k)
    have l: "\<forall>j<2 ^ k. lodepng_crc32_table ! (2 ^ k + j) = lodepng_crc32_table ! (2 ^ k) XOR lodepng_crc32_table ! j"
      using crc32_table_linear Suc.prems by (simp add: list_all_iff)
    have p: "lodepng_crc32_table ! (2 ^ k) = crc_steps 8 (2 ^ k)"
      using crc32_table_pow2 Suc.prems by (simp add: list_all_iff)
    show ?case
    proof (intro allI impI)
      fix j :: nat assume j: "j < 2 ^ Suc k"
      show "lodepng_crc32_table ! j = crc_steps 8 (word_of_nat j)"
      proof (cases "j < 2 ^ k")
        case True
        then show ?thesis using Suc by simp
      next
        case False
        define j' where "j' = j - 2 ^ k"
        have j': "j' < 2 ^ k" "j = 2 ^ k + j'" using j False by (simp_all add: j'_def)
        have "lodepng_crc32_table ! j = crc_steps 8 (2 ^ k) XOR crc_steps 8 (word_of_nat j')"
          using l p Suc j' by simp
        also have "\<dots> = crc_steps 8 (word_of_nat (2 ^ k XOR j'))"
          by (simp add: crc_steps_xor of_nat_xor_eq)
        finally show ?thesis using pow2_add_xor_nat [OF j'(1)] j'(2) by simp
      qed
    qed
  qed
  from this [of 8] show ?thesis using assms by simp
qed

lemma and_not_mask8_take: "take_bit 8 (x AND NOT (mask 8)) = (0 :: u32)"
  by (simp add: bit_eq_iff bit_simps) 

lemma split_mask8: "x = (x AND 0xff) XOR (x AND NOT (mask 8) :: u32)"
proof -
  have "x = (x AND mask 8) XOR (x AND NOT (mask 8))"
    by (rule bit_word_eqI) (auto simp: bit_simps)
  then show ?thesis by (simp add: mask_eq_exp_minus_1)
qed

lemma crc32_table_byte:
  "lodepng_crc32_table ! unat ((r XOR ucast (d :: byte)) AND 0xff) XOR drop_bit 8 r = crc_steps 8 (r XOR ucast d)"
proof -
  define x where "x = r XOR ucast d"
  have dr: "drop_bit 8 r = drop_bit 8 x"
    unfolding x_def drop_bit_xor by (rule bit_word_eqI) (auto simp: bit_simps dest: bit_imp_le_length)
  have "drop_bit 8 (x AND NOT (mask 8)) = drop_bit 8 x"
    by (rule bit_word_eqI) (auto simp: bit_simps dest: bit_imp_le_length)
  then have hi: "crc_steps 8 (x AND NOT (mask 8)) = drop_bit 8 x"
    using crc_steps_low_zero [OF and_not_mask8_take] by simp
  have "unat (x AND 0xff) \<le> unat (0xff :: u32)"
    using word_and_le1 word_le_nat_alt by blast
  then have lo: "lodepng_crc32_table ! unat (x AND 0xff) = crc_steps 8 (x AND 0xff)"
    using lodepng_crc32_table_crc [of "unat (x AND 0xff)"] by simp
  have "crc_steps 8 x = crc_steps 8 (x AND 0xff) XOR crc_steps 8 (x AND NOT (mask 8))"
    by (subst split_mask8) (simp only: crc_steps_xor)
  then show ?thesis using dr hi lo x_def by simp
qed


subsection \<open>Integers and chunks\<close>

lemma u32_ff_mask: "(0xff :: u32) = mask 8"
  by (simp add: mask_eq_exp_minus_1)

lemma be32_read: "push_bit 24 (ucast (ucast (drop_bit 24 v AND 0xff) :: byte)) OR
     push_bit 16 (ucast (ucast (drop_bit 16 v AND 0xff) :: byte)) OR
     push_bit 8 (ucast (ucast (drop_bit 8 v AND 0xff) :: byte)) OR ucast (ucast (v AND 0xff) :: byte) = (v :: u32)"
  unfolding u32_ff_mask by (rule bit_word_eqI) (auto simp: bit_simps cong: conj_cong)

lemma read32_be32: "lodepng_read32bitInt (xs @ be32 v @ ys) (length xs) = v"
  by (simp add: lodepng_read32bitInt_def be32_def nth_append be32_read)

lemma set32_append: "lodepng_set32bitInt (xs @ a # b # c # d # ys) (length xs) v = xs @ be32 v @ ys"
  by (simp add: lodepng_set32bitInt_def be32_def list_update_append)

lemma length_be32 [simp]: "length (be32 v) = 4"
  by (simp add: be32_def)

lemma unat_ucast_u32_u64 [simp]: "unat (ucast (x :: u32) :: u64) = unat x"
proof -
  have "unat x < 2 ^ LENGTH(32)" by (rule unsigned_less)
  then have "unat x < 2 ^ 64" by simp
  then show ?thesis by (simp add: unsigned_ucast_eq take_bit_nat_eq_self)
qed

lemma set32_split:
  assumes "p + 4 \<le> length buf"
  obtains a b c d ys where "buf = take p buf @ a # b # c # d # ys" "length (take p buf) = p"
proof -
  have "length (drop p buf) \<ge> 4" using assms by simp
  then obtain a b c d ys where "drop p buf = a # b # c # d # ys"
    using length_ge4_cons by blast
  then show ?thesis using that assms by (metis append_take_drop_id length_take min_absorb2 le_add1 le_trans)
qed

text \<open>
  C23. Reading back with \<open>lodepng_read32bitInt\<close> the four bytes that
  \<open>lodepng_set32bitInt\<close> wrote at the same offset gives the value written.
\<close>

theorem read32_set32:
  assumes "p + 4 \<le> length buf"
  shows "lodepng_read32bitInt (lodepng_set32bitInt buf p v) p = v"
proof -
  obtain a b c d ys where b: "buf = take p buf @ a # b # c # d # ys" and l: "length (take p buf) = p"
    using set32_split [OF assms] by blast
  have "lodepng_set32bitInt buf p v = take p buf @ be32 v @ ys"
    using set32_append [of "take p buf" a b c d ys v] b l by simp
  then show ?thesis using read32_be32 [of "take p buf" v ys] l by simp
qed

text \<open>
  C24. Without overflow, \<open>lodepng_chunk_create\<close> appends to the buffer a PNG
  chunk: the length in big-endian order, the four-letter name, the data and the
  CRC-32 of name and data, and it returns the new length.
\<close>

theorem chunk_create_layout:
  assumes "length out = unat outlength" "unat outlength + unat len + 12 < 2 ^ 64"
    and "unat len < 2 ^ 31" "length data = unat len" "length type = 4"
  shows "lodepng_chunk_create out outlength len type data =
     (0, out @ be32 len @ map char_byte type @ data @ be32 (lodepng_crc32 (map char_byte type @ data)),
      outlength + ucast len + 12)"
proof -
  define n where "n = unat outlength + unat len + 12"
  define nl where "nl = outlength + ucast len + 12"
  have unl: "unat nl = n"
    using assms(2) unfolding nl_def n_def by (simp add: unat_word_ariths)
  have l12: "unat (len + 12) = unat len + 12"
    using assms(3) by (simp add: unat_word_ariths)
  have nerr: "\<not> (nl < ucast (len + 12) \<or> nl < outlength)"
    using unl l12 by (simp add: word_less_nat_alt n_def)
  obtain t0 t1 t2 t3 where ty: "type = [t0, t1, t2, t3]"
    using length_eq4 [OF assms(5)] by blast
  define pre where "pre = out @ be32 len @ map char_byte type"
  have buf: "lodepng_realloc out n = out @ replicate (unat len + 12) 0"
    using assms(1) by (simp add: lodepng_realloc_def n_def)
  have c: "n - unat len - 12 = length out" using assms(1) by (simp add: n_def)
  have b1: "lodepng_set32bitInt (out @ replicate (unat len + 12) 0) (length out) len =
      out @ be32 len @ replicate (unat len + 8) 0"
  proof -
    have "replicate (unat len + 12) (0 :: byte) = 0 # 0 # 0 # 0 # replicate (unat len + 8) 0"
      by (simp add: numeral_eq_Suc)
    then show ?thesis using set32_append [of out 0 0 0 0 "replicate (unat len + 8) 0" len] by simp
  qed
  have b2: "(out @ be32 len @ replicate (unat len + 8) 0)[length out + 4 := char_byte (type ! 0),
        length out + 5 := char_byte (type ! 1), length out + 6 := char_byte (type ! 2),
        length out + 7 := char_byte (type ! 3)] = pre @ replicate (unat len) 0 @ replicate 4 0"
    by (simp add: pre_def ty be32_def list_update_append replicate_add [symmetric] numeral_eq_Suc replicate_app_Cons_same)
  have b3: "fold (\<lambda>i b. b[length out + 8 + i := data ! i]) [0..<unat len] (pre @ replicate (unat len) 0 @ replicate 4 0)
      = pre @ data @ replicate 4 0"
    using fold_copy_at [of pre "length out + 8" "replicate (unat len) 0" data "unat len" "replicate 4 0"] assms(4)
    by (simp add: pre_def ty)
  have rd: "lodepng_chunk_length (pre @ data @ replicate 4 0) (length out) = len"
    using read32_be32 [of out len "map char_byte type @ data @ replicate 4 0"]
    by (simp add: lodepng_chunk_length_def pre_def)
  have l4: "unat (len + 4) = unat len + 4"
    using assms(3) by (simp add: unat_word_ariths)
  have tk: "take (unat len + 4) (drop (length out + 4) (pre @ data @ replicate 4 0)) = map char_byte type @ data"
    using assms(4,5) by (simp add: pre_def)
  have fin: "lodepng_set32bitInt (pre @ data @ replicate 4 0) (length out + 8 + unat len) v =
      pre @ data @ be32 v" for v
    using set32_append [of "pre @ data" 0 0 0 0 "[]" v] assms(4,5)
    by (simp add: pre_def numeral_eq_Suc)
  have g: "lodepng_chunk_generate_crc (pre @ data @ replicate 4 0) (length out) =
      pre @ data @ be32 (lodepng_crc32 (map char_byte type @ data))"
    unfolding lodepng_chunk_generate_crc_def Let_def rd l4 tk fin ..
  have "lodepng_chunk_create out outlength len type data =
      (0, lodepng_chunk_generate_crc (pre @ data @ replicate 4 0) (length out), nl)"
    unfolding lodepng_chunk_create_def Let_def nl_def [symmetric] unl
    using nerr buf c b1 b2 b3 by simp
  then show ?thesis using g by (simp add: pre_def nl_def)
qed

text \<open>
  C25. \<open>lodepng_chunk_create\<close> returns error 77 exactly when the new length
  \<open>*outlength + length + 12\<close> does not fit in \<open>size_t\<close>.
\<close>

theorem chunk_create_overflow:
  "fst (lodepng_chunk_create out outlength len type data) = 77 \<longleftrightarrow> 2 ^ 64 \<le> unat outlength + unat len + 12"
proof -
  define nl where "nl = outlength + ucast len + 12"
  have ul: "unat (ucast len :: u64) = unat len" by (simp add:)
  have "unat len < 2 ^ LENGTH(32)" by (rule unsigned_less)
  then have lt: "unat len + 12 < 2 ^ 64" by simp
  have "unat outlength < 2 ^ LENGTH(64)" by (rule unsigned_less)
  have u12: "unat (ucast (len + 12) :: u64) \<le> unat len + 12"
    by (simp add: unat_word_ariths)
  have unl: "unat nl = (unat outlength + unat len + 12) mod 2 ^ 64"
    unfolding nl_def by (simp add: unat_word_ariths ul mod_add_left_eq)
  have "(nl < ucast (len + 12) \<or> nl < outlength) \<longleftrightarrow> 2 ^ 64 \<le> unat outlength + unat len + 12"
  proof
    assume e: "nl < ucast (len + 12) \<or> nl < outlength"
    show "2 ^ 64 \<le> unat outlength + unat len + 12"
    proof (rule ccontr)
      assume "\<not> 2 ^ 64 \<le> unat outlength + unat len + 12"
      then have "unat nl = unat outlength + unat len + 12" using unl by simp
      then show False using e u12 by (auto simp: word_less_nat_alt)
    qed
  next
    assume o: "2 ^ 64 \<le> unat outlength + unat len + 12"
    have "unat outlength + unat len + 12 < 2 * 2 ^ 64" using \<open>unat outlength < 2 ^ LENGTH(64)\<close> lt by simp
    then have "unat nl = unat outlength + unat len + 12 - 2 ^ 64"
      using o unl by (simp add: mod_if) 
    then have "nl < outlength" using lt o by (simp add: word_less_nat_alt)
    then show "nl < ucast (len + 12) \<or> nl < outlength" ..
  qed
  then show ?thesis
    unfolding lodepng_chunk_create_def Let_def nl_def [symmetric] by simp
qed

text \<open>C22. The table-driven \<open>lodepng_crc32\<close> computes the CRC-32 of the PNG specification.\<close>

theorem lodepng_crc32_ref: "lodepng_crc32 data = crc32_ref data"
  unfolding lodepng_crc32_def crc32_ref_def by (simp add: crc32_table_byte)

theorem read32_set32_witness:
  "0 + 4 \<le> length [0, 0, 0, 0 :: byte] \<and>
   lodepng_read32bitInt (lodepng_set32bitInt [0, 0, 0, 0] 0 0x12345678) 0 = 0x12345678"
  using read32_set32 [where p = 0 and buf = "[0, 0, 0, 0]" and v = "0x12345678"] by simp

theorem chunk_create_layout_witness:
  "length ([] :: byte list) = unat (0 :: u64) \<and> unat (0 :: u64) + unat (1 :: u32) + 12 < 2 ^ 64 \<and>
   unat (1 :: u32) < 2 ^ 31 \<and> length [7 :: byte] = unat (1 :: u32) \<and> length ''IDAT'' = 4 \<and>
   lodepng_chunk_create [] 0 1 ''IDAT'' [7] =
     (0, [] @ be32 1 @ map char_byte ''IDAT'' @ [7] @ be32 (lodepng_crc32 (map char_byte ''IDAT'' @ [7])), 0 + ucast 1 + 12)"
  using chunk_create_layout [where out = "[]" and outlength = 0 and len = 1 and data = "[7]" and type = "''IDAT''"]
  by simp

end
