(* ===== verification/EncoderPng.thy ===== *)
theory EncoderPng
  imports ScanlineFilter
begin

text \<open>
  The encoder part of \<^verbatim>\<open>src/lpng1634/png_.c\<close> that differs from
  \<^verbatim>\<open>src/pngtest.c\<close>: the filter strategies and encoder settings (lines
  2556-2685), \<open>Adam7_getpassvalues\<close> (2771-2803), the strategy-driven
  \<open>filter\<close> (2937-3109) and the \<open>preProcessScanlines\<close> that writes a
  filter-type byte per scanline (3112-3153). \<open>filterScanline\<close> and
  \<open>paethPredictor\<close> are the same text in both files and are taken from
  \<open>ScanlineFilter\<close>. The two functions of this file that clash with those of
  \<open>ScanlineFilter\<close> carry the suffix \<open>_png\<close>.

  A read through a NULL or out-of-range \<open>predefined_filters\<close> pointer is
  undefined behaviour and is the value \<open>None\<close>. \<open>size_t\<close> sums are
  \<open>nat\<close>: they add at most seven or \<open>linebytes\<close> terms below \<open>2^32\<close> each
  and cannot wrap in 64 bits. Allocation failure (error 83) is not modelled.
\<close>

datatype LodePNGFilterStrategy = LFS_ZERO | LFS_MINSUM | LFS_ENTROPY | LFS_BRUTE_FORCE | LFS_PREDEFINED

text \<open>The enumerators' values; the settings field holds the integer in memory, which may be any value.\<close>

primrec lfs_code :: "LodePNGFilterStrategy \<Rightarrow> nat" where
  "lfs_code LFS_ZERO = 0"
| "lfs_code LFS_MINSUM = 1"
| "lfs_code LFS_ENTROPY = 2"
| "lfs_code LFS_BRUTE_FORCE = 3"
| "lfs_code LFS_PREDEFINED = 4"

record LodePNGInfo =
  compression_method :: nat
  filter_method :: nat
  interlace_method :: nat
  color :: color_mode

definition lodepng_info_cleanup :: "LodePNGInfo \<Rightarrow> LodePNGInfo" where
  "lodepng_info_cleanup info = info\<lparr>color := lodepng_color_mode_cleanup (color info)\<rparr>"

record LodePNGEncoderSettings =
  auto_convert :: bool
  filter_palette_zero :: bool
  filter_strategy :: nat
  predefined_filters :: "byte list option"
  force_palette :: bool

record LodePNGState =
  encoder :: LodePNGEncoderSettings
  info_raw :: color_mode
  info_png :: LodePNGInfo
  state_error :: nat

definition lodepng_state_cleanup :: "LodePNGState \<Rightarrow> LodePNGState" where
  "lodepng_state_cleanup state =
     state\<lparr>info_raw := lodepng_color_mode_cleanup (info_raw state),
           info_png := lodepng_info_cleanup (info_png state)\<rparr>"

definition lodepng_info_init :: "LodePNGInfo \<Rightarrow> LodePNGInfo" where
  "lodepng_info_init info =
     info\<lparr>color := lodepng_color_mode_init, interlace_method := 0, compression_method := 0, filter_method := 0\<rparr>"

text \<open>
  \<open>lodepng_encoder_settings_init\<close> sets three of the five fields:
  \<open>filter_palette_zero\<close> and \<open>filter_strategy\<close> keep whatever the memory held.
\<close>

definition lodepng_encoder_settings_init :: "LodePNGEncoderSettings \<Rightarrow> LodePNGEncoderSettings" where
  "lodepng_encoder_settings_init settings =
     settings\<lparr>auto_convert := True, force_palette := False, predefined_filters := None\<rparr>"

definition lodepng_state_init :: "LodePNGState \<Rightarrow> LodePNGState" where
  "lodepng_state_init state =
     state\<lparr>encoder := lodepng_encoder_settings_init (encoder state), info_raw := lodepng_color_mode_init,
           info_png := lodepng_info_init (info_png state), state_error := 1\<rparr>"

text \<open>\<open>lodepng_info_copy\<close>: the structure is copied, then its colour mode re-initialised and deep-copied.\<close>

definition lodepng_info_copy :: "LodePNGInfo \<Rightarrow> LodePNGInfo \<Rightarrow> nat \<times> LodePNGInfo" where
  "lodepng_info_copy dest source =
     (let dest1 = lodepng_info_cleanup dest;
          dest2 = source\<lparr>color := lodepng_color_mode_init\<rparr>
      in (0, dest2\<lparr>color := lodepng_color_mode_copy (color dest2) (color source)\<rparr>))"

subsection \<open>Adam7\<close>

definition ADAM7_IX :: "u32 list" where "ADAM7_IX = [0, 4, 0, 2, 0, 1, 0]"
definition ADAM7_IY :: "u32 list" where "ADAM7_IY = [0, 0, 4, 0, 2, 0, 1]"
definition ADAM7_DX :: "u32 list" where "ADAM7_DX = [8, 8, 4, 4, 2, 2, 1]"
definition ADAM7_DY :: "u32 list" where "ADAM7_DY = [8, 8, 8, 4, 4, 2, 2]"

text \<open>The first loop: width and height of pass \<open>i\<close>, each zeroed when the other is zero (in that order).\<close>

definition adam7_pass :: "u32 \<Rightarrow> u32 \<Rightarrow> nat \<Rightarrow> u32 \<times> u32" where
  "adam7_pass w h i =
     (let pw = (w + ADAM7_DX ! i - ADAM7_IX ! i - 1) div ADAM7_DX ! i;
          ph = (h + ADAM7_DY ! i - ADAM7_IY ! i - 1) div ADAM7_DY ! i;
          ph' = (if pw = 0 then 0 else ph);
          pw' = (if ph' = 0 then 0 else pw)
      in (pw', ph'))"

text \<open>The second loop: running sums from 0, one term per pass.\<close>

definition pass_starts :: "(nat \<Rightarrow> nat) \<Rightarrow> nat list" where
  "pass_starts f = fold (\<lambda>i acc. acc @ [last acc + f i]) [0..<7] [0]"

definition Adam7_getpassvalues ::
  "u32 \<Rightarrow> u32 \<Rightarrow> u32 \<Rightarrow> u32 list \<times> u32 list \<times> nat list \<times> nat list \<times> nat list" where
  "Adam7_getpassvalues w h bpp =
     (let passw = map (\<lambda>i. fst (adam7_pass w h i)) [0..<7];
          passh = map (\<lambda>i. snd (adam7_pass w h i)) [0..<7]
      in (passw, passh,
          pass_starts (\<lambda>i. if passw ! i \<noteq> 0 \<and> passh ! i \<noteq> 0
                            then unat (passh ! i * (1 + (passw ! i * bpp + 7) div 8)) else 0),
          pass_starts (\<lambda>i. unat (passh ! i * ((passw ! i * bpp + 7) div 8))),
          pass_starts (\<lambda>i. unat ((passh ! i * passw ! i * bpp + 7) div 8))))"

subsection \<open>Filtering with a strategy\<close>

text \<open>
  \<open>LFS_ZERO\<close>: row \<open>y\<close> is the filter-type byte 0 at \<open>(1 + linebytes) * y\<close>
  followed by the scanline filtered with type 0.
\<close>

fun zero_rows ::
  "nat \<Rightarrow> nat \<Rightarrow> byte list \<Rightarrow> byte list option \<Rightarrow> nat list \<Rightarrow> byte list \<Rightarrow> byte list" where
  "zero_rows linebytes bytewidth inp prevline [] out = out"
| "zero_rows linebytes bytewidth inp prevline (y # ys) out =
     zero_rows linebytes bytewidth inp (Some (drop (linebytes * y) inp)) ys
       (at_offset ((1 + linebytes) * y + 1)
          (\<lambda>ob. filterScanline ob (drop (linebytes * y) inp) prevline linebytes bytewidth 0)
          (out[(1 + linebytes) * y := 0]))"

text \<open>
  The sum \<open>LFS_MINSUM\<close> minimises: the bytes as unsigned for type 0, as the
  absolute value of a signed byte (\<open>s < 128 ? s : 255U - s\<close>) otherwise.
\<close>

definition minsum_sum :: "nat \<Rightarrow> nat \<Rightarrow> byte list \<Rightarrow> nat" where
  "minsum_sum linebytes type att =
     (if type = 0 then sum_list (map (\<lambda>x. unat (att ! x)) [0..<linebytes])
      else sum_list (map (\<lambda>x. if att ! x < 128 then unat (att ! x) else 255 - unat (att ! x)) [0..<linebytes]))"

text \<open>
  \<open>LFS_ENTROPY\<close>: the histogram \<open>count\<close> of the filtered bytes and of the type
  byte. The Shannon sum over it is computed in \<open>float\<close> with \<open>flog2\<close>; the
  model takes that sum as a parameter \<open>entropy\<close> of the encoder.
\<close>

definition entropy_count :: "nat \<Rightarrow> nat \<Rightarrow> byte list \<Rightarrow> nat list" where
  "entropy_count linebytes type att =
     (let count = fold (\<lambda>x c. c[unat (att ! x) := c ! unat (att ! x) + 1]) [0..<linebytes] (replicate 256 0)
      in count[type := count ! type + 1])"

text \<open>
  One attempt of the adaptive strategies: filter the row with \<open>type\<close> into
  \<open>attempt[type]\<close>, score it, and keep it when \<open>type == 0\<close> or the score is
  strictly smaller than the smallest so far.
\<close>

definition try_filter ::
  "(nat \<Rightarrow> byte list \<Rightarrow> 'a::linorder) \<Rightarrow> byte list \<Rightarrow> byte list option \<Rightarrow> nat \<Rightarrow> nat \<Rightarrow>
   nat \<Rightarrow> byte list list \<times> nat \<times> 'a \<Rightarrow> byte list list \<times> nat \<times> 'a" where
  "try_filter score sc prevline linebytes bytewidth type st =
     (case st of (attempt, bestType, smallest) \<Rightarrow>
        (case filterScanline (attempt ! type) sc prevline linebytes bytewidth type of att \<Rightarrow>
           (case score type att of s \<Rightarrow>
              (attempt[type := att], if type = 0 \<or> s < smallest then type else bestType,
               if type = 0 \<or> s < smallest then s else smallest))))"

text \<open>
  One row of an adaptive strategy: the five attempts, then the type byte
  \<open>bestType\<close> at \<open>y * (linebytes + 1)\<close> and the chosen attempt after it.
\<close>

definition adaptive_row ::
  "(nat \<Rightarrow> byte list \<Rightarrow> 'a::linorder) \<Rightarrow> byte list \<Rightarrow> nat \<Rightarrow> nat \<Rightarrow>
   nat \<Rightarrow> byte list \<times> byte list option \<times> byte list list \<times> nat \<times> 'a \<Rightarrow>
   byte list \<times> byte list option \<times> byte list list \<times> nat \<times> 'a" where
  "adaptive_row score inp linebytes bytewidth y st =
     (case st of (out, prevline, attempt, bestType, smallest) \<Rightarrow>
        (case fold (try_filter score (drop (y * linebytes) inp) prevline linebytes bytewidth) [0..<5]
                (attempt, bestType, smallest) of
           (attempt', bestType', smallest') \<Rightarrow>
             (fold (\<lambda>x ob. ob[y * (linebytes + 1) + 1 + x := attempt' ! bestType' ! x]) [0..<linebytes]
                (out[y * (linebytes + 1) := word_of_nat bestType']),
              Some (drop (y * linebytes) inp), attempt', bestType', smallest')))"

text \<open>The row loop of \<open>LFS_MINSUM\<close> and \<open>LFS_ENTROPY\<close>, with the five \<open>malloc\<close>ed attempt buffers and \<open>smallest = 0\<close>, \<open>bestType = 0\<close>.\<close>

definition adaptive_rows ::
  "(nat \<Rightarrow> byte list \<Rightarrow> 'a::{linorder, zero}) \<Rightarrow> byte list \<Rightarrow> nat \<Rightarrow> nat \<Rightarrow> nat \<Rightarrow> byte list \<Rightarrow> byte list" where
  "adaptive_rows score inp linebytes bytewidth h out =
     fst (fold (adaptive_row score inp linebytes bytewidth) [0..<h]
            (out, None, replicate 5 (replicate linebytes 0), 0, 0))"

text \<open>
  \<open>LFS_PREDEFINED\<close>: the type of row \<open>y\<close> is \<open>predefined_filters[y]\<close>; a NULL
  pointer or a list shorter than the image is undefined behaviour.
\<close>

fun predefined_rows ::
  "byte list option \<Rightarrow> nat \<Rightarrow> nat \<Rightarrow> byte list \<Rightarrow> byte list option \<Rightarrow> nat list \<Rightarrow> byte list \<Rightarrow> byte list option" where
  "predefined_rows pf linebytes bytewidth inp prevline [] out = Some out"
| "predefined_rows pf linebytes bytewidth inp prevline (y # ys) out =
     (case pf of
        None \<Rightarrow> None
      | Some types \<Rightarrow>
          if length types \<le> y then None
          else predefined_rows pf linebytes bytewidth inp (Some (drop (linebytes * y) inp)) ys
                 (at_offset ((1 + linebytes) * y + 1)
                    (\<lambda>ob. filterScanline ob (drop (linebytes * y) inp) prevline linebytes bytewidth (unat (types ! y)))
                    (out[(1 + linebytes) * y := types ! y])))"

text \<open>
  The strategy \<open>filter\<close> applies: \<open>LFS_ZERO\<close> for palette and low-depth images
  when \<open>filter_palette_zero\<close> is set, the settings' value otherwise.
\<close>

definition effective_strategy :: "color_mode \<Rightarrow> LodePNGEncoderSettings \<Rightarrow> nat" where
  "effective_strategy info settings =
     (if filter_palette_zero settings \<and> (colortype info = LCT_PALETTE \<or> bitdepth info < 8)
      then lfs_code LFS_ZERO else filter_strategy settings)"

text \<open>
  \<open>filter(out, in, w, h, info, settings)\<close> of \<^verbatim>\<open>png_.c\<close>: palette and
  low-depth images are forced to \<open>LFS_ZERO\<close> when \<open>filter_palette_zero\<close> is set;
  error 31 for a zero bit depth; \<open>LFS_BRUTE_FORCE\<close> does nothing; any other
  value of the strategy is error 88.
\<close>

definition filter_png ::
  "(nat list \<Rightarrow> 'a::{linorder, zero}) \<Rightarrow> byte list \<Rightarrow> byte list \<Rightarrow> u32 \<Rightarrow> u32 \<Rightarrow> color_mode \<Rightarrow>
   LodePNGEncoderSettings \<Rightarrow> (nat \<times> byte list) option" where
  "filter_png entropy out inp w h info settings =
     (let bpp = lodepng_get_bpp info;
          linebytes = line_bytes w bpp;
          bytewidth = (bpp + 7) div 8;
          strategy = effective_strategy info settings
      in if bpp = 0 then Some (31, out)
         else if strategy = lfs_code LFS_ZERO then
           Some (0, zero_rows linebytes bytewidth inp None [0..<unat h] out)
         else if strategy = lfs_code LFS_MINSUM then
           Some (0, adaptive_rows (minsum_sum linebytes) inp linebytes bytewidth (unat h) out)
         else if strategy = lfs_code LFS_ENTROPY then
           Some (0, adaptive_rows (\<lambda>type att. entropy (entropy_count linebytes type att)) inp linebytes bytewidth (unat h) out)
         else if strategy = lfs_code LFS_PREDEFINED then
           map_option (Pair 0) (predefined_rows (predefined_filters settings) linebytes bytewidth inp None [0..<unat h] out)
         else if strategy = lfs_code LFS_BRUTE_FORCE then Some (0, out)
         else Some (88, out))"

text \<open>\<open>*outsize = h + (h * ((w * bpp + 7) / 8))\<close>, computed in \<open>unsigned\<close>.\<close>

definition pp_outsize :: "u32 \<Rightarrow> u32 \<Rightarrow> nat \<Rightarrow> nat" where
  "pp_outsize w h bpp = unat (h + h * ((w * word_of_nat bpp + 7) div 8))"

text \<open>
  \<open>preProcessScanlines\<close> of \<^verbatim>\<open>png_.c\<close>: the output buffer of
  \<open>pp_outsize\<close> bytes (its \<open>malloc\<close>ed contents are modelled as zeros); when the
  scanlines are not a whole number of bytes they are padded into a buffer of
  \<open>h * linebytes\<close> bytes first. Returns the error, the size and the buffer.
\<close>

definition preProcessScanlines_png ::
  "(nat list \<Rightarrow> 'a::{linorder, zero}) \<Rightarrow> byte list \<Rightarrow> u32 \<Rightarrow> u32 \<Rightarrow> color_mode \<Rightarrow> LodePNGEncoderSettings \<Rightarrow>
   (nat \<times> nat \<times> byte list) option" where
  "preProcessScanlines_png entropy inp w h mode settings =
     (let bpp = lodepng_get_bpp mode;
          outsize = pp_outsize w h bpp;
          out = replicate outsize 0
      in if bpp < 8 \<and> w * word_of_nat bpp \<noteq> ((w * word_of_nat bpp + 7) div 8) * 8 then
           (let padded = addPaddingBits (replicate (unat (h * ((w * word_of_nat bpp + 7) div 8))) 0) inp
                           (line_bytes w bpp * 8) (unat (w * word_of_nat bpp)) (unat h)
            in map_option (\<lambda>(e, o'). (e, outsize, o')) (filter_png entropy out padded w h mode settings))
         else map_option (\<lambda>(e, o'). (e, outsize, o')) (filter_png entropy out inp w h mode settings))"

end
