(* ===== verification/EncoderProps.thy ===== *)
theory EncoderProps
  imports EncoderPng FilterProps
begin

text \<open>
  Properties of the encoder of \<^verbatim>\<open>png_.c\<close>: the reconstruction of filtered
  images (\<open>unfilter_rows\<close>, the decoder's side of PNG filter method 0), the
  choice of the adaptive strategies, the Adam7 pass sizes, the size computed by
  \<open>preProcessScanlines\<close> and the error paths of \<open>filter\<close>.
\<close>

text \<open>
  The PNG reconstruction of \<open>h\<close> rows laid out as \<open>filter\<close> writes them: row
  \<open>y\<close> starts at \<open>(1 + linebytes) * y\<close> with its filter type, and its
  predecessor is the previous reconstructed row. \<open>row_filtered\<close> says that row
  \<open>y\<close> of a filtered buffer holds a type up to 4 and the scanline filtered with it.
\<close>

fun unfilter_rows :: "nat \<Rightarrow> nat \<Rightarrow> byte list \<Rightarrow> byte list option \<Rightarrow> nat list \<Rightarrow> byte list" where
  "unfilter_rows lb bw f prev [] = []"
| "unfilter_rows lb bw f prev (y # ys) =
     (case recon_line (unat (f ! ((1 + lb) * y))) prev bw (drop ((1 + lb) * y + 1) f) lb of
        row \<Rightarrow> row @ unfilter_rows lb bw f (Some row) ys)"

definition prev_row :: "nat \<Rightarrow> byte list \<Rightarrow> nat \<Rightarrow> byte list option" where
  "prev_row lb inp y = (if y = 0 then None else Some (drop (lb * (y - 1)) inp))"

definition row_filtered :: "nat \<Rightarrow> nat \<Rightarrow> byte list \<Rightarrow> byte list \<Rightarrow> nat \<Rightarrow> bool" where
  "row_filtered lb bw inp out y =
     (unat (out ! ((1 + lb) * y)) \<le> 4 \<and>
      (\<forall>i<lb. out ! ((1 + lb) * y + 1 + i) =
         drop (lb * y) inp ! i - filter_pred (unat (out ! ((1 + lb) * y))) (prev_row lb inp y) bw (take i (drop (lb * y) inp)) i))"

lemma length_filterScanline [simp]: "length (filterScanline out sc prevline len bw ft) = length out"
  by (simp add: filterScanline_def split: option.split)

lemma recon_line_spec:
  assumes "\<forall>i<n. f ! i = sc ! i - filter_pred ft prevline bw (take i sc) i" "n \<le> length sc"
  shows "recon_line ft prevline bw f n = take n sc"
  using assms
proof (induction n)
  case 0
  then show ?case by simp
next
  case (Suc n)
  then show ?case by (simp add: take_Suc_conv_app_nth)
qed

lemma filter_pred_take_prev:
  "i < lb \<Longrightarrow> filter_pred ft (Some (take lb pl)) bw r i = filter_pred ft (Some pl) bw r i"
proof -
  assume "i < lb"
  then have e: "take lb pl ! (i - bw) = pl ! (i - bw)" "take lb pl ! i = pl ! i" by simp_all
  show ?thesis unfolding filter_pred_def Let_def option.case e ..
qed

lemma row_filtered_frame:
  assumes "\<forall>p<(1 + lb) * Suc y. out' ! p = out ! p"
  shows "row_filtered lb bw inp out' y = row_filtered lb bw inp out y"
proof -
  have h: "out' ! ((1 + lb) * y) = out ! ((1 + lb) * y)" using assms by simp
  have b: "\<forall>i<lb. out' ! ((1 + lb) * y + 1 + i) = out ! ((1 + lb) * y + 1 + i)" using assms by simp
  show ?thesis unfolding row_filtered_def h using b by simp
qed

lemma unfilter_rows_from:
  assumes rf: "\<forall>y<h. row_filtered lb bw inp out y" and li: "h * lb \<le> length inp"
    and lo: "h * (1 + lb) \<le> length out"
  shows "k \<le> h \<Longrightarrow> unfilter_rows lb bw out (map_option (take lb) (prev_row lb inp k)) [k..<h] =
     take ((h - k) * lb) (drop (k * lb) inp)"
proof (induction "h - k" arbitrary: k)
  case 0
  then show ?case by simp
next
  case (Suc d)
  then have kh: "k < h" by simp
  define sc where "sc = drop (lb * k) inp"
  define t where "t = unat (out ! ((1 + lb) * k))"
  have lsc: "lb \<le> length sc"
  proof -
    have "Suc k * lb \<le> h * lb" using kh by (intro mult_le_mono1) simp
    then have "lb * Suc k \<le> h * lb" by (simp add: mult.commute)
    then show ?thesis using li unfolding sc_def by simp
  qed
  have r: "recon_line t (map_option (take lb) (prev_row lb inp k)) bw (drop ((1 + lb) * k + 1) out) lb = take lb sc"
  proof (rule recon_line_spec [OF _ lsc], intro allI impI)
    fix i assume i: "i < lb"
    have "out ! ((1 + lb) * k + 1 + i) = sc ! i - filter_pred t (prev_row lb inp k) bw (take i sc) i"
      using rf kh i unfolding row_filtered_def sc_def t_def by blast
    moreover have "filter_pred t (map_option (take lb) (prev_row lb inp k)) bw (take i sc) i =
        filter_pred t (prev_row lb inp k) bw (take i sc) i"
      using i by (cases "prev_row lb inp k") (simp_all add: filter_pred_take_prev)
    moreover have "(1 + lb) * k + 1 + i < length out"
    proof -
      have "Suc k * (1 + lb) \<le> h * (1 + lb)" using kh by (intro mult_le_mono1) simp
      then show ?thesis using lo i by (simp add: algebra_simps)
    qed
    ultimately show "drop ((1 + lb) * k + 1) out ! i = sc ! i - filter_pred t (map_option (take lb) (prev_row lb inp k)) bw (take i sc) i"
      unfolding t_def by simp
  qed
  have ls: "unfilter_rows lb bw out (map_option (take lb) (prev_row lb inp k)) [k..<h] =
      take lb sc @ unfilter_rows lb bw out (map_option (take lb) (prev_row lb inp (Suc k))) [Suc k..<h]"
    using kh r unfolding t_def by (simp add: upt_conv_Cons prev_row_def sc_def)
  have ih: "unfilter_rows lb bw out (map_option (take lb) (prev_row lb inp (Suc k))) [Suc k..<h] =
      take ((h - Suc k) * lb) (drop (Suc k * lb) inp)"
    using Suc.hyps(1) [of "Suc k"] Suc.hyps(2) kh by simp
  have "take lb sc @ take ((h - Suc k) * lb) (drop (Suc k * lb) inp) = take ((h - k) * lb) (drop (k * lb) inp)"
  proof -
    have "h - k = Suc (h - Suc k)" using kh by simp
    then have "(h - k) * lb = lb + (h - Suc k) * lb" by simp
    then show ?thesis unfolding sc_def by (simp add: take_add mult.commute add.commute)
  qed
  then show ?case using ls ih by simp
qed

lemma rows_filtered_fold:
  assumes step: "\<And>k st. k < h \<Longrightarrow> I k st \<Longrightarrow> I (Suc k) (S k st) \<and>
      (\<forall>p<(1 + lb) * k. outp (S k st) ! p = outp st ! p) \<and> row_filtered lb bw inp (outp (S k st)) k"
    and init: "I 0 start"
  shows "n \<le> h \<Longrightarrow> I n (fold S [0..<n] start) \<and> (\<forall>y<n. row_filtered lb bw inp (outp (fold S [0..<n] start)) y)"
proof (induction n)
  case 0
  then show ?case using init by simp
next
  case (Suc n)
  define st where "st = fold S [0..<n] start"
  have ih: "I n st" "\<forall>y<n. row_filtered lb bw inp (outp st) y" using Suc unfolding st_def by simp_all
  have sn: "I (Suc n) (S n st)" "\<forall>p<(1 + lb) * n. outp (S n st) ! p = outp st ! p"
      "row_filtered lb bw inp (outp (S n st)) n"
    using step [of n st] Suc.prems ih by simp_all
  have "row_filtered lb bw inp (outp (S n st)) y" if "y < n" for y
  proof -
    have "(1 + lb) * Suc y \<le> (1 + lb) * n" using that by (intro mult_le_mono2) simp
    then have "\<forall>p<(1 + lb) * Suc y. outp (S n st) ! p = outp st ! p" using sn(2) by simp
    then show ?thesis using row_filtered_frame ih(2) that by blast
  qed
  then show ?case using sn unfolding st_def by (simp add: less_Suc_eq)
qed

lemma at_offset_length [simp]:
  "(\<And>ys. length (f ys) = length ys) \<Longrightarrow> k \<le> length xs \<Longrightarrow> length (at_offset k f xs) = length xs"
  by (simp add: at_offset_def)

lemma at_offset_nth_before: "p < k \<Longrightarrow> k \<le> length xs \<Longrightarrow> at_offset k f xs ! p = xs ! p"
  by (simp add: at_offset_def nth_append)

lemma at_offset_nth_at: "k \<le> length xs \<Longrightarrow> at_offset k f xs ! (k + i) = f (drop k xs) ! i"
  by (simp add: at_offset_def nth_append)

lemma length_fold_update_offset [simp]: "length (fold (\<lambda>x ob. ob[c + x := g x]) [0..<n] xs) = length xs"
  by (induction n) simp_all

lemma fold_update_offset_nth:
  "p < length xs \<Longrightarrow>
   fold (\<lambda>x ob. ob[c + x := g x]) [0..<n] xs ! p = (if c \<le> p \<and> p < c + n then g (p - c) else xs ! p)"
  by (induction n) (auto simp: nth_list_update less_Suc_eq)

lemma row_filtered_intro:
  assumes "t \<le> 4" "out ! ((1 + lb) * k) = word_of_nat t"
    and "\<forall>i<lb. out ! ((1 + lb) * k + 1 + i) =
      drop (lb * k) inp ! i - filter_pred t (prev_row lb inp k) bw (take i (drop (lb * k) inp)) i"
  shows "row_filtered lb bw inp out k"
proof -
  have "unat (word_of_nat t :: byte) = t" using assms(1) by (simp add: unat_of_nat)
  then show ?thesis using assms unfolding row_filtered_def by simp
qed

lemma zero_rows_fold:
  "zero_rows lb bw inp prev ys out =
   fst (fold (\<lambda>y (ob, pl). (at_offset ((1 + lb) * y + 1)
          (\<lambda>ob'. filterScanline ob' (drop (lb * y) inp) pl lb bw 0) (ob[(1 + lb) * y := 0]),
          Some (drop (lb * y) inp))) ys (out, prev))"
  by (induction ys arbitrary: prev out) simp_all

lemma zero_rows_filtered:
  assumes "0 < bw" "h * (1 + lb) \<le> length out"
  shows "length (zero_rows lb bw inp None [0..<h] out) = length out \<and>
    (\<forall>y<h. row_filtered lb bw inp (zero_rows lb bw inp None [0..<h] out) y)"
proof -
  define S where "S = (\<lambda>y (ob, pl). (at_offset ((1 + lb) * y + 1)
          (\<lambda>ob'. filterScanline ob' (drop (lb * y) inp) pl lb bw 0) (ob[(1 + lb) * y := (0 :: byte)]),
          Some (drop (lb * y) inp)))"
  define I where "I = (\<lambda>k (ob :: byte list, pl). pl = prev_row lb inp k \<and> length ob = length out)"
  have step: "I (Suc k) (S k st) \<and> (\<forall>p<(1 + lb) * k. fst (S k st) ! p = fst st ! p) \<and>
      row_filtered lb bw inp (fst (S k st)) k" if k: "k < h" and i: "I k st" for k st
  proof -
    obtain ob pl where st: "st = (ob, pl)" by (cases st)
    have pl: "pl = prev_row lb inp k" and lo: "length ob = length out" using i unfolding I_def st by simp_all
    have kl: "(1 + lb) * Suc k \<le> length ob"
    proof -
      have "Suc k * (1 + lb) \<le> h * (1 + lb)" using k by (intro mult_le_mono1) simp
      then show ?thesis using assms(2) lo by (simp add: mult.commute)
    qed
    define ob1 where "ob1 = ob[(1 + lb) * k := (0 :: byte)]"
    define F where "F = (\<lambda>ob'. filterScanline ob' (drop (lb * k) inp) pl lb bw 0)"
    have l1: "length ob1 = length ob" by (simp add: ob1_def)
    have off: "(1 + lb) * k + 1 \<le> length ob1" using kl l1 by simp
    have res: "S k (ob, pl) = (at_offset ((1 + lb) * k + 1) F ob1, Some (drop (lb * k) inp))"
      unfolding S_def ob1_def F_def by simp
    have len: "length (at_offset ((1 + lb) * k + 1) F ob1) = length ob"
      using off l1 by (simp add: F_def)
    have hd: "at_offset ((1 + lb) * k + 1) F ob1 ! ((1 + lb) * k) = 0"
      using at_offset_nth_before [OF _ off, of "(1 + lb) * k" F] kl by (simp add: ob1_def)
    have body: "at_offset ((1 + lb) * k + 1) F ob1 ! ((1 + lb) * k + 1 + i) =
        drop (lb * k) inp ! i - filter_pred 0 (prev_row lb inp k) bw (take i (drop (lb * k) inp)) i"
      if "i < lb" for i
    proof -
      have "lb \<le> length (drop ((1 + lb) * k + 1) ob1)" using kl l1 by (simp add: algebra_simps)
      then show ?thesis
        using at_offset_nth_at [OF off, of F i] filterScanline_nth [OF that _ assms(1), of _ 0] that
        unfolding F_def pl by simp
    qed
    have fr: "\<forall>p<(1 + lb) * k. at_offset ((1 + lb) * k + 1) F ob1 ! p = ob ! p"
      using at_offset_nth_before [OF _ off] by (simp add: ob1_def)
    have rf: "row_filtered lb bw inp (at_offset ((1 + lb) * k + 1) F ob1) k"
      by (rule row_filtered_intro [where t = 0]) (use hd body in simp_all)
    show ?thesis
      unfolding st res fst_conv using len fr rf lo by (simp add: I_def prev_row_def)
  qed
  have "I h (fold S [0..<h] (out, None)) \<and> (\<forall>y<h. row_filtered lb bw inp (fst (fold S [0..<h] (out, None))) y)"
    using rows_filtered_fold [where I = I and S = S and outp = fst and start = "(out, None)" and h = h and n = h, OF step]
    by (simp add: I_def prev_row_def)
  then show ?thesis unfolding zero_rows_fold S_def I_def by (simp add: case_prod_beta)
qed
lemma try_filter_fold_inv:
  assumes "k \<le> length attempt" "0 < k"
    and "fold (try_filter score sc pl lb bw) [0..<k] (attempt, b0, s0) = (attempt', best, smallest)"
  shows "best < k \<and> smallest = score best (attempt' ! best) \<and>
    (\<forall>t<k. smallest \<le> score t (attempt' ! t)) \<and> (\<forall>t<best. smallest < score t (attempt' ! t)) \<and>
    (\<forall>t<k. attempt' ! t = filterScanline (attempt ! t) sc pl lb bw t) \<and> length attempt' = length attempt \<and>
    (\<forall>t. k \<le> t \<longrightarrow> attempt' ! t = attempt ! t)"
  using assms
proof (induction k arbitrary: attempt' best smallest)
  case 0
  then show ?case by simp
next
  case (Suc k)
  show ?case
  proof (cases k)
    case 0
    then show ?thesis using Suc.prems by (auto simp: try_filter_def Suc_le_eq)
  next
    case (Suc k')
    obtain a1 b1 s1 where f: "fold (try_filter score sc pl lb bw) [0..<k] (attempt, b0, s0) = (a1, b1, s1)"
      by (metis prod_cases3)
    have kl: "k \<le> length attempt" "0 < k" using Suc.prems \<open>k = Suc k'\<close> by simp_all
    have ih: "b1 < k \<and> s1 = score b1 (a1 ! b1) \<and> (\<forall>t<k. s1 \<le> score t (a1 ! t)) \<and>
        (\<forall>t<b1. s1 < score t (a1 ! t)) \<and> (\<forall>t<k. a1 ! t = filterScanline (attempt ! t) sc pl lb bw t) \<and>
        length a1 = length attempt \<and> (\<forall>t. k \<le> t \<longrightarrow> a1 ! t = attempt ! t)"
      by (rule Suc.IH [OF kl f])
    have st: "try_filter score sc pl lb bw k (a1, b1, s1) = (attempt', best, smallest)"
      using Suc.prems(3) f by simp
    define att where "att = filterScanline (a1 ! k) sc pl lb bw k"
    have a1k: "a1 ! k = attempt ! k" using ih Suc.prems(1) by simp
    have eq: "attempt' = a1[k := att]"
      "best = (if score k att < s1 then k else b1)" "smallest = (if score k att < s1 then score k att else s1)"
      using st \<open>k = Suc k'\<close> by (auto simp: try_filter_def att_def)
    have lk: "k < length a1" using ih Suc.prems(1) by simp
    show ?thesis
      using ih lk unfolding eq
      by (auto simp: att_def a1k nth_list_update less_Suc_eq not_less intro: order.strict_trans2 order.trans)
  qed
qed

lemma adaptive_rows_filtered:
  assumes "0 < bw" "h * (1 + lb) \<le> length out"
  shows "length (adaptive_rows score inp lb bw h out) = length out \<and>
    (\<forall>y<h. row_filtered lb bw inp (adaptive_rows score inp lb bw h out) y)"
proof -
  define S where "S = adaptive_row score inp lb bw"
  define I where "I = (\<lambda>k (ob :: byte list, pl, att :: byte list list, b :: nat, s :: 'a).
      pl = prev_row lb inp k \<and> length att = 5 \<and> (\<forall>t<5. length (att ! t) = lb) \<and> length ob = length out)"
  have step: "I (Suc k) (S k st) \<and> (\<forall>p<(1 + lb) * k. fst (S k st) ! p = fst st ! p) \<and>
      row_filtered lb bw inp (fst (S k st)) k" if k: "k < h" and i: "I k st" for k st
  proof -
    obtain ob pl att b sm where st: "st = (ob, pl, att, b, sm)" by (cases st) auto
    have pl: "pl = prev_row lb inp k" and la: "length att = 5" and lt: "\<forall>t<5. length (att ! t) = lb"
      and lo: "length ob = length out" using i unfolding I_def st by simp_all
    define sc where "sc = drop (lb * k) inp"
    obtain att' b' sm' where f: "fold (try_filter score sc pl lb bw) [0..<5] (att, b, sm) = (att', b', sm')"
      by (metis prod_cases3)
    have inv: "b' < 5" "\<forall>t<5. att' ! t = filterScanline (att ! t) sc pl lb bw t" "length att' = 5"
      using try_filter_fold_inv [OF _ _ f] la by simp_all
    have lt': "\<forall>t<5. length (att' ! t) = lb" using inv(2) lt by simp
    have kl: "(1 + lb) * Suc k \<le> length ob"
    proof -
      have "Suc k * (1 + lb) \<le> h * (1 + lb)" using k by (intro mult_le_mono1) simp
      then show ?thesis using assms(2) lo by (simp add: mult.commute)
    qed
    define ob1 where "ob1 = ob[(1 + lb) * k := (word_of_nat b' :: byte)]"
    define ob2 where "ob2 = fold (\<lambda>x obx. obx[(1 + lb) * k + 1 + x := att' ! b' ! x]) [0..<lb] ob1"
    have res: "S k (ob, pl, att, b, sm) = (ob2, Some sc, att', b', sm')"
      using f unfolding S_def adaptive_row_def ob2_def ob1_def sc_def
      by (simp add: mult.commute add.commute)
    have l2: "length ob2 = length ob" by (simp add: ob2_def ob1_def)
    have nth2: "ob2 ! p = (if (1 + lb) * k + 1 \<le> p \<and> p < (1 + lb) * k + 1 + lb then att' ! b' ! (p - ((1 + lb) * k + 1)) else ob1 ! p)"
      if "p < length ob" for p
      using fold_update_offset_nth [of p ob1 "(1 + lb) * k + 1" "\<lambda>x. att' ! b' ! x" lb] that
      by (simp add: ob2_def ob1_def)
    have hd: "ob2 ! ((1 + lb) * k) = word_of_nat b'" using nth2 [of "(1 + lb) * k"] kl by (simp add: ob1_def)
    have body: "\<forall>i<lb. ob2 ! ((1 + lb) * k + 1 + i) = sc ! i - filter_pred b' (prev_row lb inp k) bw (take i sc) i"
    proof (intro allI impI)
      fix i assume i: "i < lb"
      have "(1 + lb) * k + 1 + i < length ob" using kl i by (simp add: algebra_simps)
      then have "ob2 ! ((1 + lb) * k + 1 + i) = att' ! b' ! i" using nth2 i by simp
      also have "\<dots> = sc ! i - filter_pred b' pl bw (take i sc) i"
        using inv(1,2) lt filterScanline_nth [OF i _ assms(1), of "att ! b'" b' sc pl] by simp
      finally show "ob2 ! ((1 + lb) * k + 1 + i) = sc ! i - filter_pred b' (prev_row lb inp k) bw (take i sc) i"
        using pl by simp
    qed
    have fr: "\<forall>p<(1 + lb) * k. ob2 ! p = ob ! p" using nth2 kl by (simp add: ob1_def)
    have rf: "row_filtered lb bw inp ob2 k"
      by (rule row_filtered_intro [where t = b']) (use inv(1) hd body in \<open>simp_all add: sc_def\<close>)
    show ?thesis
      unfolding st res fst_conv using l2 fr rf lo inv(3) lt' by (simp add: I_def prev_row_def sc_def)
  qed
  have "I h (fold S [0..<h] (out, None, replicate 5 (replicate lb 0), 0, 0)) \<and>
      (\<forall>y<h. row_filtered lb bw inp (fst (fold S [0..<h] (out, None, replicate 5 (replicate lb 0), 0, 0))) y)"
    using rows_filtered_fold [where I = I and S = S and outp = fst and start = "(out, None, replicate 5 (replicate lb 0), 0, 0)"
        and h = h and n = h, OF step]
    by (simp add: I_def prev_row_def)
  then show ?thesis unfolding adaptive_rows_def S_def I_def by (simp add: case_prod_beta)
qed

lemma adam7_pass_product:
  "unat (fst (adam7_pass w h i)) * unat (snd (adam7_pass w h i)) =
   unat ((w + ADAM7_DX ! i - ADAM7_IX ! i - 1) div ADAM7_DX ! i) * unat ((h + ADAM7_DY ! i - ADAM7_IY ! i - 1) div ADAM7_DY ! i)"
  by (simp add: adam7_pass_def Let_def)

lemma unat_pass_size:
  fixes x a b d :: u32
  assumes "unat x < 2 ^ 31" "unat b < unat a" "unat a \<le> 8"
  shows "unat ((x + a - b - 1) div d) = (unat x + unat a - unat b - 1) div unat d"
proof -
  have "unat (x + a) = unat x + unat a" using assms by (simp add: unat_word_ariths)
  moreover have "b \<le> x + a" "1 \<le> x + a - b"
    using assms \<open>unat (x + a) = unat x + unat a\<close> by (simp_all add: word_le_nat_alt unat_sub_if')
  ultimately show ?thesis using assms by (simp add: unat_div unat_sub word_le_nat_alt)
qed

lemma div_identity_8: "(7 + a) div 8 + (3 + a) div 8 = (3 + a) div (4 :: nat)"
proof -
  have a: "a = 8 * (a div 8) + a mod 8" by simp
  have "a mod 8 < 8" by simp
  then have "a mod 8 = 0 \<or> a mod 8 = 1 \<or> a mod 8 = 2 \<or> a mod 8 = 3 \<or> a mod 8 = 4 \<or> a mod 8 = 5 \<or> a mod 8 = 6 \<or> a mod 8 = 7"
    by arith
  then show ?thesis by (subst (1 2 3) a) (elim disjE; simp)
qed
lemma div_identity_4: "(3 + a) div 4 + Suc a div 4 = Suc a div (2 :: nat)"
proof -
  have a: "a = 4 * (a div 4) + a mod 4" by simp
  have "a mod 4 < 4" by simp
  then have "a mod 4 = 0 \<or> a mod 4 = 1 \<or> a mod 4 = 2 \<or> a mod 4 = 3" by arith
  then show ?thesis by (subst (1 2 3) a) (elim disjE; simp)
qed
lemma div_identity_2: "Suc a div 2 + a div 2 = (a :: nat)"
  by arith

lemma less7_cases: "i < (7 :: nat) \<Longrightarrow> i = 0 \<or> i = 1 \<or> i = 2 \<or> i = 3 \<or> i = 4 \<or> i = 5 \<or> i = 6"
  by arith

lemma lessThan_7: "{..<7 :: nat} = {0, 1, 2, 3, 4, 5, 6}"
  using less7_cases by auto

text \<open>
  C29. When width and height are below \<open>2^31\<close>, the seven Adam7 passes computed
  by \<open>Adam7_getpassvalues\<close> partition the image: their pixel counts add up to
  \<open>w * h\<close>.
\<close>

theorem adam7_passes_partition:
  assumes "unat w < 2 ^ 31" "unat h < 2 ^ 31"
  shows "(\<Sum>i<7. unat (fst (adam7_pass w h i)) * unat (snd (adam7_pass w h i))) = unat w * unat h"
proof -
  define W where "W = unat w"
  define H where "H = unat h"
  have p: "unat (fst (adam7_pass w h i)) * unat (snd (adam7_pass w h i)) =
      ((W + unat (ADAM7_DX ! i) - unat (ADAM7_IX ! i) - 1) div unat (ADAM7_DX ! i)) *
      ((H + unat (ADAM7_DY ! i) - unat (ADAM7_IY ! i) - 1) div unat (ADAM7_DY ! i))" if "i < 7" for i
  proof -
    have "unat (ADAM7_IX ! i) < unat (ADAM7_DX ! i) \<and> unat (ADAM7_DX ! i) \<le> 8 \<and>
          unat (ADAM7_IY ! i) < unat (ADAM7_DY ! i) \<and> unat (ADAM7_DY ! i) \<le> 8"
      using less7_cases [OF that]
      by (elim disjE) (simp_all add: ADAM7_IX_def ADAM7_DX_def ADAM7_IY_def ADAM7_DY_def)
    then show ?thesis
      unfolding adam7_pass_product W_def H_def using assms by (simp add: unat_pass_size)
  qed
  define A0 where "A0 = (7 + W) div 8"
  define A1 where "A1 = (3 + W) div 8"
  define A2 where "A2 = (3 + W) div 4"
  define A3 where "A3 = Suc W div 4"
  define A4 where "A4 = Suc W div 2"
  define A5 where "A5 = W div 2"
  define B0 where "B0 = (7 + H) div 8"
  define B1 where "B1 = (3 + H) div 8"
  define B2 where "B2 = (3 + H) div 4"
  define B3 where "B3 = Suc H div 4"
  define B4 where "B4 = Suc H div 2"
  define B5 where "B5 = H div 2"
  have e: "A0 + A1 = A2" "A2 + A3 = A4" "A4 + A5 = W" "B0 + B1 = B2" "B2 + B3 = B4" "B4 + B5 = H"
    unfolding A0_def A1_def A2_def A3_def A4_def A5_def B0_def B1_def B2_def B3_def B4_def B5_def
    by (simp_all only: div_identity_8 div_identity_4 div_identity_2)
  have "(\<Sum>i<7. unat (fst (adam7_pass w h i)) * unat (snd (adam7_pass w h i))) =
      A0 * B0 + (A1 * B0 + (A2 * B1 + (A3 * B2 + (A4 * B3 + (A5 * B4 + W * B5)))))"
    unfolding lessThan_7 A0_def A1_def A2_def A3_def A4_def A5_def B0_def B1_def B2_def B3_def B4_def B5_def
    by (simp add: p ADAM7_IX_def ADAM7_DX_def ADAM7_IY_def ADAM7_DY_def)
  also have "\<dots> = A2 * B0 + (A2 * B1 + (A3 * B2 + (A4 * B3 + (A5 * B4 + W * B5))))"
    by (simp add: e(1) [symmetric] add_mult_distrib)
  also have "\<dots> = A2 * B2 + (A3 * B2 + (A4 * B3 + (A5 * B4 + W * B5)))"
    by (simp add: e(4) [symmetric] add_mult_distrib2)
  also have "\<dots> = A4 * B2 + (A4 * B3 + (A5 * B4 + W * B5))"
    by (simp add: e(2) [symmetric] add_mult_distrib)
  also have "\<dots> = A4 * B4 + (A5 * B4 + W * B5)"
    by (simp add: e(5) [symmetric] add_mult_distrib2)
  also have "\<dots> = W * B4 + W * B5"
    by (simp add: e(3) [symmetric] add_mult_distrib)
  also have "\<dots> = W * H"
    by (simp add: e(6) [symmetric] add_mult_distrib2)
  finally show ?thesis by (simp add: W_def H_def)
qed

lemma filter_png_rows_filtered:
  assumes f: "filter_png e out inp w h info settings = Some (0, out')"
    and s: "effective_strategy info settings \<le> lfs_code LFS_ENTROPY"
    and lo: "unat h * (1 + line_bytes w (lodepng_get_bpp info)) \<le> length out"
  shows "length out' = length out \<and>
    (\<forall>y<unat h. row_filtered (line_bytes w (lodepng_get_bpp info)) ((lodepng_get_bpp info + 7) div 8) inp out' y)"
proof -
  define lb where "lb = line_bytes w (lodepng_get_bpp info)"
  define bw where "bw = (lodepng_get_bpp info + 7) div 8"
  have b: "lodepng_get_bpp info \<noteq> 0"
  proof
    assume "lodepng_get_bpp info = 0"
    then show False using f by (simp add: filter_png_def Let_def)
  qed
  then have bw: "0 < bw" by (simp add: bw_def)
  have lo': "unat h * (1 + lb) \<le> length out" using lo by (simp add: lb_def)
  consider "effective_strategy info settings = 0" | "effective_strategy info settings = 1"
    | "effective_strategy info settings = 2" using s by fastforce
  then have "length out' = length out \<and> (\<forall>y<unat h. row_filtered lb bw inp out' y)"
  proof cases
    case 1
    then have "out' = zero_rows lb bw inp None [0..<unat h] out"
      using f b by (simp add: filter_png_def Let_def lb_def bw_def)
    then show ?thesis using zero_rows_filtered [OF bw lo'] by simp
  next
    case 2
    then have "out' = adaptive_rows (minsum_sum lb) inp lb bw (unat h) out"
      using f b by (simp add: filter_png_def Let_def lb_def bw_def)
    then show ?thesis using adaptive_rows_filtered [OF bw lo'] by simp
  next
    case 3
    then have "out' = adaptive_rows (\<lambda>type att. e (entropy_count lb type att)) inp lb bw (unat h) out"
      using f b by (simp add: filter_png_def Let_def lb_def bw_def)
    then show ?thesis using adaptive_rows_filtered [OF bw lo'] by simp
  qed
  then show ?thesis by (simp add: lb_def bw_def)
qed

text \<open>
  C26. Filtering is invertible: for the strategies \<open>LFS_ZERO\<close>, \<open>LFS_MINSUM\<close>
  and \<open>LFS_ENTROPY\<close> (whatever the entropy estimate), when \<open>filter\<close> of
  \<^verbatim>\<open>png_.c\<close> succeeds, the PNG reconstruction of its output, row by row
  with each row's filter-type byte and the previous reconstructed row, gives back
  the \<open>h\<close> scanlines of the input.
\<close>

theorem filter_png_roundtrip:
  assumes "filter_png e out inp w h info settings = Some (0, out')"
    and "effective_strategy info settings \<le> lfs_code LFS_ENTROPY"
    and "unat h * (1 + line_bytes w (lodepng_get_bpp info)) \<le> length out"
    and "unat h * line_bytes w (lodepng_get_bpp info) \<le> length inp"
  shows "unfilter_rows (line_bytes w (lodepng_get_bpp info)) ((lodepng_get_bpp info + 7) div 8) out' None [0..<unat h] =
    take (unat h * line_bytes w (lodepng_get_bpp info)) inp"
proof -
  define lb where "lb = line_bytes w (lodepng_get_bpp info)"
  define bw where "bw = (lodepng_get_bpp info + 7) div 8"
  have rf: "length out' = length out \<and> (\<forall>y<unat h. row_filtered lb bw inp out' y)"
    using filter_png_rows_filtered [OF assms(1-3)] by (simp add: lb_def bw_def)
  have lo: "unat h * (1 + lb) \<le> length out" using assms(3) by (simp add: lb_def)
  have "unfilter_rows lb bw out' (map_option (take lb) (prev_row lb inp 0)) [0..<unat h] =
      take ((unat h - 0) * lb) (drop (0 * lb) inp)"
    using unfilter_rows_from [of "unat h" lb bw inp out' 0] rf assms(4) lo unfolding lb_def by simp
  then show ?thesis unfolding lb_def bw_def by (simp add: prev_row_def)
qed

text \<open>
  C27. The adaptive strategies choose for every row the first filter type of
  smallest score: after the five attempts of \<open>try_filter\<close>, \<open>bestType\<close> is
  below 5, its score is minimal among the five filtered rows, and every earlier
  type scores strictly more.
\<close>

theorem minsum_choice:
  assumes "fold (try_filter score sc pl lb bw) [0..<5] (attempt, b0, s0) = (attempt', best, smallest)"
    and "length attempt = 5"
  shows "best < 5 \<and> smallest = score best (filterScanline (attempt ! best) sc pl lb bw best) \<and>
    (\<forall>t<5. smallest \<le> score t (filterScanline (attempt ! t) sc pl lb bw t)) \<and>
    (\<forall>t<best. smallest < score t (filterScanline (attempt ! t) sc pl lb bw t))"
proof -
  have all: "best < 5 \<and> smallest = score best (attempt' ! best) \<and>
      (\<forall>t<5. smallest \<le> score t (attempt' ! t)) \<and> (\<forall>t<best. smallest < score t (attempt' ! t)) \<and>
      (\<forall>t<5. attempt' ! t = filterScanline (attempt ! t) sc pl lb bw t) \<and> length attempt' = length attempt \<and>
      (\<forall>t. 5 \<le> t \<longrightarrow> attempt' ! t = attempt ! t)"
    by (rule try_filter_fold_inv [OF _ _ assms(1)]) (simp_all add: assms(2))
  have b: "best < 5" using all by blast
  have m1: "smallest = score best (attempt' ! best)" using all by blast
  have m2: "\<forall>t<5. smallest \<le> score t (attempt' ! t)" using all by blast
  have m3: "\<forall>t<best. smallest < score t (attempt' ! t)" using all by blast
  have e: "\<forall>t<5. attempt' ! t = filterScanline (attempt ! t) sc pl lb bw t" using all by blast
  show ?thesis
  proof (intro conjI allI impI)
    show "best < 5" by (rule b)
    show "smallest = score best (filterScanline (attempt ! best) sc pl lb bw best)" using m1 e b by simp
  next
    fix t :: nat assume "t < 5"
    then show "smallest \<le> score t (filterScanline (attempt ! t) sc pl lb bw t)" using m2 e by simp
  next
    fix t :: nat assume "t < best"
    then show "smallest < score t (filterScanline (attempt ! t) sc pl lb bw t)" using m3 e b by simp
  qed
qed


lemma pp_outsize_wrap_example:
  "pp_outsize 65536 65536 32 = 65536 \<and> unat (65536 :: u32) * (1 + line_bytes 65536 32) = 17179934720"
  by (simp add: pp_outsize_def line_bytes_def)

text \<open>
  C30. The strategy of the settings is read as an integer: a value that is no
  enumerator of \<open>LodePNGFilterStrategy\<close> makes \<open>filter\<close> fail with error 88.
\<close>

theorem filter_png_unknown_strategy:
  assumes "lodepng_get_bpp info \<noteq> 0" "4 < effective_strategy info settings"
  shows "filter_png e out inp w h info settings = Some (88, out)"
  using assms by (simp add: filter_png_def Let_def)

text \<open>
  C31. \<open>lodepng_encoder_settings_init\<close> sets \<open>predefined_filters\<close> to NULL but
  leaves \<open>filter_strategy\<close> and \<open>filter_palette_zero\<close> as the memory held them:
  when that memory says \<open>LFS_PREDEFINED\<close>, filtering an image of at least one
  row dereferences the null pointer.
\<close>

theorem filter_png_settings_init_null:
  assumes "\<not> filter_palette_zero s" "filter_strategy s = lfs_code LFS_PREDEFINED"
    and "lodepng_get_bpp info \<noteq> 0" "0 < unat h"
  shows "filter_png e out inp w h info (lodepng_encoder_settings_init s) = None"
proof -
  have "[0..<unat h] = 0 # [1..<unat h]" using assms(4) by (simp add: upt_rec)
  then show ?thesis
    using assms by (simp add: filter_png_def effective_strategy_def lodepng_encoder_settings_init_def Let_def)
qed

theorem filter_png_roundtrip_witness:
  "filter_png (\<lambda>c. 0 :: nat) [0, 0, 0, 0] [0, 64] 2 2 (lodepng_color_mode_init\<lparr>colortype := LCT_GREY, bitdepth := 1\<rparr>)
     \<lparr>auto_convert = True, filter_palette_zero = True, filter_strategy = 1, predefined_filters = None, force_palette = False\<rparr>
     = Some (0, [0, 0, 0, 64]) \<and>
   effective_strategy (lodepng_color_mode_init\<lparr>colortype := LCT_GREY, bitdepth := 1\<rparr>)
     \<lparr>auto_convert = True, filter_palette_zero = True, filter_strategy = 1, predefined_filters = None, force_palette = False\<rparr>
     \<le> lfs_code LFS_ENTROPY \<and>
   unfilter_rows 1 1 [0, 0, 0, 64] None [0..<2] = [0, 64]"
proof -
  have f: "filter_png (\<lambda>c. 0 :: nat) [0, 0, 0, 0] [0, 64] 2 2 (lodepng_color_mode_init\<lparr>colortype := LCT_GREY, bitdepth := 1\<rparr>)
     \<lparr>auto_convert = True, filter_palette_zero = True, filter_strategy = 1, predefined_filters = None, force_palette = False\<rparr>
     = Some (0, [0, 0, 0, 64])" by code_simp
  have s: "effective_strategy (lodepng_color_mode_init\<lparr>colortype := LCT_GREY, bitdepth := 1\<rparr>)
     \<lparr>auto_convert = True, filter_palette_zero = True, filter_strategy = 1, predefined_filters = None, force_palette = False\<rparr>
     \<le> lfs_code LFS_ENTROPY" by (simp add: effective_strategy_def lodepng_color_mode_init_def)
  have "unfilter_rows (line_bytes 2 (lodepng_get_bpp (lodepng_color_mode_init\<lparr>colortype := LCT_GREY, bitdepth := 1\<rparr>)))
      ((lodepng_get_bpp (lodepng_color_mode_init\<lparr>colortype := LCT_GREY, bitdepth := 1\<rparr>) + 7) div 8) [0, 0, 0, 64] None [0..<unat (2 :: u32)] =
    take (unat (2 :: u32) * line_bytes 2 (lodepng_get_bpp (lodepng_color_mode_init\<lparr>colortype := LCT_GREY, bitdepth := 1\<rparr>))) [0, 64]"
    by (rule filter_png_roundtrip [OF f s]) (simp_all add: line_bytes_def lodepng_get_bpp_def lodepng_get_bpp_lct_def
        getNumColorChannels_def lodepng_color_mode_init_def)
  then show ?thesis using f s
    by (simp add: line_bytes_def lodepng_get_bpp_def lodepng_get_bpp_lct_def getNumColorChannels_def lodepng_color_mode_init_def)
qed

theorem minsum_choice_witness:
  "fold (try_filter (minsum_sum 1) [5] None 1 1) [0..<5] (replicate 5 [0], 0, 0) = (replicate 5 [5], 0, 5) \<and>
   length (replicate 5 [0 :: byte]) = 5 \<and>
   (0 :: nat) < 5 \<and> (5 :: nat) = minsum_sum 1 0 (filterScanline (replicate 5 [0] ! 0) [5] None 1 1 0)"
proof -
  have f: "fold (try_filter (minsum_sum 1) [5] None 1 1) [0..<5] (replicate 5 [0], 0, 0) = (replicate 5 [5], 0, 5)"
    by code_simp
  show ?thesis using f minsum_choice [OF f] by simp
qed

theorem adam7_passes_partition_witness:
  "unat (3 :: u32) < 2 ^ 31 \<and> unat (3 :: u32) < 2 ^ 31 \<and>
   (\<Sum>i<7. unat (fst (adam7_pass 3 3 i)) * unat (snd (adam7_pass 3 3 i))) = 9"
  using adam7_passes_partition [of 3 3] by simp

theorem filter_png_unknown_strategy_witness:
  "lodepng_get_bpp lodepng_color_mode_init \<noteq> 0 \<and>
   4 < effective_strategy lodepng_color_mode_init
     \<lparr>auto_convert = True, filter_palette_zero = False, filter_strategy = 7, predefined_filters = None, force_palette = False\<rparr> \<and>
   filter_png (\<lambda>c. 0 :: nat) [] [] 1 1 lodepng_color_mode_init
     \<lparr>auto_convert = True, filter_palette_zero = False, filter_strategy = 7, predefined_filters = None, force_palette = False\<rparr>
     = Some (88, [])"
proof -
  have a: "lodepng_get_bpp lodepng_color_mode_init \<noteq> 0"
    by (simp add: lodepng_get_bpp_def lodepng_get_bpp_lct_def getNumColorChannels_def lodepng_color_mode_init_def)
  have b: "4 < effective_strategy lodepng_color_mode_init
     \<lparr>auto_convert = True, filter_palette_zero = False, filter_strategy = 7, predefined_filters = None, force_palette = False\<rparr>"
    by (simp add: effective_strategy_def)
  show ?thesis using filter_png_unknown_strategy [OF a b, of "\<lambda>c. 0 :: nat" "[]" "[]" 1 1] a b by simp
qed

theorem filter_png_settings_init_null_witness:
  "\<not> filter_palette_zero
      \<lparr>auto_convert = False, filter_palette_zero = False, filter_strategy = 4, predefined_filters = None, force_palette = True\<rparr> \<and>
   filter_strategy
      \<lparr>auto_convert = False, filter_palette_zero = False, filter_strategy = 4, predefined_filters = None, force_palette = True\<rparr>
      = lfs_code LFS_PREDEFINED \<and>
   lodepng_get_bpp lodepng_color_mode_init \<noteq> 0 \<and> 0 < unat (1 :: u32) \<and>
   filter_png (\<lambda>c. 0 :: nat) [0, 0, 0, 0, 0] [1, 2, 3, 4] 1 1 lodepng_color_mode_init
     (lodepng_encoder_settings_init
       \<lparr>auto_convert = False, filter_palette_zero = False, filter_strategy = 4, predefined_filters = None, force_palette = True\<rparr>)
     = None"
proof -
  have a: "lodepng_get_bpp lodepng_color_mode_init \<noteq> 0"
    by (simp add: lodepng_get_bpp_def lodepng_get_bpp_lct_def getNumColorChannels_def lodepng_color_mode_init_def)
  show ?thesis
    using filter_png_settings_init_null [where s = "\<lparr>auto_convert = False, filter_palette_zero = False, filter_strategy = 4,
        predefined_filters = None, force_palette = True\<rparr>" and info = lodepng_color_mode_init and h = 1,
      of "\<lambda>c. 0 :: nat" "[0, 0, 0, 0, 0]" "[1, 2, 3, 4]" 1] a by simp
qed

end
