(* ===== verification/AutoPng.thy ===== *)
theory AutoPng
  imports Driver EncoderPng
begin

text \<open>
  The conversion driver of \<^verbatim>\<open>src/lpng1634/png_.c\<close>: \<open>auto_detect_png\<close>
  (lines 3217-3314), the statistics \<open>InitExportInfo\<close>, \<open>autodisplayInfo\<close> and
  \<open>autoupdateInfo\<close> (3796-3990), \<open>autoCovertFile\<close> (4369-4386),
  \<open>autoWriteFile\<close> (4539-4731) and \<open>ConvertFolder\<close> (4733-4773). As in
  \<open>Driver\<close>, libpng is abstracted: \<open>png_file\<close> holds what \<open>png_read_png\<close>
  with \<open>PNG_TRANSFORM_EXPAND\<close> reports, and the record \<open>png_output\<close> what the
  \<open>png_set_*\<close> and \<open>png_write_image\<close> calls are given. The size of the written
  file (computed by zlib) is an input. Memory that the code reads before
  writing (the \<open>malloc\<close>ed \<open>auto_pic_data\<close> and encoder settings) is an input
  holding its previous contents; a read past the end of a buffer is undefined
  behaviour and makes the result \<open>None\<close>.
\<close>

text \<open>\<open>struct _auto_pic_data\<close> of \<^verbatim>\<open>png_.c\<close>: one packed buffer instead of row pointers.\<close>

record auto_pic_data_png =
  apd_width :: int
  apd_height :: int
  apd_row_pointer :: "byte list"
  apd_size :: int
  apd_src_size :: int

text \<open>\<open>struct _pngexportinfo\<close> of \<^verbatim>\<open>png_.c\<close>: thirty counters.\<close>

record pngexportinfo_png =
  grey_bit1_num :: int
  grey_bit1_size :: int
  grey_bit1_src_size :: int
  grey_bit2_num :: int
  grey_bit2_size :: int
  grey_bit2_src_size :: int
  grey_bit4_num :: int
  grey_bit4_size :: int
  grey_bit4_src_size :: int
  grey_bit8_num :: int
  grey_bit8_size :: int
  grey_bit8_src_size :: int
  palette_bit1_num :: int
  palette_bit1_size :: int
  palette_bit1_src_size :: int
  palette_bit2_num :: int
  palette_bit2_size :: int
  palette_bit2_src_size :: int
  palette_bit4_num :: int
  palette_bit4_size :: int
  palette_bit4_src_size :: int
  palette_bit8_num :: int
  palette_bit8_size :: int
  palette_bit8_src_size :: int
  rgb_bit8_num :: int
  rgb_bit8_size :: int
  rgb_bit8_src_size :: int
  rgba_bit8_num :: int
  rgba_bit8_size :: int
  rgba_bit8_src_size :: int

definition InitExportInfo :: "pngexportinfo_png \<Rightarrow> pngexportinfo_png" where
  "InitExportInfo info =
     info\<lparr>grey_bit1_num := 0,
       grey_bit1_size := 0,
       grey_bit1_src_size := 0,
       grey_bit2_num := 0,
       grey_bit2_size := 0,
       grey_bit2_src_size := 0,
       grey_bit4_num := 0,
       grey_bit4_size := 0,
       grey_bit4_src_size := 0,
       grey_bit8_num := 0,
       grey_bit8_size := 0,
       grey_bit8_src_size := 0,
       palette_bit1_num := 0,
       palette_bit1_size := 0,
       palette_bit1_src_size := 0,
       palette_bit2_num := 0,
       palette_bit2_size := 0,
       palette_bit2_src_size := 0,
       palette_bit4_num := 0,
       palette_bit4_size := 0,
       palette_bit4_src_size := 0,
       palette_bit8_num := 0,
       palette_bit8_size := 0,
       palette_bit8_src_size := 0,
       rgb_bit8_num := 0,
       rgb_bit8_size := 0,
       rgb_bit8_src_size := 0,
       rgba_bit8_num := 0,
       rgba_bit8_size := 0,
       rgba_bit8_src_size := 0\<rparr>"

text \<open>\<open>autodisplayInfo\<close>: the totals it prints (\<open>total_num\<close>, \<open>total_size\<close>, \<open>total_src_size\<close>).\<close>

definition auto_totals :: "pngexportinfo_png \<Rightarrow> int \<times> int \<times> int" where
  "auto_totals info =
     (grey_bit1_num info + grey_bit2_num info + grey_bit4_num info + grey_bit8_num info + palette_bit1_num info + palette_bit2_num info + palette_bit4_num info + palette_bit8_num info + rgb_bit8_num info + rgba_bit8_num info,
      grey_bit1_size info + grey_bit2_size info + grey_bit4_size info + grey_bit8_size info + palette_bit1_size info + palette_bit2_size info + palette_bit4_size info + palette_bit8_size info + rgb_bit8_size info + rgba_bit8_size info,
      grey_bit1_src_size info + grey_bit2_src_size info + grey_bit4_src_size info + grey_bit8_src_size info + palette_bit1_src_size info + palette_bit2_src_size info + palette_bit4_src_size info + palette_bit8_src_size info + rgb_bit8_src_size info + rgba_bit8_src_size info)"

text \<open>
  \<open>autoupdateInfo(src_path, mode, data)\<close>: the bucket of the mode; grey and
  palette at other depths and every other colour type only print or do
  nothing. The RGB branch adds the source size to the RGBA counter.
\<close>

definition autoupdateInfo :: "color_mode \<Rightarrow> auto_pic_data_png \<Rightarrow> pngexportinfo_png \<Rightarrow> pngexportinfo_png" where
  "autoupdateInfo mode data info =
     (if colortype mode = LCT_GREY then
        (if bitdepth mode = 1 then info\<lparr>grey_bit1_num := grey_bit1_num info + 1, grey_bit1_size := grey_bit1_size info + apd_size data,
                 grey_bit1_src_size := grey_bit1_src_size info + apd_src_size data\<rparr>
         else if bitdepth mode = 2 then info\<lparr>grey_bit2_num := grey_bit2_num info + 1, grey_bit2_size := grey_bit2_size info + apd_size data,
                 grey_bit2_src_size := grey_bit2_src_size info + apd_src_size data\<rparr>
         else if bitdepth mode = 4 then info\<lparr>grey_bit4_num := grey_bit4_num info + 1, grey_bit4_size := grey_bit4_size info + apd_size data,
                 grey_bit4_src_size := grey_bit4_src_size info + apd_src_size data\<rparr>
         else if bitdepth mode = 8 then info\<lparr>grey_bit8_num := grey_bit8_num info + 1, grey_bit8_size := grey_bit8_size info + apd_size data,
                 grey_bit8_src_size := grey_bit8_src_size info + apd_src_size data\<rparr>
         else info)
      else if colortype mode = LCT_PALETTE then
        (if bitdepth mode = 1 then info\<lparr>palette_bit1_num := palette_bit1_num info + 1, palette_bit1_size := palette_bit1_size info + apd_size data,
                 palette_bit1_src_size := palette_bit1_src_size info + apd_src_size data\<rparr>
         else if bitdepth mode = 2 then info\<lparr>palette_bit2_num := palette_bit2_num info + 1, palette_bit2_size := palette_bit2_size info + apd_size data,
                 palette_bit2_src_size := palette_bit2_src_size info + apd_src_size data\<rparr>
         else if bitdepth mode = 4 then info\<lparr>palette_bit4_num := palette_bit4_num info + 1, palette_bit4_size := palette_bit4_size info + apd_size data,
                 palette_bit4_src_size := palette_bit4_src_size info + apd_src_size data\<rparr>
         else if bitdepth mode = 8 then info\<lparr>palette_bit8_num := palette_bit8_num info + 1, palette_bit8_size := palette_bit8_size info + apd_size data,
                 palette_bit8_src_size := palette_bit8_src_size info + apd_src_size data\<rparr>
         else info)
      else if colortype mode = LCT_RGB then info\<lparr>rgb_bit8_num := rgb_bit8_num info + 1, rgb_bit8_size := rgb_bit8_size info + apd_size data,
                 rgba_bit8_src_size := rgba_bit8_src_size info + apd_src_size data\<rparr>
      else if colortype mode = LCT_RGBA then info\<lparr>rgba_bit8_num := rgba_bit8_num info + 1, rgba_bit8_size := rgba_bit8_size info + apd_size data,
                 rgba_bit8_src_size := rgba_bit8_src_size info + apd_src_size data\<rparr>
      else info)"

text \<open>\<open>PNG_COLOR_TYPE_*\<close> to \<open>LodePNGColorType\<close> as the if-chain of \<open>auto_detect_png\<close> maps it: any other value is grey with alpha.\<close>

definition png_colortype :: "nat \<Rightarrow> colortype" where
  "png_colortype ct =
     (if ct = 2 then LCT_RGB else if ct = 6 then LCT_RGBA else if ct = 3 then LCT_PALETTE
      else if ct = 0 then LCT_GREY else LCT_GREY_ALPHA)"

text \<open>\<open>png_get_channels\<close> after the expansion, for the two colour types that get past the check.\<close>

definition png_channels :: "colortype \<Rightarrow> nat" where
  "png_channels ct = (if ct = LCT_RGBA then 4 else 3)"

text \<open>
  \<open>auto_detect_png(filepath, modein, modeout, pic_data)\<close>: -1 when the file
  does not open or is not RGB or RGBA, 1 for a bad signature, 0 after copying
  \<open>channel * width\<close> bytes of each row into one buffer and choosing
  \<open>modeout\<close> with \<open>lodepng_auto_choose_color\<close>. Returns the code, both modes and
  the picture data.
\<close>

definition auto_detect_png ::
  "png_file \<Rightarrow> color_mode \<Rightarrow> color_mode \<Rightarrow> auto_pic_data_png \<Rightarrow> int \<times> color_mode \<times> color_mode \<times> auto_pic_data_png" where
  "auto_detect_png f modein modeout pic =
     (if \<not> file_opens f then (-1, modein, modeout, pic)
      else if \<not> signature_ok f then (1, modein, modeout, pic)
      else
        (let width = file_width f; height = file_height f;
             pic1 = pic\<lparr>apd_height := height, apd_width := width, apd_src_size := file_size f,
                        apd_size := file_size f\<rparr>;
             mi = modein\<lparr>colortype := png_colortype (file_color_type f)\<rparr>
         in if colortype mi \<noteq> LCT_RGB \<and> colortype mi \<noteq> LCT_RGBA then (-1, mi, modeout, pic1)
            else
              (let mi' = mi\<lparr>bitdepth := file_bit_depth f\<rparr>;
                   channel = png_channels (colortype mi');
                   putin = concat (map (\<lambda>i. take (channel * nat width) (file_rows f ! i)) [0..<nat height])
               in (0, mi', lodepng_auto_choose_color modeout putin (word_of_int width) (word_of_int height) mi',
                   pic1\<lparr>apd_row_pointer := putin\<rparr>))))"

text \<open>What \<open>autoWriteFile\<close> hands to libpng: the IHDR fields (width, height, depth, type) when it sets them, the palette, the rows.\<close>

record png_output =
  out_ihdr :: "(int \<times> int \<times> nat \<times> nat) option"
  out_plte :: "(byte \<times> byte \<times> byte) list option"
  out_rows :: "byte list list"

text \<open>
  One pixel \<open>j\<close> of the row loop of \<open>autoWriteFile\<close>: three bytes for 24 bits
  per pixel, one for 8, and for fewer one byte at every \<open>8/bpp\<close>-th pixel;
  nothing for other depths.
\<close>

definition write_pixel :: "nat \<Rightarrow> byte list \<Rightarrow> nat \<Rightarrow> (nat \<times> byte list) option \<Rightarrow> (nat \<times> byte list) option" where
  "write_pixel bpp converted j st =
     (case st of None \<Rightarrow> None
      | Some (pos, row) \<Rightarrow>
          if bpp = 24 then
            (case (read_at converted pos, read_at converted (pos + 1), read_at converted (pos + 2)) of
               (Some a, Some b, Some c) \<Rightarrow> Some (pos + 3, row[3 * j := a, 3 * j + 1 := b, 3 * j + 2 := c])
             | _ \<Rightarrow> None)
          else if bpp = 8 then
            (case read_at converted pos of Some a \<Rightarrow> Some (pos + 1, row[j := a]) | None \<Rightarrow> None)
          else if bpp < 8 then
            (if j mod (8 div bpp) = 0 then
               (case read_at converted pos of Some a \<Rightarrow> Some (pos + 1, row[j div (8 div bpp) := a]) | None \<Rightarrow> None)
             else Some (pos, row))
          else Some (pos, row))"

text \<open>The rows: each \<open>malloc((bpp * w + 7) / 8)\<close> (contents modelled as zeros) filled pixel by pixel, \<open>pos\<close> running on over the rows.\<close>

definition write_row :: "nat \<Rightarrow> nat \<Rightarrow> byte list \<Rightarrow> nat \<Rightarrow> (nat \<times> byte list list) option \<Rightarrow> (nat \<times> byte list list) option" where
  "write_row bpp w converted i st =
     (case st of None \<Rightarrow> None
      | Some (pos, rows) \<Rightarrow>
          map_option (\<lambda>(pos', row). (pos', rows @ [row]))
            (fold (write_pixel bpp converted) [0..<w] (Some (pos, replicate ((bpp * w + 7) div 8) 0))))"

definition png_palette_of :: "color_mode \<Rightarrow> (byte \<times> byte \<times> byte) list" where
  "png_palette_of mode = map (\<lambda>(r, g, b, a). (r, g, b)) (take (palettesize mode) (palette mode))"

text \<open>
  \<open>autoWriteFile(file_name, modein, modeout, pic_data)\<close>. Equal modes: the
  size is the source size, nothing is written. Otherwise: convert the packed
  pixels with \<open>lodepng_convert\<close> (its error is ignored), run
  \<open>preProcessScanlines\<close> with settings from \<open>lodepng_encoder_settings_init\<close> on
  \<open>malloc\<close>ed memory \<open>heap\<close> (its result is not used afterwards), set IHDR for
  grey, palette and RGB only, PLTE for palettes, and write the rows copied from
  the converted buffer. \<open>entropy\<close> is the float entropy estimate of the filter.
\<close>

definition autoWriteFile ::
  "(nat list \<Rightarrow> 'a::{linorder, zero}) \<Rightarrow> bool \<Rightarrow> int \<Rightarrow> LodePNGEncoderSettings \<Rightarrow> color_mode \<Rightarrow> color_mode \<Rightarrow>
   auto_pic_data_png \<Rightarrow> (int \<times> auto_pic_data_png \<times> png_output option) option" where
  "autoWriteFile entropy opens new_size heap modein modeout pic =
     (if lodepng_color_mode_equal modein modeout then Some (0, pic\<lparr>apd_size := apd_src_size pic\<rparr>, None)
      else if \<not> opens then Some (-1, pic, None)
      else
        (let h = apd_height pic; w = apd_width pic;
             setting = lodepng_encoder_settings_init heap;
             bpp = lodepng_get_bpp modeout;
             size = unat ((word_of_int (w * h) * word_of_nat bpp + 7) div (8 :: u32));
             converted = snd (lodepng_convert (replicate size 0) (apd_row_pointer pic) modeout modein
                                (word_of_int w) (word_of_int h))
         in case preProcessScanlines_png entropy converted (word_of_int w) (word_of_int h) modeout setting of
              None \<Rightarrow> None
            | Some _ \<Rightarrow>
                (let ihdr = (if colortype modeout \<in> {LCT_GREY, LCT_PALETTE, LCT_RGB}
                             then Some (w, h, bitdepth modeout, lct_code (colortype modeout)) else None);
                     plte = (if colortype modeout = LCT_PALETTE then Some (png_palette_of modeout) else None)
                 in case fold (write_row bpp (nat w) converted) [0..<nat h] (Some (0, [])) of
                      None \<Rightarrow> None
                    | Some (pos, rows) \<Rightarrow>
                        Some (0, pic\<lparr>apd_size := new_size\<rparr>,
                              Some \<lparr>out_ihdr = ihdr, out_plte = plte, out_rows = rows\<rparr>))))"

text \<open>
  \<open>autoCovertFile(src_path)\<close>: both modes from \<open>lodepng_color_mode_init\<close>, the
  picture data fresh from \<open>malloc\<close> (\<open>pic_heap\<close>). After a successful detection
  the file is written and counted under the output mode; otherwise it is
  counted under the input mode with the picture data as detection left it.
\<close>

definition autoCovertFile ::
  "(nat list \<Rightarrow> 'a::{linorder, zero}) \<Rightarrow> png_file \<Rightarrow> bool \<Rightarrow> int \<Rightarrow> LodePNGEncoderSettings \<Rightarrow> auto_pic_data_png \<Rightarrow>
   pngexportinfo_png \<Rightarrow> (pngexportinfo_png \<times> png_output option) option" where
  "autoCovertFile entropy f opens new_size heap pic_heap info =
     (case auto_detect_png f lodepng_color_mode_init lodepng_color_mode_init pic_heap of
        (r, modein, modeout, pic) \<Rightarrow>
          if r = 0 then
            (case autoWriteFile entropy opens new_size heap modein modeout pic of
               None \<Rightarrow> None
             | Some (_, pic', out) \<Rightarrow> Some (autoupdateInfo modeout pic' info, out))
          else Some (autoupdateInfo modein pic info, None))"

text \<open>
  \<open>ConvertFolder(dir)\<close>: every file of the tree is converted, whatever its
  extension; \<open>.\<close> and \<open>..\<close> are skipped.
\<close>

fun ConvertFolder ::
  "(nat list \<Rightarrow> 'a::{linorder, zero}) \<Rightarrow> LodePNGEncoderSettings \<Rightarrow> auto_pic_data_png \<Rightarrow> fs_entry list \<Rightarrow>
   pngexportinfo_png \<Rightarrow> (pngexportinfo_png \<times> png_output list) option"
and ConvertEntry ::
  "(nat list \<Rightarrow> 'a::{linorder, zero}) \<Rightarrow> LodePNGEncoderSettings \<Rightarrow> auto_pic_data_png \<Rightarrow> fs_entry \<Rightarrow>
   pngexportinfo_png \<Rightarrow> (pngexportinfo_png \<times> png_output list) option" where
  "ConvertFolder e heap pic_heap [] info = Some (info, [])"
| "ConvertFolder e heap pic_heap (x # xs) info =
     (case ConvertEntry e heap pic_heap x info of
        None \<Rightarrow> None
      | Some (info', ws) \<Rightarrow>
          (case ConvertFolder e heap pic_heap xs info' of
             None \<Rightarrow> None
           | Some (info'', ws') \<Rightarrow> Some (info'', ws @ ws')))"
| "ConvertEntry e heap pic_heap (FsDir name es) info =
     (if name = ''.'' \<or> name = ''..'' then Some (info, []) else ConvertFolder e heap pic_heap es info)"
| "ConvertEntry e heap pic_heap (FsFile name f opens new_size) info =
     map_option (\<lambda>(info', w). (info', case w of Some x \<Rightarrow> [x] | None \<Rightarrow> []))
       (autoCovertFile e f opens new_size heap pic_heap info)"

end
