(* ===== verification/AutoPngProps.thy ===== *)
theory AutoPngProps
  imports AutoPng DriverProps
begin

text \<open>
  Properties of the conversion driver of \<^verbatim>\<open>png_.c\<close>: the specification's
  scenario run through \<open>autoCovertFile\<close>, the statistics of
  \<open>autoupdateInfo\<close>, the directory walk of \<open>ConvertFolder\<close> and the header
  \<open>autoWriteFile\<close> hands to libpng.
\<close>

text \<open>Every file of a directory tree in the order of the walk, with what is known of each.\<close>

fun all_files :: "fs_entry list \<Rightarrow> (png_file \<times> bool \<times> int) list"
and all_files_entry :: "fs_entry \<Rightarrow> (png_file \<times> bool \<times> int) list" where
  "all_files [] = []"
| "all_files (e # es) = all_files_entry e @ all_files es"
| "all_files_entry (FsDir name es) = (if name = ''.'' \<or> name = ''..'' then [] else all_files es)"
| "all_files_entry (FsFile name f opens new_size) = [(f, opens, new_size)]"

text \<open>Converting one file with \<open>autoCovertFile\<close> and collecting what was written; undefined behaviour propagates.\<close>

definition auto_step ::
  "(nat list \<Rightarrow> 'a::{linorder, zero}) \<Rightarrow> LodePNGEncoderSettings \<Rightarrow> auto_pic_data_png \<Rightarrow> png_file \<times> bool \<times> int \<Rightarrow>
   (pngexportinfo_png \<times> png_output list) option \<Rightarrow> (pngexportinfo_png \<times> png_output list) option" where
  "auto_step e heap pic_heap x acc =
     (case acc of None \<Rightarrow> None
      | Some (info, ws) \<Rightarrow>
          (case x of (f, opens, new_size) \<Rightarrow>
             map_option (\<lambda>(info', w). (info', ws @ (case w of Some y \<Rightarrow> [y] | None \<Rightarrow> [])))
               (autoCovertFile e f opens new_size heap pic_heap info)))"

lemma fold_auto_step_None: "fold (auto_step e heap ph) xs None = None"
  by (induction xs) (simp_all add: auto_step_def)

lemma fold_auto_step_append:
  "fold (auto_step e heap ph) xs (Some (info, ws)) =
   map_option (\<lambda>(i, ws'). (i, ws @ ws')) (fold (auto_step e heap ph) xs (Some (info, [])))"
proof (induction xs arbitrary: info ws)
  case Nil
  then show ?case by simp
next
  case (Cons x xs)
  obtain f opens ns where x: "x = (f, opens, ns)" by (cases x) auto
  show ?case
  proof (cases "autoCovertFile e f opens ns heap ph info")
    case None
    then have "auto_step e heap ph x (Some (info, vs)) = None" for vs by (simp add: x auto_step_def)
    then show ?thesis by (simp add: fold_auto_step_None)
  next
    case (Some r)
    obtain info' w where r: "r = (info', w)" by (cases r)
    define W where "W = (case w of Some y \<Rightarrow> [y] | None \<Rightarrow> [])"
    have st: "auto_step e heap ph x (Some (info, vs)) = Some (info', vs @ W)" for vs
      by (simp add: x auto_step_def Some r W_def)
    have "fold (auto_step e heap ph) (x # xs) (Some (info, ws)) =
        map_option (\<lambda>(i, ws'). (i, (ws @ W) @ ws')) (fold (auto_step e heap ph) xs (Some (info', [])))"
      using Cons.IH [of info' "ws @ W"] st by simp
    moreover have "fold (auto_step e heap ph) (x # xs) (Some (info, [])) =
        map_option (\<lambda>(i, ws'). (i, W @ ws')) (fold (auto_step e heap ph) xs (Some (info', [])))"
      using Cons.IH [of info' W] st by simp
    ultimately show ?thesis by (simp add: option.map_comp comp_def split_def)
  qed
qed

lemma ConvertFolder_entry_all_files:
  "ConvertFolder e heap ph es info = fold (auto_step e heap ph) (all_files es) (Some (info, []))"
  "ConvertEntry e heap ph x info = fold (auto_step e heap ph) (all_files_entry x) (Some (info, []))"
proof (induction e heap ph es info and e heap ph x info rule: ConvertFolder_ConvertEntry.induct)
  case (1 e heap ph info)
  then show ?case by simp
next
  case (2 e heap ph x xs info)
  show ?case
  proof (cases "fold (auto_step e heap ph) (all_files_entry x) (Some (info, []))")
    case None
    then show ?thesis using 2 by (simp add: fold_auto_step_None)
  next
    case (Some r)
    obtain info' ws where r: "r = (info', ws)" by (cases r)
    show ?thesis
      using 2 Some r fold_auto_step_append [of e heap ph "all_files xs" info' ws]
      by (auto split: option.split)
  qed
next
  case (3 e heap ph name es info)
  then show ?case by simp
next
  case (4 e heap ph name f opens new_size info)
  then show ?case by (auto simp: auto_step_def split: option.split)
qed


text \<open>
  C33. The totals \<open>autodisplayInfo\<close> prints grow by one file, its new size and
  its source size exactly when \<open>autoupdateInfo\<close> has a bucket for the mode
  (grey or palette of 1, 2, 4 or 8 bits, RGB, RGBA), and stay the same
  otherwise.
\<close>

theorem autoupdateInfo_totals:
  "auto_totals (autoupdateInfo m d info) =
   (if counted_mode m
    then (case auto_totals info of (n, s, src) \<Rightarrow> (n + 1, s + apd_size d, src + apd_src_size d))
    else auto_totals info)"
  unfolding counted_mode_def
  by (cases "colortype m") (auto simp: autoupdateInfo_def auto_totals_def)

text \<open>
  C34. \<open>autoupdateInfo\<close> adds the source size of an RGB file to the RGBA
  counter: the RGB source size never changes and the RGBA one grows.
\<close>

theorem autoupdateInfo_rgb_src:
  assumes "colortype m = LCT_RGB"
  shows "rgb_bit8_src_size (autoupdateInfo m d info) = rgb_bit8_src_size info \<and>
    rgba_bit8_src_size (autoupdateInfo m d info) = rgba_bit8_src_size info + apd_src_size d \<and>
    rgb_bit8_num (autoupdateInfo m d info) = rgb_bit8_num info + 1"
  using assms by (simp add: autoupdateInfo_def)

text \<open>
  C35. \<open>ConvertFolder\<close> converts every file of the tree, whatever its name
  (unlike \<open>convert_folder\<close> of \<^verbatim>\<open>pngtest.c\<close>, it does not look at the
  extension), each once, in the order of the listing.
\<close>

theorem ConvertFolder_all_files:
  "ConvertFolder e heap ph es info = fold (auto_step e heap ph) (all_files es) (Some (info, []))"
  by (rule ConvertFolder_entry_all_files(1))

text \<open>
  C36. \<open>autoWriteFile\<close> sets the IHDR header only for grey, palette and RGB
  output: for grey with alpha or RGBA it writes the image without one.
\<close>

theorem autoWriteFile_no_ihdr:
  assumes "colortype modeout \<notin> {LCT_GREY, LCT_PALETTE, LCT_RGB}"
    and "autoWriteFile e opens new_size heap modein modeout pic = Some (r, pic', Some out)"
  shows "out_ihdr out = None"
  using assms unfolding autoWriteFile_def Let_def
  by (auto split: if_splits option.splits prod.splits)

theorem autoupdateInfo_rgb_src_witness:
  "colortype (lodepng_color_mode_init\<lparr>colortype := LCT_RGB\<rparr>) = LCT_RGB \<and>
   rgba_bit8_src_size (autoupdateInfo (lodepng_color_mode_init\<lparr>colortype := LCT_RGB\<rparr>)
      \<lparr>apd_width = 1, apd_height = 1, apd_row_pointer = [], apd_size = 10, apd_src_size = 20\<rparr>
      (InitExportInfo undefined)) = 20"
proof -
  have c: "colortype (lodepng_color_mode_init\<lparr>colortype := LCT_RGB\<rparr>) = LCT_RGB" by simp
  show ?thesis
    using autoupdateInfo_rgb_src [OF c, of "\<lparr>apd_width = 1, apd_height = 1, apd_row_pointer = [], apd_size = 10,
        apd_src_size = 20\<rparr>" "InitExportInfo undefined"]
    by (simp add: InitExportInfo_def)
qed

theorem autoWriteFile_no_ihdr_witness:
  "colortype (lodepng_color_mode_init :: color_mode) \<notin> {LCT_GREY, LCT_PALETTE, LCT_RGB} \<and>
   autoWriteFile (\<lambda>c. 0 :: nat) True 50
     \<lparr>auto_convert = False, filter_palette_zero = False, filter_strategy = 0, predefined_filters = None, force_palette = False\<rparr>
     (lodepng_color_mode_init\<lparr>colortype := LCT_RGB\<rparr>) lodepng_color_mode_init
     \<lparr>apd_width = 1, apd_height = 1, apd_row_pointer = [1, 2, 3], apd_size = 0, apd_src_size = 9\<rparr> =
   Some (0, \<lparr>apd_width = 1, apd_height = 1, apd_row_pointer = [1, 2, 3], apd_size = 50, apd_src_size = 9\<rparr>,
         Some \<lparr>out_ihdr = None, out_plte = None, out_rows = [[0, 0, 0, 0]]\<rparr>) \<and>
   out_ihdr \<lparr>out_ihdr = None, out_plte = None, out_rows = [[0, 0, 0, 0 :: byte]]\<rparr> = None"
proof -
  have a: "colortype (lodepng_color_mode_init :: color_mode) \<notin> {LCT_GREY, LCT_PALETTE, LCT_RGB}"
    by (simp add: lodepng_color_mode_init_def)
  have w: "autoWriteFile (\<lambda>c. 0 :: nat) True 50
     \<lparr>auto_convert = False, filter_palette_zero = False, filter_strategy = 0, predefined_filters = None, force_palette = False\<rparr>
     (lodepng_color_mode_init\<lparr>colortype := LCT_RGB\<rparr>) lodepng_color_mode_init
     \<lparr>apd_width = 1, apd_height = 1, apd_row_pointer = [1, 2, 3], apd_size = 0, apd_src_size = 9\<rparr> =
   Some (0, \<lparr>apd_width = 1, apd_height = 1, apd_row_pointer = [1, 2, 3], apd_size = 50, apd_src_size = 9\<rparr>,
         Some \<lparr>out_ihdr = None, out_plte = None, out_rows = [[0, 0, 0, 0]]\<rparr>)"
    by code_simp
  show ?thesis using autoWriteFile_no_ihdr [OF a w] a w by simp
qed

end
