(* ===== verification/ZeroSamples.thy ===== *)
theory ZeroSamples
  imports BitStream
begin

text \<open>
  \<open>count_zero_samples\<close> of \<^verbatim>\<open>src/lpng1634/png_.c\<close>: the user transform callback
  of libpng's test program, which counts the zero samples of each row written
  (zero pixels for palette images) into the static counter \<open>zero_samples\<close>.
  The row is a byte buffer read through the pointer \<open>dp\<close>; a read past its end is
  \<open>None\<close>. \<open>png_row_info\<close> is libpng's row descriptor, with the fields the
  callback's comment lists.
\<close>

record png_row_info =
  width :: u32
  rowbytes :: nat
  color_type :: byte
  bit_depth :: byte
  channels :: byte
  pixel_depth :: byte

text \<open>The callback's locals \<open>pos\<close> and \<open>dp\<close> (an offset into the row) and the counter.\<close>

record czs_state =
  pos :: nat
  dp :: nat
  zero_samples :: u32

text \<open>\<open>for (n = 0; n < count; n++) body\<close> with a body that may fail.\<close>

primrec iter_opt :: "('s \<Rightarrow> 's option) \<Rightarrow> nat \<Rightarrow> 's \<Rightarrow> 's option" where
  "iter_opt f 0 s = Some s"
| "iter_opt f (Suc n) s = Option.bind (f s) (iter_opt f n)"

definition czs_when :: "bool \<Rightarrow> ('s \<Rightarrow> 's option) \<Rightarrow> 's \<Rightarrow> 's option" where
  "czs_when c f s = (if c then f s else Some s)"

definition czs_count :: "bool \<Rightarrow> czs_state \<Rightarrow> u32" where
  "czs_count c s = (if c then zero_samples s + 1 else zero_samples s)"

text \<open>
  Bit depth 1: \<open>if (((*dp << pos++) & 0x80) == 0) zero_samples++;\<close> then, at
  \<open>pos == 8\<close>, the next byte. \<open>*dp\<close> is promoted to a 32-bit \<open>int\<close>.
\<close>

definition czs_bit1 :: "byte list \<Rightarrow> czs_state \<Rightarrow> czs_state option" where
  "czs_bit1 d s =
     (case read_at d (dp s) of
        None \<Rightarrow> None
      | Some b \<Rightarrow>
          (let s1 = s\<lparr>pos := pos s + 1,
                      zero_samples := czs_count (push_bit (pos s) (ucast b :: u32) AND 0x80 = 0) s\<rparr>
           in Some (if pos s1 = 8 then s1\<lparr>pos := 0, dp := dp s1 + 1\<rparr> else s1)))"

text \<open>
  Bit depths 2 and 4: \<open>if (((*dp << (pos += k)) & m) == 0) zero_samples++;\<close> with
  \<open>(k, m)\<close> = \<open>(2, 0xc0)\<close> or \<open>(4, 0xf0)\<close>: the shift is the incremented \<open>pos\<close>.
\<close>

definition czs_bits :: "nat \<Rightarrow> u32 \<Rightarrow> byte list \<Rightarrow> czs_state \<Rightarrow> czs_state option" where
  "czs_bits k m d s =
     (case read_at d (dp s) of
        None \<Rightarrow> None
      | Some b \<Rightarrow>
          (let s1 = s\<lparr>pos := pos s + k\<rparr>;
               s2 = s1\<lparr>zero_samples := czs_count (push_bit (pos s1) (ucast b :: u32) AND m = 0) s1\<rparr>
           in Some (if pos s2 = 8 then s2\<lparr>pos := 0, dp := dp s2 + 1\<rparr> else s2)))"

text \<open>Bit depth 8: \<open>if (*dp++ == 0) zero_samples++;\<close>\<close>

definition czs_byte :: "byte list \<Rightarrow> czs_state \<Rightarrow> czs_state option" where
  "czs_byte d s =
     (case read_at d (dp s) of
        None \<Rightarrow> None
      | Some b \<Rightarrow> Some (s\<lparr>dp := dp s + 1, zero_samples := czs_count (b = 0) s\<rparr>))"

text \<open>Bit depth 16: \<open>if ((*dp | *(dp+1)) == 0) zero_samples++; dp += 2;\<close>\<close>

definition czs_word :: "byte list \<Rightarrow> czs_state \<Rightarrow> czs_state option" where
  "czs_word d s =
     (case (read_at d (dp s), read_at d (dp s + 1)) of
        (Some b0, Some b1) \<Rightarrow> Some (s\<lparr>zero_samples := czs_count (b0 OR b1 = 0) s, dp := dp s + 2\<rparr>)
      | _ \<Rightarrow> None)"

text \<open>One pixel of a grey or palette row: the five \<open>if (row_info->bit_depth == k)\<close> blocks in order.\<close>

definition czs_grey_pixel :: "png_row_info \<Rightarrow> byte list \<Rightarrow> czs_state \<Rightarrow> czs_state option" where
  "czs_grey_pixel ri d s =
     Option.bind (czs_when (bit_depth ri = 1) (czs_bit1 d) s) (\<lambda>s.
     Option.bind (czs_when (bit_depth ri = 2) (czs_bits 2 0xc0 d) s) (\<lambda>s.
     Option.bind (czs_when (bit_depth ri = 4) (czs_bits 4 0xf0 d) s) (\<lambda>s.
     Option.bind (czs_when (bit_depth ri = 8) (czs_byte d) s)
       (czs_when (bit_depth ri = 16) (czs_word d)))))"

text \<open>One channel of another colour type: the depth-8 and depth-16 blocks.\<close>

definition czs_channel :: "png_row_info \<Rightarrow> byte list \<Rightarrow> czs_state \<Rightarrow> czs_state option" where
  "czs_channel ri d s =
     Option.bind (czs_when (bit_depth ri = 8) (czs_byte d) s) (czs_when (bit_depth ri = 16) (czs_word d))"

text \<open>
  \<open>color_channels = row_info->channels\<close>, less one when \<open>color_type > 3\<close> (an
  \<open>int\<close>, so a zero channel count gives \<open>-1\<close> and no iteration); after the colour
  channels the alpha sample is skipped, one byte more at depth 16.
\<close>

definition color_channels :: "png_row_info \<Rightarrow> int" where
  "color_channels ri = int (unat (channels ri)) - (if color_type ri > 3 then 1 else 0)"

definition czs_other_pixel :: "png_row_info \<Rightarrow> byte list \<Rightarrow> czs_state \<Rightarrow> czs_state option" where
  "czs_other_pixel ri d s =
     map_option (\<lambda>s. if color_type ri > 3
                      then s\<lparr>dp := dp s + 1 + (if bit_depth ri = 16 then 1 else 0)\<rparr> else s)
       (iter_opt (czs_channel ri d) (nat (color_channels ri)) s)"

text \<open>
  The callback: nothing for a NULL \<open>png_ptr\<close>; otherwise one pass over the
  \<open>width\<close> pixels of the row, grey and palette rows (types 0 and 3) by samples of
  any depth, the others channel by channel. Returns the new counter.
\<close>

definition count_zero_samples :: "bool \<Rightarrow> png_row_info \<Rightarrow> byte list \<Rightarrow> u32 \<Rightarrow> u32 option" where
  "count_zero_samples png_ptr_null ri d zs =
     (if png_ptr_null then Some zs
      else
        (let st = \<lparr>pos = 0, dp = 0, zero_samples = zs\<rparr>
         in map_option zero_samples
              (if color_type ri = 0 \<or> color_type ri = 3
               then iter_opt (czs_grey_pixel ri d) (unat (width ri)) st
               else iter_opt (czs_other_pixel ri d) (unat (width ri)) st)))"

end
