(* ===== verification/ZeroSamplesProps.thy ===== *)
theory ZeroSamplesProps
  imports ZeroSamples
begin

text \<open>
  Properties of \<open>count_zero_samples\<close>. A zero sample is specified with the
  bit reader of BitStream: sample \<open>i\<close> of depth \<open>k\<close> is the value read MSB-first at
  bit \<open>k * i\<close> of the row.
\<close>

definition zero_sample :: "byte list \<Rightarrow> nat \<Rightarrow> nat \<Rightarrow> bool" where
  "zero_sample d k i = (fst (readBitsFromReversedStream (k * i) d k) = 0)"

definition row_info_wf :: "png_row_info \<Rightarrow> bool" where
  "row_info_wf ri \<longleftrightarrow>
     unat (pixel_depth ri) = unat (bit_depth ri) * unat (channels ri)
     \<and> rowbytes ri = (unat (width ri) * unat (pixel_depth ri) + 7) div 8
     \<and> ((color_type ri = 0 \<or> color_type ri = 3) \<longrightarrow> channels ri = 1)"

text \<open>The state after \<open>j\<close> pixels of a row of \<open>k\<close>-bit samples, \<open>P\<close> the test that counts a pixel.\<close>

definition sub_state :: "nat \<Rightarrow> u32 \<Rightarrow> (nat \<Rightarrow> bool) \<Rightarrow> nat \<Rightarrow> czs_state" where
  "sub_state k zs P j =
     \<lparr>pos = k * j mod 8, dp = k * j div 8, zero_samples = zs + of_nat (length (filter P [0..<j]))\<rparr>"

text \<open>
  The sample the code tests at pixel \<open>j\<close> for bit depth \<open>k\<close>: sample \<open>j\<close> itself, except
  at depths 2 and 4, where the shift by the incremented \<open>pos\<close> tests sample
  \<open>j + 1\<close> and the last sample of each byte is always counted.
\<close>

definition czs_tested :: "byte list \<Rightarrow> nat \<Rightarrow> nat \<Rightarrow> bool" where
  "czs_tested d k j =
     (if k = 2 \<or> k = 4 then j mod (8 div k) = 8 div k - 1 \<or> zero_sample d k (Suc j)
      else zero_sample d k j)"

subsection \<open>The loop\<close>

lemma iter_opt_trace:
  "(\<And>j. j < n \<Longrightarrow> f (S j) = Some (S (Suc j))) \<Longrightarrow> iter_opt f n (S 0) = Some (S n)"
proof (induction n arbitrary: S)
  case 0
  then show ?case by simp
next
  case (Suc n)
  have "iter_opt f n (S (Suc 0)) = Some (S (Suc n))"
    using Suc.IH [of "\<lambda>j. S (Suc j)"] Suc.prems by simp
  with Suc.prems [of 0] show ?case by simp
qed

subsection \<open>Zero samples in bits\<close>

lemma zero_sample_bits: "zero_sample d k i \<longleftrightarrow> (\<forall>u<k. \<not> bit_at d (k * i + u))"
  by (simp add: zero_sample_def readBitsFromReversedStream_def readBits_loop_sum)

lemma bit_at_split: "r < 8 \<Longrightarrow> bit_at d (8 * q + r) = bit (d ! q) (7 - r)"
  by (simp add: bit_at_def)

lemma bit_byte_less: "bit (b :: byte) n \<Longrightarrow> n < 8"
  using bit_imp_le_length [of b n] by simp

lemma mask_top:
  fixes b :: byte
  assumes "k \<le> 8"
  shows "(push_bit p (ucast b :: u32) AND push_bit (8 - k) (mask k) = 0) \<longleftrightarrow>
           (\<forall>u<k. \<not> (p + u \<le> 7 \<and> bit b (7 - u - p)))"
proof -
  have "(push_bit p (ucast b :: u32) AND push_bit (8 - k) (mask k) = 0) \<longleftrightarrow>
          (\<forall>t. \<not> (8 - k \<le> t \<and> t < 8 \<and> p \<le> t \<and> bit b (t - p)))"
    using assms apply (auto simp add: bit_eq_iff [of _ 0] bit_and_iff bit_push_bit_iff bit_mask_iff bit_ucast_iff)
    subgoal for t by (drule spec [where x = t]) auto
    done
  also have "\<dots> \<longleftrightarrow> (\<forall>u<k. \<not> (p + u \<le> 7 \<and> bit b (7 - u - p)))"
  proof
    assume A: "\<forall>t. \<not> (8 - k \<le> t \<and> t < 8 \<and> p \<le> t \<and> bit b (t - p))"
    show "\<forall>u<k. \<not> (p + u \<le> 7 \<and> bit b (7 - u - p))"
    proof (intro allI impI)
      fix u assume "u < k"
      then show "\<not> (p + u \<le> 7 \<and> bit b (7 - u - p))"
        using A [rule_format, of "7 - u"] assms by (auto simp add: diff_diff_add)
    qed
  next
    assume B: "\<forall>u<k. \<not> (p + u \<le> 7 \<and> bit b (7 - u - p))"
    show "\<forall>t. \<not> (8 - k \<le> t \<and> t < 8 \<and> p \<le> t \<and> bit b (t - p))"
    proof (intro allI notI)
      fix t assume H: "8 - k \<le> t \<and> t < 8 \<and> p \<le> t \<and> bit b (t - p)"
      then have "7 - t < k" "p + (7 - t) \<le> 7" "7 - (7 - t) - p = t - p" by auto
      then show False
        using B [rule_format, of "7 - t"] H by simp
    qed
  qed
  finally show ?thesis .
qed

lemma mask_80: "(0x80 :: u32) = push_bit (8 - 1) (mask 1)"
  by (simp add: mask_eq_exp_minus_1)

lemma mask_C0: "(0xc0 :: u32) = push_bit (8 - 2) (mask 2)"
  by (simp add: mask_eq_exp_minus_1)

lemma mask_F0: "(0xf0 :: u32) = push_bit (8 - 4) (mask 4)"
  by (simp add: mask_eq_exp_minus_1)

lemma byte_eq_0_bits: "((x :: byte) = 0) \<longleftrightarrow> (\<forall>u<8. \<not> bit x (7 - u))"
proof
  assume H: "\<forall>u<8. \<not> bit x (7 - u)"
  have "\<not> bit x n" for n
  proof (cases "n < 8")
    case True
    then show ?thesis using H [rule_format, of "7 - n"] by simp
  next
    case False
    then show ?thesis using bit_byte_less [of x n] by auto
  qed
  then show "x = 0" by (simp add: bit_eq_iff)
qed simp

lemma zero_sample_1:
  "zero_sample d 1 i \<longleftrightarrow> \<not> bit_at d i" "zero_sample d (Suc 0) i \<longleftrightarrow> \<not> bit_at d i"
  by (simp_all add: zero_sample_bits)

lemma zero_sample_8: "zero_sample d 8 i \<longleftrightarrow> d ! i = 0"
  by (simp add: zero_sample_bits bit_at_split byte_eq_0_bits)

lemma all_less_16: "(\<forall>u<(16::nat). P u) \<longleftrightarrow> (\<forall>u<8. P u) \<and> (\<forall>u<8. P (8 + u))"
proof
  assume H: "(\<forall>u<8. P u) \<and> (\<forall>u<8. P (8 + u))"
  show "\<forall>u<16. P u"
  proof (intro allI impI)
    fix u :: nat
    assume u: "u < 16"
    show "P u"
    proof (cases "u < 8")
      case True
      with H show ?thesis by simp
    next
      case False
      then have "u = 8 + (u - 8)" "u - 8 < 8" using u by simp_all
      with H show ?thesis by metis
    qed
  qed
qed auto

lemma zero_sample_16: "zero_sample d 16 i \<longleftrightarrow> d ! (2 * i) = 0 \<and> d ! (2 * i + 1) = 0"
proof -
  have lo: "bit_at d (16 * i + u) = bit (d ! (2 * i)) (7 - u)" if "u < 8" for u
    using bit_at_split [of u d "2 * i"] that by simp
  have hi: "bit_at d (16 * i + (8 + u)) = bit (d ! (2 * i + 1)) (7 - u)" if "u < 8" for u
    using bit_at_split [of u d "2 * i + 1"] that by (simp add: algebra_simps)
  have "zero_sample d 16 i \<longleftrightarrow>
          (\<forall>u<8. \<not> bit_at d (16 * i + u)) \<and> (\<forall>u<8. \<not> bit_at d (16 * i + (8 + u)))"
    by (simp only: zero_sample_bits all_less_16)
  also have "\<dots> \<longleftrightarrow> (\<forall>u<8. \<not> bit (d ! (2 * i)) (7 - u)) \<and> (\<forall>u<8. \<not> bit (d ! (2 * i + 1)) (7 - u))"
    using lo hi by simp
  finally show ?thesis by (simp only: byte_eq_0_bits)
qed

lemma mod8_add_small:
  assumes "(x :: nat) mod 8 + c < 8"
  shows "(x + c) div 8 = x div 8 \<and> (x + c) mod 8 = x mod 8 + c"
proof -
  have e: "x + c = (x mod 8 + c) + x div 8 * 8" using div_mult_mod_eq [of x 8] by linarith
  have "(x mod 8 + c) div 8 = 0" "(x mod 8 + c) mod 8 = x mod 8 + c" using assms by simp_all
  then show ?thesis by (simp only: e div_mult_self1 mod_mult_self1) simp
qed

lemma mod8_add_wrap:
  assumes "(x :: nat) mod 8 + c = 8"
  shows "(x + c) div 8 = Suc (x div 8) \<and> (x + c) mod 8 = 0"
proof -
  have e: "x + c = 8 + x div 8 * 8" using div_mult_mod_eq [of x 8] assms by linarith
  show ?thesis by (simp only: e div_mult_self1 mod_mult_self1) simp
qed

lemma sub_pos_facts:
  fixes k j :: nat
  assumes "k = 1 \<or> k = 2 \<or> k = 4"
  shows "k * j mod 8 + k \<le> 8 \<and> (k * j mod 8 + k \<noteq> 8 \<longrightarrow> k * j mod 8 + 2 * k \<le> 8)
         \<and> (k * j mod 8 + k = 8 \<longleftrightarrow> j mod (8 div k) = 8 div k - 1)"
proof -
  have "2 * j mod 8 = 2 * (j mod 4)" "4 * j mod 8 = 4 * (j mod 2)"
    using mod8_times2 [of j] mod8_times4 [of j] by (simp_all add: mult.commute)
  moreover have "j mod 4 < 4" "j mod 2 < 2" "j mod 8 < 8" by simp_all
  ultimately show ?thesis using assms by auto
qed

subsection \<open>One sample per step\<close>

lemma sub_state_Suc:
  "sub_state k zs P (Suc j) =
     \<lparr>pos = k * Suc j mod 8, dp = k * Suc j div 8,
      zero_samples = czs_count (P j) (sub_state k zs P j)\<rparr>"
  by (simp add: sub_state_def czs_count_def)

lemma test_80: "(push_bit p (ucast (b :: byte) :: u32) AND 0x80 = 0) \<longleftrightarrow> \<not> (p \<le> 7 \<and> bit b (7 - p))"
  by (subst mask_80, subst mask_top) simp_all

lemma sub_state_sel [simp]:
  "pos (sub_state k zs P j) = k * j mod 8" "dp (sub_state k zs P j) = k * j div 8"
  by (simp_all add: sub_state_def)

lemma czs_bit1_step:
  assumes "j div 8 < length d" "P j = (\<not> bit_at d j)"
  shows "czs_bit1 d (sub_state 1 zs P j) = Some (sub_state 1 zs P (Suc j))"
proof -
  have "j mod 8 \<le> 7" by simp
  then have test: "(push_bit (j mod 8) (ucast (d ! (j div 8)) :: u32) AND 0x80 = 0) = P j"
    using assms(2) by (simp add: test_80 bit_at_def)
  have r: "read_at d (j div 8) = Some (d ! (j div 8))"
    using assms(1) by (simp add: read_at_def)
  show ?thesis
    unfolding czs_bit1_def r option.case Let_def sub_state_sel mult_1 test
    using mod8_add_small [of j 1] mod8_add_wrap [of j 1]
    by (simp add: sub_state_Suc)
qed
lemma czs_bits_step:
  assumes k: "k = 2 \<or> k = 4" and m: "m = push_bit (8 - k) (mask k)"
    and rd: "k * j div 8 < length d"
    and P: "P j = (j mod (8 div k) = 8 div k - 1 \<or> zero_sample d k (Suc j))"
  shows "czs_bits k m d (sub_state k zs P j) = Some (sub_state k zs P (Suc j))"
proof -
  define p where "p = k * j mod 8"
  define b where "b = d ! (k * j div 8)"
  have F: "p + k \<le> 8" "p + k \<noteq> 8 \<Longrightarrow> p + 2 * k \<le> 8" "(p + k = 8) = (j mod (8 div k) = 8 div k - 1)"
    using sub_pos_facts [of k j] k unfolding p_def by auto
  have mt: "(push_bit (p + k) (ucast b :: u32) AND m = 0) =
              (\<forall>u<k. \<not> (p + k + u \<le> 7 \<and> bit b (7 - u - (p + k))))"
    unfolding m by (rule mask_top) (use k in auto)
  have test: "(push_bit (p + k) (ucast b :: u32) AND m = 0) = P j"
  proof (cases "p + k = 8")
    case True
    then show ?thesis using F(3) P mt by simp
  next
    case False
    have "bit_at d (k * Suc j + u) = bit b (7 - u - (p + k))" if "u < k" for u
    proof -
      have "k * j mod 8 + (k + u) < 8" using F(2) [OF False] that unfolding p_def by simp
      moreover have eq: "k * Suc j + u = k * j + (k + u)" by simp
      ultimately have "(k * Suc j + u) div 8 = k * j div 8" "(k * Suc j + u) mod 8 = p + k + u"
        using mod8_add_small [of "k * j" "k + u"] unfolding eq p_def by simp_all
      then show ?thesis by (simp add: bit_at_def b_def add.commute add.left_commute)
    qed
    then have "zero_sample d k (Suc j) = (\<forall>u<k. \<not> bit b (7 - u - (p + k)))"
      by (simp add: zero_sample_bits)
    moreover have "p + k + u \<le> 7" if "u < k" for u using F(2) [OF False] that by simp
    ultimately show ?thesis using F(3) False P mt by auto
  qed
  have r: "read_at d (k * j div 8) = Some b" using rd by (simp add: read_at_def b_def)
  have e: "k * Suc j = k * j + k" by simp
  show ?thesis
  proof (cases "p + k = 8")
    case True
    then have test8: "(push_bit 8 (ucast b :: u32) AND m = 0) = P j" using test by simp
    have w: "(k + k * j) div 8 = Suc (k * j div 8)" "(k + k * j) mod 8 = 0"
      using mod8_add_wrap [of "k * j" k] True by (simp_all add: add.commute p_def)
    from True show ?thesis
      unfolding czs_bits_def r option.case Let_def sub_state_sel p_def [symmetric] czs_state.simps
      by (simp add: test8 p_def sub_state_def czs_count_def w)
  next
    case False
    have w: "(k + k * j) div 8 = k * j div 8" "(k + k * j) mod 8 = k * j mod 8 + k"
      using mod8_add_small [of "k * j" k] False F(1) by (simp_all add: add.commute p_def)
    have test': "(push_bit (k * j mod 8 + k) (ucast b :: u32) AND m = 0) = P j"
      using test by (simp add: p_def)
    from False show ?thesis
      unfolding czs_bits_def r option.case Let_def sub_state_sel czs_state.simps
      by (simp add: test' p_def sub_state_def czs_count_def w)
  qed
qed

lemma czs_byte_step:
  assumes "i < length d" "P i = zero_sample d 8 i"
  shows "czs_byte d (sub_state 8 zs P i) = Some (sub_state 8 zs P (Suc i))"
  using assms by (simp add: czs_byte_def read_at_def zero_sample_8 sub_state_Suc)

lemma czs_word_step:
  assumes "2 * i + 1 < length d" "P i = zero_sample d 16 i"
  shows "czs_word d (sub_state 16 zs P i) = Some (sub_state 16 zs P (Suc i))"
  using assms by (simp add: czs_word_def read_at_def zero_sample_16 sub_state_Suc or_eq_0_iff)
subsection \<open>Pixels and rows\<close>

lemma bind_Some_right: "Option.bind x Some = x"
  by (cases x) simp_all

lemma czs_when_simps [simp]: "czs_when True f = f" "czs_when False f = Some"
  by (simp_all add: czs_when_def fun_eq_iff)

lemma czs_grey_pixel_cases:
  "czs_grey_pixel ri d s =
     (if bit_depth ri = 1 then czs_bit1 d s
      else if bit_depth ri = 2 then czs_bits 2 0xc0 d s
      else if bit_depth ri = 4 then czs_bits 4 0xf0 d s
      else if bit_depth ri = 8 then czs_byte d s
      else if bit_depth ri = 16 then czs_word d s else Some s)"
  by (simp add: czs_grey_pixel_def bind_Some_right)

lemma czs_channel_cases:
  "czs_channel ri d s =
     (if bit_depth ri = 8 then czs_byte d s else if bit_depth ri = 16 then czs_word d s else Some s)"
  by (simp add: czs_channel_def bind_Some_right)

lemma read_bound:
  assumes "j < w" "k * w \<le> 8 * L" "0 < k"
  shows "k * j div 8 < (L :: nat)"
proof -
  have "k * j < k * w" using assms by simp
  then have "k * j < L * 8" using assms(2) by linarith
  then show ?thesis by (rule less_mult_imp_div_less)
qed

lemma iter_opt_total: "(\<And>s. f s \<noteq> None) \<Longrightarrow> iter_opt f n s \<noteq> None"
proof (induction n arbitrary: s)
  case (Suc n)
  then obtain s' where "f s = Some s'" by blast
  with Suc show ?case by simp
qed simp

lemma czs_grey_pixel_step:
  assumes bd: "bit_depth ri \<in> {1, 2, 4, 8, 16}" and j: "j < w"
    and len: "unat (bit_depth ri) * w \<le> 8 * length d"
  shows "czs_grey_pixel ri d (sub_state (unat (bit_depth ri)) zs (czs_tested d (unat (bit_depth ri))) j) =
           Some (sub_state (unat (bit_depth ri)) zs (czs_tested d (unat (bit_depth ri))) (Suc j))"
proof -
  from bd consider "bit_depth ri = 1" | "bit_depth ri = 2" | "bit_depth ri = 4" | "bit_depth ri = 8"
    | "bit_depth ri = 16" by blast
  then show ?thesis
  proof cases
    case 1
    then have "j div 8 < length d" using read_bound [OF j, of 1] len by simp
    then have "czs_bit1 d (sub_state 1 zs (czs_tested d 1) j) = Some (sub_state 1 zs (czs_tested d 1) (Suc j))"
      by (rule czs_bit1_step) (simp add: czs_tested_def zero_sample_1)
    moreover have "unat (bit_depth ri) = 1" using 1 by simp
    ultimately show ?thesis using 1 by (simp only: czs_grey_pixel_cases) simp
  next
    case 2
    then have "2 * j div 8 < length d" using read_bound [OF j, of 2] len by simp
    with 2 show ?thesis
      by (simp add: czs_grey_pixel_cases) (rule czs_bits_step, simp_all add: mask_C0 czs_tested_def)
  next
    case 3
    then have "4 * j div 8 < length d" using read_bound [OF j, of 4] len by simp
    with 3 show ?thesis
      by (simp add: czs_grey_pixel_cases) (rule czs_bits_step, simp_all add: mask_F0 czs_tested_def)
  next
    case 4
    then have "j < length d" using j len by simp
    with 4 show ?thesis by (simp add: czs_grey_pixel_cases czs_byte_step czs_tested_def)
  next
    case 5
    then have "2 * j + 1 < length d" using j len by simp
    with 5 show ?thesis by (simp add: czs_grey_pixel_cases czs_word_step czs_tested_def)
  qed
qed

lemma czs_grey_run:
  assumes ct: "color_type ri = 0 \<or> color_type ri = 3" and bd: "bit_depth ri \<in> {1, 2, 4, 8, 16}"
    and len: "unat (bit_depth ri) * unat (width ri) \<le> 8 * length d"
  shows "count_zero_samples False ri d zs =
           Some (zs + of_nat (length (filter (czs_tested d (unat (bit_depth ri))) [0..<unat (width ri)])))"
proof -
  let ?S = "sub_state (unat (bit_depth ri)) zs (czs_tested d (unat (bit_depth ri)))"
  have "iter_opt (czs_grey_pixel ri d) (unat (width ri)) (?S 0) = Some (?S (unat (width ri)))"
    by (rule iter_opt_trace, rule czs_grey_pixel_step [OF bd _ len])
  moreover have "?S 0 = \<lparr>pos = 0, dp = 0, zero_samples = zs\<rparr>" by (simp add: sub_state_def)
  ultimately show ?thesis using ct by (simp add: count_zero_samples_def sub_state_def)
qed

lemma nat_color_channels:
  "nat (color_channels ri) = (if 3 < color_type ri then unat (channels ri) - 1 else unat (channels ri))"
proof -
  have "nat (int n - (if b then 1 else 0)) = (if b then n - 1 else n)" for n b by auto
  then show ?thesis by (simp only: color_channels_def)
qed

lemma sub_state_skip:
  assumes "\<not> P i" "k = 8 \<or> k = 16"
  shows "(sub_state k zs P i)\<lparr>dp := dp (sub_state k zs P i) + k div 8\<rparr> = sub_state k zs P (Suc i)"
  using assms by (auto simp add: sub_state_def)

text \<open>The samples the code counts in a row of another colour type: all but the alpha samples.\<close>

definition czs_colour_sample :: "png_row_info \<Rightarrow> byte list \<Rightarrow> nat \<Rightarrow> bool" where
  "czs_colour_sample ri d i \<longleftrightarrow>
     \<not> (3 < color_type ri \<and> i mod unat (channels ri) = unat (channels ri) - 1)
     \<and> zero_sample d (unat (bit_depth ri)) i"

lemma czs_channel_step:
  assumes bd: "bit_depth ri = 8 \<or> bit_depth ri = 16"
    and P: "P i = zero_sample d (unat (bit_depth ri)) i"
    and len: "unat (bit_depth ri) * Suc i \<le> 8 * length d"
  shows "czs_channel ri d (sub_state (unat (bit_depth ri)) zs P i) =
           Some (sub_state (unat (bit_depth ri)) zs P (Suc i))"
  using bd
proof
  assume b: "bit_depth ri = 8"
  then have "i < length d" using len by simp
  with b P show ?thesis by (simp add: czs_channel_cases czs_byte_step)
next
  assume b: "bit_depth ri = 16"
  then have "2 * i + 1 < length d" using len by simp
  with b P show ?thesis by (simp add: czs_channel_cases czs_word_step)
qed

lemma czs_other_pixel_step:
  assumes bd: "bit_depth ri = 8 \<or> bit_depth ri = 16" and c: "0 < unat (channels ri)"
    and len: "unat (bit_depth ri) * (unat (channels ri) * Suc j) \<le> 8 * length d"
  shows "czs_other_pixel ri d (sub_state (unat (bit_depth ri)) zs (czs_colour_sample ri d) (unat (channels ri) * j)) =
           Some (sub_state (unat (bit_depth ri)) zs (czs_colour_sample ri d) (unat (channels ri) * Suc j))"
proof -
  let ?c = "unat (channels ri)" and ?k = "unat (bit_depth ri)" and ?cc = "nat (color_channels ri)"
  let ?S = "\<lambda>i. sub_state ?k zs (czs_colour_sample ri d) i"
  have cc: "?cc \<le> ?c" using c by (simp add: nat_color_channels)
  have inner: "iter_opt (czs_channel ri d) ?cc (?S (?c * j + 0)) = Some (?S (?c * j + ?cc))"
  proof (rule iter_opt_trace [where S = "\<lambda>ch. ?S (?c * j + ch)"])
    fix ch
    assume ch: "ch < ?cc"
    have "(?c * j + ch) mod ?c = ch" using ch cc by simp
    then have "czs_colour_sample ri d (?c * j + ch) = zero_sample d ?k (?c * j + ch)"
      using ch c by (auto simp add: czs_colour_sample_def nat_color_channels split: if_splits)
    moreover have "?k * Suc (?c * j + ch) \<le> 8 * length d"
    proof -
      have "Suc (?c * j + ch) \<le> ?c * Suc j" using ch cc by simp
      then have "?k * Suc (?c * j + ch) \<le> ?k * (?c * Suc j)" by (rule mult_le_mono2)
      with len show ?thesis by linarith
    qed
    ultimately show "czs_channel ri d (?S (?c * j + ch)) = Some (?S (?c * j + Suc ch))"
      using czs_channel_step [OF bd] by simp
  qed
  show ?thesis
  proof (cases "3 < color_type ri")
    case True
    then have cc1: "?cc = ?c - 1" using c by (simp add: nat_color_channels)
    have "(?c * j + (?c - 1)) mod ?c = (?c - 1) mod ?c" by (rule mod_mult_self4)
    also have "\<dots> = ?c - 1" using c by simp
    finally have notP: "\<not> czs_colour_sample ri d (?c * j + (?c - 1))"
      using True by (simp only: czs_colour_sample_def) simp
    have k816: "?k = 8 \<or> ?k = 16" using bd by auto
    have dpk: "x + 1 + (if bit_depth ri = 16 then 1 else 0) = x + ?k div 8" for x :: nat using bd by auto
    have e: "Suc (?c * j + (?c - 1)) = ?c * Suc j" using c by simp
    have "czs_other_pixel ri d (?S (?c * j)) =
            Some ((?S (?c * j + (?c - 1)))\<lparr>dp := dp (?S (?c * j + (?c - 1))) + ?k div 8\<rparr>)"
      using inner True unfolding czs_other_pixel_def cc1 dpk by simp
    then show ?thesis unfolding sub_state_skip [of "czs_colour_sample ri d" "?c * j + (?c - 1)" ?k zs, OF notP k816] e .
  next
    case False
    then have "?cc = ?c" using c by (simp add: nat_color_channels)
    with inner False show ?thesis by (simp add: czs_other_pixel_def add.commute)
  qed
qed

lemma czs_start: "\<lparr>pos = 0, dp = 0, zero_samples = zs\<rparr> = sub_state k zs P 0"
  by (simp add: sub_state_def)

lemma ceil8_le: "(x + 7) div 8 \<le> L \<Longrightarrow> x \<le> 8 * (L :: nat)"
  using div_mult_mod_eq [of "x + 7" 8] mod_less_divisor [of 8 "x + 7"] by linarith

lemma czs_other_trace:
  assumes bd: "bit_depth ri = 8 \<or> bit_depth ri = 16" and c: "0 < unat (channels ri)"
    and len: "unat (bit_depth ri) * (unat (channels ri) * unat (width ri)) \<le> 8 * length d"
  shows "iter_opt (czs_other_pixel ri d) (unat (width ri))
           (sub_state (unat (bit_depth ri)) zs (czs_colour_sample ri d) (unat (channels ri) * 0)) =
         Some (sub_state (unat (bit_depth ri)) zs (czs_colour_sample ri d) (unat (channels ri) * unat (width ri)))"
proof (rule iter_opt_trace [where S = "\<lambda>j. sub_state (unat (bit_depth ri)) zs (czs_colour_sample ri d) (unat (channels ri) * j)"])
  fix j
  assume "j < unat (width ri)"
  then have "unat (channels ri) * Suc j \<le> unat (channels ri) * unat (width ri)" by (intro mult_le_mono2) simp
  then have "unat (bit_depth ri) * (unat (channels ri) * Suc j) \<le> unat (bit_depth ri) * (unat (channels ri) * unat (width ri))"
    by (rule mult_le_mono2)
  with len show "czs_other_pixel ri d (sub_state (unat (bit_depth ri)) zs (czs_colour_sample ri d) (unat (channels ri) * j)) =
      Some (sub_state (unat (bit_depth ri)) zs (czs_colour_sample ri d) (unat (channels ri) * Suc j))"
    by (intro czs_other_pixel_step [OF bd c]) linarith
qed

lemma czs_other_pixel_total:
  assumes "\<not> ((bit_depth ri = 8 \<or> bit_depth ri = 16) \<and> 0 < unat (channels ri))"
  shows "czs_other_pixel ri d s \<noteq> None"
proof (cases "unat (channels ri) = 0")
  case True
  then have "nat (color_channels ri) = 0" by (simp add: nat_color_channels)
  then show ?thesis by (simp add: czs_other_pixel_def)
next
  case False
  with assms have "czs_channel ri d s' = Some s'" for s' by (simp add: czs_channel_cases)
  then have "iter_opt (czs_channel ri d) n s \<noteq> None" for n by (intro iter_opt_total) simp
  then show ?thesis by (simp add: czs_other_pixel_def)
qed

text \<open>
  C37. For grey and palette rows of bit depth 1, 8 or 16 whose buffer holds the
  row, \<open>count_zero_samples\<close> adds to the counter exactly the number of zero
  samples among the first \<open>width\<close> samples, a sample being read MSB-first as by
  \<open>readBitsFromReversedStream\<close>.
\<close>

theorem count_zero_samples_grey_exact:
  assumes "color_type ri = 0 \<or> color_type ri = 3"
    and "bit_depth ri = 1 \<or> bit_depth ri = 8 \<or> bit_depth ri = 16"
    and "unat (bit_depth ri) * unat (width ri) \<le> 8 * length d"
  shows "count_zero_samples False ri d zs =
           Some (zs + of_nat (length (filter (zero_sample d (unat (bit_depth ri))) [0..<unat (width ri)])))"
proof -
  have "czs_tested d (unat (bit_depth ri)) = zero_sample d (unat (bit_depth ri))"
    using assms(2) by (auto simp add: czs_tested_def fun_eq_iff)
  moreover have "bit_depth ri \<in> {1, 2, 4, 8, 16}" using assms(2) by blast
  ultimately show ?thesis using czs_grey_run [OF assms(1) _ assms(3)] by simp
qed

text \<open>
  C38. For grey and palette rows of bit depth 2 or 4 the test
  \<open>(*dp << (pos += k)) & mask\<close> shifts by the already incremented \<open>pos\<close>: pixel
  \<open>j\<close> is counted when sample \<open>j + 1\<close> is zero, and the last pixel of each byte is
  always counted, whatever its value.
\<close>

theorem count_zero_samples_subbyte_shift:
  assumes "color_type ri = 0 \<or> color_type ri = 3"
    and "bit_depth ri = 2 \<or> bit_depth ri = 4"
    and "unat (bit_depth ri) * unat (width ri) \<le> 8 * length d"
  shows "count_zero_samples False ri d zs =
           Some (zs + of_nat (length (filter
             (\<lambda>j. j mod (8 div unat (bit_depth ri)) = 8 div unat (bit_depth ri) - 1
                  \<or> zero_sample d (unat (bit_depth ri)) (Suc j)) [0..<unat (width ri)])))"
proof -
  have "czs_tested d (unat (bit_depth ri)) =
          (\<lambda>j. j mod (8 div unat (bit_depth ri)) = 8 div unat (bit_depth ri) - 1
               \<or> zero_sample d (unat (bit_depth ri)) (Suc j))"
    using assms(2) by (auto simp add: czs_tested_def fun_eq_iff)
  moreover have "bit_depth ri \<in> {1, 2, 4, 8, 16}" using assms(2) by blast
  ultimately show ?thesis using czs_grey_run [OF assms(1) _ assms(3)] by simp
qed

text \<open>
  C39. For the other colour types at depth 8 or 16, \<open>count_zero_samples\<close>
  counts the zero samples of the row channel by channel and skips the alpha
  channel of the types with alpha (colour type above 3).
\<close>

theorem count_zero_samples_other:
  assumes "\<not> (color_type ri = 0 \<or> color_type ri = 3)"
    and "bit_depth ri = 8 \<or> bit_depth ri = 16" and "0 < unat (channels ri)"
    and "unat (bit_depth ri) * (unat (channels ri) * unat (width ri)) \<le> 8 * length d"
  shows "count_zero_samples False ri d zs =
           Some (zs + of_nat (length (filter (czs_colour_sample ri d) [0..<unat (channels ri) * unat (width ri)])))"
  using czs_other_trace [OF assms(2-4), of zs] assms(1)
  by (simp add: count_zero_samples_def czs_start [where k = "unat (bit_depth ri)" and P = "czs_colour_sample ri d"])
     (simp add: sub_state_def)

text \<open>
  C40. On a row descriptor that is consistent (pixel depth and row bytes as
  libpng computes them, one channel for grey and palette) and a buffer of at
  least \<open>rowbytes\<close> bytes, \<open>count_zero_samples\<close> never reads past the row: it
  returns a counter for every colour type and bit depth.
\<close>

theorem count_zero_samples_defined:
  assumes wf: "row_info_wf ri" and len: "rowbytes ri \<le> length d"
  shows "\<exists>z. count_zero_samples p ri d zs = Some z"
proof (cases p)
  case True
  then show ?thesis by (simp add: count_zero_samples_def)
next
  case False
  have pd: "unat (width ri) * (unat (bit_depth ri) * unat (channels ri)) \<le> 8 * length d"
    using wf len ceil8_le [of "unat (width ri) * unat (pixel_depth ri)" "length d"] by (simp add: row_info_wf_def)
  show ?thesis
  proof (cases "color_type ri = 0 \<or> color_type ri = 3")
    case grey: True
    then have "unat (channels ri) = 1" using wf by (simp add: row_info_wf_def)
    with pd have l: "unat (bit_depth ri) * unat (width ri) \<le> 8 * length d" by (simp add: mult.commute)
    show ?thesis
    proof (cases "bit_depth ri \<in> {1, 2, 4, 8, 16}")
      case True
      with czs_grey_run [OF grey True l] False show ?thesis by simp
    next
      case nd: False
      then have "czs_grey_pixel ri d s = Some s" for s by (auto simp add: czs_grey_pixel_cases)
      then have "iter_opt (czs_grey_pixel ri d) (unat (width ri)) s \<noteq> None" for s
        by (intro iter_opt_total) simp
      with grey False show ?thesis by (auto simp add: count_zero_samples_def)
    qed
  next
    case other: False
    show ?thesis
    proof (cases "(bit_depth ri = 8 \<or> bit_depth ri = 16) \<and> 0 < unat (channels ri)")
      case True
      with pd have "unat (bit_depth ri) * (unat (channels ri) * unat (width ri)) \<le> 8 * length d"
        by (simp add: ac_simps)
      with True have "iter_opt (czs_other_pixel ri d) (unat (width ri)) (sub_state (unat (bit_depth ri)) zs
          (czs_colour_sample ri d) (unat (channels ri) * 0)) \<noteq> None"
        using czs_other_trace [of ri d zs] by simp
      with other False show ?thesis
        by (auto simp add: count_zero_samples_def czs_start [where k = "unat (bit_depth ri)" and P = "czs_colour_sample ri d"])
    next
      case nd: False
      then have "iter_opt (czs_other_pixel ri d) (unat (width ri)) s \<noteq> None" for s
        by (intro iter_opt_total czs_other_pixel_total)
      with other False show ?thesis by (auto simp add: count_zero_samples_def)
    qed
  qed
qed

theorem count_zero_samples_grey_exact_witness:
  "count_zero_samples False
     \<lparr>width = 8, rowbytes = 1, color_type = 0, bit_depth = 1, channels = 1, pixel_depth = 1\<rparr> [0x5A] 0 = Some 4"
  using count_zero_samples_grey_exact
    [of "\<lparr>width = 8, rowbytes = 1, color_type = 0, bit_depth = 1, channels = 1, pixel_depth = 1\<rparr>" "[0x5A]" 0]
  by (simp add: zero_sample_1 bit_at_def upt_rec)

theorem count_zero_samples_subbyte_shift_witness:
  "count_zero_samples False
     \<lparr>width = 4, rowbytes = 1, color_type = 0, bit_depth = 2, channels = 1, pixel_depth = 2\<rparr> [0xFF] 0 = Some 1 \<and>
   filter (zero_sample [0xFF] 2) [0..<4] = []"
  using count_zero_samples_subbyte_shift
    [of "\<lparr>width = 4, rowbytes = 1, color_type = 0, bit_depth = 2, channels = 1, pixel_depth = 2\<rparr>" "[0xFF]" 0]
  by (simp add: zero_sample_bits all_less_list_all bit_at_def upt_rec)

theorem count_zero_samples_other_witness:
  "count_zero_samples False
     \<lparr>width = 2, rowbytes = 8, color_type = 6, bit_depth = 8, channels = 4, pixel_depth = 32\<rparr>
     [0, 1, 0, 0, 5, 0, 7, 0] 0 = Some 3"
  using count_zero_samples_other
    [of "\<lparr>width = 2, rowbytes = 8, color_type = 6, bit_depth = 8, channels = 4, pixel_depth = 32\<rparr>"
        "[0, 1, 0, 0, 5, 0, 7, 0]" 0]
  by (simp add: czs_colour_sample_def zero_sample_8 upt_rec)

theorem count_zero_samples_defined_witness:
  "\<exists>z. count_zero_samples False
     \<lparr>width = 3, rowbytes = 1, color_type = 3, bit_depth = 2, channels = 1, pixel_depth = 2\<rparr> [0x1B] 0 = Some z"
  using count_zero_samples_defined
    [of "\<lparr>width = 3, rowbytes = 1, color_type = 3, bit_depth = 2, channels = 1, pixel_depth = 2\<rparr>" "[0x1B]" False 0]
  by (simp add: row_info_wf_def)
end
