(* ===== verification/DriverLpng.thy ===== *)
theory DriverLpng
  imports Driver
begin

text \<open>
  The driver of \<^verbatim>\<open>src/lpng1634/pngtest.c\<close>: the same per-file pipeline and
  directory walk as the driver of \<^verbatim>\<open>src/pngtest.c\<close> (Driver.thy), built
  against the lodepng library instead of a local copy. It differs in two
  functions: \<open>auto_convert_data\<close> pads sub-byte scanlines with
  \<open>addPaddingBits_export\<close> and does not run \<open>preProcessScanlines\<close>, and
  \<open>encode_png\<close> calls \<open>SetPLTE\<close> only for palette modes. The library's
  \<open>addPaddingBits_export\<close> and \<open>lodepng_color_mode_equal_export\<close> are the
  functions modelled in BitStream.thy and ColorMode.thy. The helpers that are
  textual copies of those of \<^verbatim>\<open>src/pngtest.c\<close> (\<open>bytep_to_bytepp\<close>,
  \<open>update_info\<close>, \<open>color_mode_init\<close>, \<dots>) are used from Driver.thy.
\<close>

text \<open>
  \<open>auto_convert_data\<close>: convert into a buffer of \<open>(height * width * bpp + 7) / 8\<close>
  bytes; when the scanlines are not whole bytes, pad them into a second buffer of
  \<open>height * ((width * bpp + 7) / 8)\<close> bytes and split that into rows. Both
  buffers come from \<open>malloc\<close> and every byte is written before it is read, so
  they start as zeros as in Driver.thy.
\<close>

definition auto_convert_data_lpng ::
  "color_mode \<Rightarrow> color_mode \<Rightarrow> int \<Rightarrow> int \<Rightarrow> byte list \<Rightarrow> byte list list \<Rightarrow> byte list list" where
  "auto_convert_data_lpng mode_in mode_out width height inp rows_out =
     (let bpp = int (lodepng_get_bpp mode_out);
          linebits = ((width * bpp + 7) div 8) * 8;
          converted = snd (lodepng_convert
                             (replicate (unat ((word_of_int height * word_of_int width * word_of_int bpp + 7) div (8 :: u32))) 0)
                             inp mode_out mode_in (word_of_int width) (word_of_int height))
      in if bpp < 8 \<and> width * bpp \<noteq> linebits then
           bytep_to_bytepp mode_out width height
             (addPaddingBits (replicate (nat (height * ((width * bpp + 7) div 8))) 0) converted
                (nat linebits) (nat (width * bpp)) (nat height)) rows_out
         else bytep_to_bytepp mode_out width height converted rows_out)"

text \<open>\<open>decode_png\<close>: as in Driver.thy, with this file's \<open>auto_convert_data\<close>.\<close>

definition decode_png_lpng ::
  "png_file \<Rightarrow> color_mode \<Rightarrow> color_mode \<Rightarrow> auto_pic_data \<Rightarrow> int \<times> color_mode \<times> color_mode \<times> auto_pic_data" where
  "decode_png_lpng f mode_in mode_out pic =
     (if \<not> file_opens f then (-1, mode_in, mode_out, pic)
      else if \<not> signature_ok f then (1, mode_in, mode_out, pic)
      else
        (let width = file_width f; height = file_height f;
             pic1 = pic\<lparr>pic_height := height, pic_width := width, pic_src_size := file_size f,
                        pic_size := file_size f, pic_rows := None\<rparr>;
             mi = color_mode_init mode_in (file_color_type f) (file_bit_depth f);
             mo = lodepng_color_mode_copy (lodepng_color_mode_cleanup mode_out) mi
         in if colortype mi \<noteq> LCT_RGB \<and> colortype mi \<noteq> LCT_RGBA then (-1, mi, mo, pic1)
            else
              (let inp = bytepp_to_bytep mi width height (malloc_png_bytep mi width height) (file_rows f);
                   mo' = lodepng_auto_choose_color mo inp (word_of_int width) (word_of_int height) mi
               in if lodepng_color_mode_equal mo' mi then (-2, mi, mo', pic1)
                  else (0, mi, mo', pic1\<lparr>pic_rows := Some (auto_convert_data_lpng mi mo' width height inp
                                                         (malloc_png_bytepp mo' width height))\<rparr>))))"

text \<open>\<open>encode_png\<close>: the palette is handed to libpng only when the mode is a palette mode.\<close>

definition encode_png_lpng :: "bool \<Rightarrow> int \<Rightarrow> color_mode \<Rightarrow> auto_pic_data \<Rightarrow> int \<times> auto_pic_data \<times> png_written option" where
  "encode_png_lpng opens new_size mode pic =
     (if \<not> opens then (-1, pic, None)
      else (0, pic\<lparr>pic_size := new_size\<rparr>,
            Some \<lparr>ihdr_width = pic_width pic, ihdr_height = pic_height pic, ihdr_bitdepth = bitdepth mode,
                  ihdr_colortype = lct_code (colortype mode),
                  plte = (if colortype mode = LCT_PALETTE then SetPLTE mode else None),
                  idat_rows = SetIDAT (case pic_rows pic of Some rs \<Rightarrow> rs | None \<Rightarrow> []) (pic_height pic)\<rparr>))"

definition convert_png_lpng :: "png_file \<Rightarrow> bool \<Rightarrow> int \<Rightarrow> pngexportinfo \<Rightarrow> pngexportinfo \<times> png_written option" where
  "convert_png_lpng f opens new_size info =
     (case decode_png_lpng f lodepng_color_mode_init lodepng_color_mode_init pic_data_zero of
        (code, mi, mo, pic) \<Rightarrow>
          (if code = 0 then
             (case encode_png_lpng opens new_size mo pic of (e, pic', w) \<Rightarrow> (update_info mo pic' info, w))
           else (update_info mo pic info, None)))"

fun convert_folder_lpng :: "fs_entry list \<Rightarrow> pngexportinfo \<Rightarrow> pngexportinfo \<times> png_written list"
and convert_entry_lpng :: "fs_entry \<Rightarrow> pngexportinfo \<Rightarrow> pngexportinfo \<times> png_written list" where
  "convert_folder_lpng [] info = (info, [])"
| "convert_folder_lpng (e # es) info =
     (case convert_entry_lpng e info of
        (info', ws) \<Rightarrow> (case convert_folder_lpng es info' of (info'', ws') \<Rightarrow> (info'', ws @ ws')))"
| "convert_entry_lpng (FsDir name es) info =
     (if name = ''.'' \<or> name = ''..'' then (info, []) else convert_folder_lpng es info)"
| "convert_entry_lpng (FsFile name f opens new_size) info =
     (if is_png_name name then
        (case convert_png_lpng f opens new_size info of
           (info', w) \<Rightarrow> (info', case w of Some x \<Rightarrow> [x] | None \<Rightarrow> []))
      else (info, []))"

end
