(* ===== verification/Spec2Isabelle.thy ===== *)
theory Spec2Isabelle
  imports ColorMode BitStream ColorTree PixelRead Profile ProfileProps AutoChoose Convert SelectorProps ConvertProps ScanlineFilter FilterProps Driver DriverProps Chunk EncoderPng EncoderProps AutoPng AutoPngProps ZeroSamples ZeroSamplesProps DriverLpng DriverLpngProps
begin

text \<open>
  \<^bold>\<open>A verification development of the PNG colour-reduction tool.\<close>

  \<^bold>\<open>The program.\<close> \<^verbatim>\<open>src/pngtest.c\<close> walks a directory tree and rewrites each
  RGB or RGBA PNG in the smallest colour mode that keeps its pixels. libpng
  reads the file and the rows are flattened into one buffer. A copy of
  lodepng's colour machinery then does the rest:
  \<^item> the colour profile (\<open>lodepng_get_color_profile\<close>);
  \<^item> the choice of mode (\<open>lodepng_auto_choose_color\<close>);
  \<^item> the conversion (\<open>lodepng_convert\<close>).

  The rows go back to libpng and the statistics are updated.
  \<^verbatim>\<open>src/lpng1634/png_.c\<close> is a second driver around the same lodepng copy.
  It adds the encoder side: filter strategies, the CRC and chunk writer, and
  \<open>autoWriteFile\<close>. It also carries libpng's test harness, whose
  \<open>count_zero_samples\<close> callback is pure computation.
  \<^verbatim>\<open>src/lpng1634/pngtest.c\<close> is a second build of the \<^verbatim>\<open>pngtest.c\<close>
  driver against the lodepng library, differing in two functions.

  \<^bold>\<open>Theories and what they model\<close> (C functions of \<^verbatim>\<open>src/pngtest.c\<close> unless
  said otherwise):
  \<^item> \<open>Prelude\<close>: machine types as words (\<open>byte\<close>, \<open>u16\<close>, \<open>u32\<close>); the pixel
    count \<open>w * h\<close> in 32-bit arithmetic; \<open>read_at\<close>, a byte read through a
    pointer, undefined past the buffer; list, word and arithmetic lemmas.
  \<^item> \<open>ColorMode\<close>: \<open>LodePNGColorMode\<close> as a record, the colour-type queries,
    the palette functions, \<open>lodepng_color_mode_equal\<close> and
    \<open>lodepng_get_raw_size\<close>.
  \<^item> \<open>BitStream\<close>: the MSB-first bit readers and writers, \<open>addColorBits\<close>
    and \<open>addPaddingBits\<close>.
  \<^item> \<open>ColorTree\<close>: the 16-ary colour trie (\<open>color_tree_add\<close>, \<open>color_tree_get\<close>).
  \<^item> \<open>PixelRead\<close>: \<open>getPixelColorRGBA8/16\<close> and \<open>getPixelColorsRGBA8\<close>.
    Out-parameters are the caller's previous values, so the assignment to a
    pointer at line 263 is kept.
  \<^item> \<open>Profile\<close>: both passes of \<open>lodepng_get_color_profile\<close>, with the key
    and alpha state machine, the early break, the key recheck and the widening.
  \<^item> \<open>AutoChoose\<close>: \<open>lodepng_auto_choose_color\<close>.
  \<^item> \<open>Convert\<close>: \<open>lodepng_convert\<close>, returning its error code and the buffer.
  \<^item> \<open>ScanlineFilter\<close>: \<open>paethPredictor\<close>, \<open>filterScanline\<close>, \<open>filter\<close> and
    \<open>preProcessScanlines\<close>.
  \<^item> \<open>Driver\<close>: the row buffers, \<open>auto_convert_data\<close>, \<open>decode_png\<close>,
    \<open>encode_png\<close>, \<open>update_info\<close>, \<open>convert_png\<close> and \<open>convert_folder\<close>.
    libpng is abstracted as what it returns (\<open>png_file\<close>) and what it is given
    (\<open>png_written\<close>); the statistics are state threaded through the walk.
  \<^item> \<open>Chunk\<close> (\<^verbatim>\<open>png_.c\<close>): \<open>ucvector\<close>, the big-endian 32-bit integers,
    \<open>lodepng_crc32\<close> with its table, \<open>lodepng_chunk_create\<close> (size_t as a
    64-bit word) and \<open>addChunk\<close>.
  \<^item> \<open>EncoderPng\<close> (\<^verbatim>\<open>png_.c\<close>): the encoder settings, info and state
    records; \<open>Adam7_getpassvalues\<close>; \<open>filter\<close> with its strategies
    (ZERO, MINSUM, ENTROPY, PREDEFINED, BRUTE_FORCE); \<open>preProcessScanlines\<close>
    with filter-type bytes.
  \<^item> \<open>AutoPng\<close> (\<^verbatim>\<open>png_.c\<close>): \<open>auto_detect_png\<close>, \<open>autoWriteFile\<close>,
    \<open>autoupdateInfo\<close>, \<open>autoCovertFile\<close> and \<open>ConvertFolder\<close>.
  \<^item> \<open>ZeroSamples\<close> (\<^verbatim>\<open>png_.c\<close>): \<open>count_zero_samples\<close>. The static counter is
    a 32-bit word threaded in and out, and the pointer \<open>dp\<close> is an offset into
    the row. Each \<open>if (bit_depth == k)\<close> block is one step, and the pixel loop
    is \<open>iter_opt\<close>.
  \<^item> \<open>DriverLpng\<close> (\<^verbatim>\<open>lpng1634/pngtest.c\<close>): its \<open>auto_convert_data\<close>
    (padding only), \<open>decode_png\<close>, \<open>encode_png\<close> (palette only for palette
    modes), \<open>convert_png\<close> and \<open>convert_folder\<close>. Its helpers that are textual
    copies of those of \<^verbatim>\<open>pngtest.c\<close> are taken from \<open>Driver\<close>.
  The theories \<open>ProfileProps\<close>, \<open>SelectorProps\<close>, \<open>ConvertProps\<close>,
  \<open>FilterProps\<close>, \<open>DriverProps\<close>, \<open>EncoderProps\<close>, \<open>AutoPngProps\<close>,
  \<open>ZeroSamplesProps\<close> and \<open>DriverLpngProps\<close> hold the properties. Each claim is
  introduced by a text naming its id, C1 to C40.

  \<^bold>\<open>Conventions.\<close> Errors are values: lodepng's error codes are numbers next to
  the result. Undefined behaviour, such as a NULL dereference or a read past a
  buffer, makes the result \<open>None\<close>. Memory read before it is written
  (\<open>malloc\<close>ed structures, uninitialised fields) is an input holding its
  previous contents. A buffer from \<open>malloc\<close> is a zero-filled list of its size
  wherever the code writes every byte before reading it. Loops are
  \<open>fold\<close>s of a named step, or structural \<open>fun\<close>s written in
  continuation style, so that concrete runs evaluate by \<open>code_simp\<close>. Every
  loop of the code is bounded by a counter or a list, so no fuel is needed. A
  loop whose body may fault is \<open>iter_opt\<close>: a count of steps of an
  option-valued body. That it does not fault is proved as such: it returns
  \<open>Some\<close> (C40).
  \<open>size_t\<close> sums are \<open>nat\<close> where they provably cannot wrap, and 64-bit words
  where the code tests for wrapping.

  \<^bold>\<open>What is shown\<close>:
  \<^item> Bit packing round-trips (C2).
  \<^item> The colour tree refines a finite map (C3).
  \<^item> The profile's colour key is exact (C4).
  \<^item> The selector's choices (C5 to C10).
  \<^item> The converter's copy and palette-error paths (C11, C12).
  \<^item> The two drivers are interchangeable on images below \<open>2^28\<close> pixels (C13).
    This composes \<open>addPaddingBits\<close> with the pass-through of \<open>filter\<close>
    (C14) and the palette guard of \<open>SetPLTE\<close>.
  \<^item> Every filter type and the strategy filter of \<^verbatim>\<open>png_.c\<close> are invertible
    (C15, C26). The adaptive choice is the first minimum (C27).
  \<^item> The table CRC equals the bitwise CRC of the PNG specification (C22).
  \<^item> The chunk layout and its overflow check (C24, C25).
  \<^item> The Adam7 passes partition the image (C29).
  \<^item> The driver-level runs of the specification's scenario (C7, C16, C17,
    C32).
  \<^item> \<open>count_zero_samples\<close> counts zero samples exactly at depths 1, 8 and 16
    and in colour rows, where it skips alpha (C37, C39). At depths 2 and 4 it
    tests the wrong sample (C38). On a consistent row it never reads past the
    buffer (C40).
  \<^item> The remaining claims record defects of the code; PROJECT.json lists them
    as findings.

  \<^bold>\<open>Not modelled\<close>:
  \<^item> libpng and zlib are external libraries. Reading is abstracted by the
    record of what they return; the compressed file size is an input.
  \<^item> File and directory I/O, \<open>printf\<close> output, timing and \<open>main\<close>.
  \<^item> The libpng harness of \<^verbatim>\<open>png_.c\<close>, and the libpng-based path that
    its \<open>main\<close> no longer calls. This is code that only drives libpng:
    \<open>test_one_file\<close>, the I/O and memory callbacks, \<open>detect_png\<close>,
    \<open>detect_palette_png\<close>, \<open>write_png_file\<close>, \<open>write_png_palette\<close> and
    \<open>ConvertFile\<close>.
  \<^item> In \<^verbatim>\<open>lpng1634/pngtest.c\<close>: \<open>writefile\<close>, \<open>display_info\<close>,
    \<open>test_info\<close> and \<open>main\<close>, which only print. Its copies of the
    \<^verbatim>\<open>pngtest.c\<close> helpers are modelled once, in \<open>Driver\<close>.
  \<^item> The OpenCV writer in \<^verbatim>\<open>Source.cpp\<close>.
  \<^item> The float function \<open>flog2\<close>. The entropy strategy takes its Shannon sum
    as a parameter.
  \<^item> Allocation failure (error 83).
  \<^item> The lodepng functions of \<^verbatim>\<open>png_.c\<close> that are textual copies of
    those in \<^verbatim>\<open>pngtest.c\<close> are modelled once.
\<close>

end
